theory Spec2Isabelle
  imports Complex_Main
begin

section \<open>Tensors, Python values and errors\<close>

text \<open>
  The embedding follows \<^verbatim>\<open>src/algorithms_step/model.py\<close>.

  A float tensor of shape \<open>(N, d)\<close> is the list of its \<open>N\<close> rows, each a list of \<open>d\<close>
  scalars of the type \<open>fp\<close> below. An integer tensor (the treatment labels \<^verbatim>\<open>data['t'][k]\<close> and
  \<^verbatim>\<open>data['prev_action']\<close>, on which \<^verbatim>\<open>.long()\<close> is the identity) is a list of
  rows of integers. A tensor with no row carries no width in this representation; the
  theorems below speak about the rows of the tensors, sample by sample.

  Every exception the code can raise is a value: Python's \<^verbatim>\<open>KeyError\<close> and
  \<^verbatim>\<open>IndexError\<close>, and the \<^verbatim>\<open>RuntimeError\<close> of a torch operation, tagged with
  the check of the operation that failed.
\<close>

text \<open>
  A scalar of a float tensor is a real number, plus or minus infinity, or NaN. On infinities
  and NaN the operations are those of IEEE 754: NaN absorbs, \<open>inf - inf\<close> and \<open>0 * inf\<close> are
  NaN. On finite numbers they are exact: rounding, overflow of a finite result and the sign
  of zero are not represented.
\<close>

datatype fp = Finite real | PInf | NInf | NaN

instantiation fp :: "{zero, one, plus, uminus, minus, times}"
begin

definition zero_fp :: fp where "0 = Finite 0"

definition one_fp :: fp where "1 = Finite 1"

fun plus_fp :: "fp \<Rightarrow> fp \<Rightarrow> fp" where
  "NaN + _ = NaN"
| "_ + NaN = NaN"
| "PInf + NInf = NaN"
| "NInf + PInf = NaN"
| "PInf + _ = PInf"
| "_ + PInf = PInf"
| "NInf + _ = NInf"
| "_ + NInf = NInf"
| "Finite a + Finite b = Finite (a + b)"

fun uminus_fp :: "fp \<Rightarrow> fp" where
  "- Finite a = Finite (- a)"
| "- PInf = NInf"
| "- NInf = PInf"
| "- NaN = NaN"

definition minus_fp :: "fp \<Rightarrow> fp \<Rightarrow> fp" where "(a::fp) - b = a + (- b)"

fun times_fp :: "fp \<Rightarrow> fp \<Rightarrow> fp" where
  "NaN * _ = NaN"
| "_ * NaN = NaN"
| "Finite a * Finite b = Finite (a * b)"
| "Finite a * PInf = (if a = 0 then NaN else if 0 < a then PInf else NInf)"
| "Finite a * NInf = (if a = 0 then NaN else if 0 < a then NInf else PInf)"
| "PInf * Finite b = (if b = 0 then NaN else if 0 < b then PInf else NInf)"
| "NInf * Finite b = (if b = 0 then NaN else if 0 < b then NInf else PInf)"
| "PInf * PInf = PInf"
| "PInf * NInf = NInf"
| "NInf * PInf = NInf"
| "NInf * NInf = PInf"

instance ..

end

instance fp :: comm_monoid_add
proof (standard, goal_cases)
  case (1 u v w)
  then show ?case by (cases u; cases v; cases w; simp)
next
  case (2 u v)
  then show ?case by (cases u; cases v; simp)
next
  case (3 u)
  then show ?case unfolding zero_fp_def by (cases u; simp)
qed

instance fp :: numeral ..

definition is_finite :: "fp \<Rightarrow> bool" where
  "is_finite v = (case v of Finite _ \<Rightarrow> True | _ \<Rightarrow> False)"

text \<open>The conversion of an integer to a float (\<^verbatim>\<open>.float()\<close>, and the promotion of an
  integer operand of a float operation).\<close>

definition fp_of_int :: "int \<Rightarrow> fp" where
  "fp_of_int k = Finite (real_of_int k)"

text \<open>\<^verbatim>\<open>relu\<close> of a scalar: the larger of 0 and the scalar, and NaN for NaN.\<close>

fun relu :: "fp \<Rightarrow> fp" where
  "relu (Finite a) = Finite (max 0 a)"
| "relu PInf = PInf"
| "relu NInf = Finite 0"
| "relu NaN = NaN"

text \<open>The order in which torch sorts scalars: NaN counts as the largest.\<close>

fun fp_le :: "fp \<Rightarrow> fp \<Rightarrow> bool" where
  "fp_le _ NaN = True"
| "fp_le NaN _ = False"
| "fp_le NInf _ = True"
| "fp_le _ PInf = True"
| "fp_le (Finite a) (Finite b) = (a \<le> b)"
| "fp_le PInf _ = False"
| "fp_le (Finite a) NInf = False"

type_synonym tensor = "fp list list"
type_synonym long_tensor = "int list list"

datatype torch_check =
    shapes_cannot_be_multiplied
  | expected_nonempty_list
  | sizes_must_match
  | not_broadcastable
  | index_out_of_bounds
  | index_exceeds_self
  | k_out_of_range
  | invalid_padding

datatype error = KeyError string | IndexError | RuntimeError torch_check

definition bindE :: "error + 'a \<Rightarrow> ('a \<Rightarrow> error + 'b) \<Rightarrow> error + 'b" where
  "bindE m f = (case m of Inl e \<Rightarrow> Inl e | Inr x \<Rightarrow> f x)"

text \<open>A list comprehension whose body may raise: the first exception ends it.\<close>

fun mapE :: "('a \<Rightarrow> error + 'b) \<Rightarrow> 'a list \<Rightarrow> error + 'b list" where
  "mapE f [] = Inr []"
| "mapE f (x # xs) = bindE (f x) (\<lambda>v. bindE (mapE f xs) (\<lambda>vs. Inr (v # vs)))"

text \<open>Python's \<^verbatim>\<open>xs[-n:]\<close> (for \<open>n = 0\<close> it is \<^verbatim>\<open>xs[0:]\<close>, the whole list) and
  \<^verbatim>\<open>xs[-1]\<close>.\<close>

definition py_slice_last :: "nat \<Rightarrow> 'a list \<Rightarrow> 'a list" where
  "py_slice_last n xs = (if n = 0 then xs else drop (length xs - n) xs)"

definition py_last :: "'a list \<Rightarrow> error + 'a" where
  "py_last xs = (if xs = [] then Inl IndexError else Inr (last xs))"

text \<open>\<^verbatim>\<open>x.shape[-1]\<close> of a two-dimensional tensor with at least one row.\<close>

definition shape_last :: "'a list list \<Rightarrow> nat" where
  "shape_last m = (case m of [] \<Rightarrow> 0 | r # _ \<Rightarrow> length r)"

section \<open>The torch operations the model uses\<close>

subsection \<open>\<^verbatim>\<open>nn.Linear\<close>, \<^verbatim>\<open>nn.ReLU\<close>, \<^verbatim>\<open>nn.Sequential\<close>\<close>

text \<open>
  \<^verbatim>\<open>nn.Linear(i, o)\<close> holds a weight of shape \<open>(o, i)\<close> and a bias of shape \<open>(o)\<close>; the
  entries are arbitrary (they are initialised at random and changed by the optimiser), so
  they are functions of the indices. Applying the layer to a tensor whose last dimension
  is not \<open>i\<close> raises.
\<close>

record Linear =
  in_features :: nat
  out_features :: nat
  weight :: "nat \<Rightarrow> nat \<Rightarrow> fp"
  bias :: "nat \<Rightarrow> fp"

type_synonym params = "(nat \<Rightarrow> nat \<Rightarrow> fp) \<times> (nat \<Rightarrow> fp)"

definition nn_Linear :: "nat \<Rightarrow> nat \<Rightarrow> params \<Rightarrow> Linear" where
  "nn_Linear i o_f p = \<lparr>in_features = i, out_features = o_f, weight = fst p, bias = snd p\<rparr>"

definition Linear_row :: "Linear \<Rightarrow> fp list \<Rightarrow> fp list" where
  "Linear_row l x =
     map (\<lambda>j. (\<Sum>i\<leftarrow>[0..<in_features l]. weight l j i * x ! i) + bias l j) [0..<out_features l]"

definition Linear_forward :: "Linear \<Rightarrow> tensor \<Rightarrow> error + tensor" where
  "Linear_forward l m =
     (if \<forall>x\<in>set m. length x = in_features l then Inr (map (Linear_row l) m)
      else Inl (RuntimeError shapes_cannot_be_multiplied))"

definition ReLU :: "tensor \<Rightarrow> tensor" where
  "ReLU m = map (map relu) m"

text \<open>\<^verbatim>\<open>nn.Sequential(Linear, ReLU, Linear, ReLU)\<close>: the encoder.\<close>

definition Sequential_LRLR :: "Linear \<times> Linear \<Rightarrow> tensor \<Rightarrow> error + tensor" where
  "Sequential_LRLR ls m =
     bindE (Linear_forward (fst ls) m) (\<lambda>h.
     bindE (Linear_forward (snd ls) (ReLU h)) (\<lambda>v. Inr (ReLU v)))"

text \<open>\<^verbatim>\<open>nn.Sequential(Linear, ReLU, Linear)\<close>: the treatment head and the value heads.\<close>

definition Sequential_LRL :: "Linear \<times> Linear \<Rightarrow> tensor \<Rightarrow> error + tensor" where
  "Sequential_LRL ls m =
     bindE (Linear_forward (fst ls) m) (\<lambda>h. Linear_forward (snd ls) (ReLU h))"

subsection \<open>\<^verbatim>\<open>torch.cat\<close>, \<^verbatim>\<open>torch.stack\<close>, \<^verbatim>\<open>F.pad\<close>, \<^verbatim>\<open>view\<close>\<close>

text \<open>\<^verbatim>\<open>torch.cat(ts, dim=-1)\<close> of two-dimensional tensors: the list must not be empty
  and the tensors must have the same number of rows.\<close>

definition torch_cat_last :: "'a list list list \<Rightarrow> error + 'a list list" where
  "torch_cat_last ts =
     (case ts of
        [] \<Rightarrow> Inl (RuntimeError expected_nonempty_list)
      | m # ms \<Rightarrow>
          if \<forall>m'\<in>set ms. length m' = length m
          then Inr (map (\<lambda>i. concat (map (\<lambda>m'. m' ! i) ts)) [0..<length m])
          else Inl (RuntimeError sizes_must_match))"

text \<open>\<^verbatim>\<open>torch.stack(ts, dim=1)\<close> of two-dimensional tensors of one shape \<open>(N, d)\<close>: the
  result has shape \<open>(N, L, d)\<close>, here the list over the samples of the list over the
  timesteps of the rows.\<close>

definition torch_stack1 :: "'a list list list \<Rightarrow> error + 'a list list list" where
  "torch_stack1 ts =
     (case ts of
        [] \<Rightarrow> Inl (RuntimeError expected_nonempty_list)
      | m # ms \<Rightarrow>
          if \<forall>m'\<in>set ms. map length m' = map length m
          then Inr (map (\<lambda>i. map (\<lambda>m'. m' ! i) ts) [0..<length m])
          else Inl (RuntimeError sizes_must_match))"

text \<open>\<^verbatim>\<open>F.pad(x, pad=(p, 0))\<close>: \<open>p\<close> zeros on the left of the last dimension; a
  negative \<open>p\<close> removes entries there, and fails when more would be removed than exist.
  With a window length \<^verbatim>\<open>step\<close> of at least 1 the code never pads by a negative amount.\<close>

definition F_pad_left :: "int \<Rightarrow> tensor \<Rightarrow> error + tensor" where
  "F_pad_left p m =
     (if 0 \<le> p then Inr (map (\<lambda>r. replicate (nat p) 0 @ r) m)
      else if int (shape_last m) + p < 0 then Inl (RuntimeError invalid_padding)
      else Inr (map (drop (nat (- p))) m))"

text \<open>\<^verbatim>\<open>x.view(x.shape[0], -1)\<close> of a three-dimensional tensor.\<close>

definition view_flat :: "'a list list list \<Rightarrow> 'a list list" where
  "view_flat x = map concat x"

subsection \<open>\<^verbatim>\<open>torch.zeros\<close>, \<^verbatim>\<open>scatter\<close>, \<^verbatim>\<open>topk\<close>\<close>

definition zeros_like :: "tensor \<Rightarrow> tensor" where
  "zeros_like m = map (map (\<lambda>_. 0)) m"

text \<open>
  \<^verbatim>\<open>x.scatter(d, index, 1)\<close> along the last dimension \<open>d\<close>: every index must lie in
  \<open>[0, x.shape[d])\<close> (negative indices do not wrap), and \<open>index\<close> must not be larger than
  \<open>x\<close> in the other dimensions; the rows of \<open>x\<close> beyond those of \<open>index\<close> are left as
  they are.
\<close>

fun scatter_row :: "fp list \<Rightarrow> int list \<Rightarrow> error + fp list" where
  "scatter_row r [] = Inr r"
| "scatter_row r (k # ks) =
     (if 0 \<le> k \<and> k < int (length r) then scatter_row (r[nat k := 1]) ks
      else Inl (RuntimeError index_out_of_bounds))"

definition scatter_last :: "tensor \<Rightarrow> long_tensor \<Rightarrow> error + tensor" where
  "scatter_last x index =
     (if length x < length index then Inl (RuntimeError index_exceeds_self)
      else bindE (mapE (\<lambda>(r, ks). scatter_row r ks) (zip x index))
             (\<lambda>rs. Inr (rs @ drop (length index) x)))"

definition scatter_last3 :: "tensor list \<Rightarrow> long_tensor list \<Rightarrow> error + tensor list" where
  "scatter_last3 x index =
     (if length x < length index then Inl (RuntimeError index_exceeds_self)
      else bindE (mapE (\<lambda>(m, ix). scatter_last m ix) (zip x index))
             (\<lambda>ms. Inr (ms @ drop (length index) x)))"

text \<open>
  \<^verbatim>\<open>x.topk(1, d)[1]\<close> along the last dimension: the index of a largest entry of each
  row, kept as a dimension of size one. Which index torch returns among equal largest
  entries is decided inside the library; the selection is the parameter \<open>tk\<close> of the model,
  a function of the row.
\<close>

definition topk1_row :: "(fp list \<Rightarrow> nat) \<Rightarrow> fp list \<Rightarrow> error + int list" where
  "topk1_row tk r = (if r = [] then Inl (RuntimeError k_out_of_range) else Inr [int (tk r)])"

definition topk1 :: "(fp list \<Rightarrow> nat) \<Rightarrow> tensor \<Rightarrow> error + long_tensor" where
  "topk1 tk m = mapE (topk1_row tk) m"

definition topk1_3 :: "(fp list \<Rightarrow> nat) \<Rightarrow> tensor list \<Rightarrow> error + long_tensor list" where
  "topk1_3 tk x = mapE (topk1 tk) x"

subsection \<open>Broadcasting operations\<close>

text \<open>Two sizes broadcast when they are equal or one of them is 1.\<close>

definition bcast_list :: "'a list \<Rightarrow> 'b list \<Rightarrow> error + ('a \<times> 'b) list" where
  "bcast_list xs ys =
     (if length xs = length ys then Inr (zip xs ys)
      else if length xs = 1 then Inr (map (Pair (hd xs)) ys)
      else if length ys = 1 then Inr (map (\<lambda>x. (x, hd ys)) xs)
      else Inl (RuntimeError not_broadcastable))"

definition bcast2 :: "('a \<Rightarrow> 'b \<Rightarrow> 'c) \<Rightarrow> 'a list list \<Rightarrow> 'b list list \<Rightarrow> error + 'c list list" where
  "bcast2 f a b =
     bindE (bcast_list a b)
       (mapE (\<lambda>(ra, rb). bindE (bcast_list ra rb) (\<lambda>ps. Inr (map (\<lambda>(u, v). f u v) ps))))"

text \<open>\<^verbatim>\<open>torch.where(c, a, b)\<close>, \<^verbatim>\<open>a * b\<close>, \<^verbatim>\<open>a + b\<close>, \<^verbatim>\<open>1 - a\<close>, \<^verbatim>\<open>a == 1\<close>,
  \<^verbatim>\<open>a.float()\<close>.\<close>

definition torch_where :: "bool list list \<Rightarrow> tensor \<Rightarrow> tensor \<Rightarrow> error + tensor" where
  "torch_where c a b =
     bindE (bcast2 Pair c a) (\<lambda>ca. bcast2 (\<lambda>(ci, ai) bi. if ci then ai else bi) ca b)"

definition torch_mul :: "tensor \<Rightarrow> tensor \<Rightarrow> error + tensor" where
  "torch_mul a b = bcast2 (*) a b"

definition torch_add :: "tensor \<Rightarrow> tensor \<Rightarrow> error + tensor" where
  "torch_add a b = bcast2 (+) a b"

definition one_minus :: "tensor \<Rightarrow> tensor" where
  "one_minus a = map (map (\<lambda>v. 1 - v)) a"

definition eq_one :: "long_tensor \<Rightarrow> bool list list" where
  "eq_one a = map (map (\<lambda>k. k = 1)) a"

definition to_float :: "long_tensor \<Rightarrow> tensor" where
  "to_float a = map (map fp_of_int) a"

section \<open>The batch, the output and the networks\<close>

text \<open>
  The batch is the dictionary \<^verbatim>\<open>data\<close>; a key that is absent is \<open>None\<close>. The keys the
  code reads or writes are \<^verbatim>\<open>'state'\<close>, \<^verbatim>\<open>'prev_action'\<close>, \<^verbatim>\<open>'t'\<close>, \<^verbatim>\<open>'z'\<close> and
  \<^verbatim>\<open>'onehot_prev_action'\<close>; any other entry of the dictionary is the extension part of
  the record. The output is the dictionary \<^verbatim>\<open>out\<close> with the keys \<^verbatim>\<open>'t'\<close>, \<^verbatim>\<open>'y'\<close>,
  \<^verbatim>\<open>'z'\<close>.
\<close>

record batch =
  data_state :: "tensor list option"
  data_prev_action :: "long_tensor option"
  data_t :: "long_tensor list option"
  data_z :: "tensor list option"
  data_onehot_prev_action :: "tensor option"

record out =
  out_t :: tensor
  out_y :: tensor
  out_z :: tensor

text \<open>\<^verbatim>\<open>AbstractDQN\<close>: the encoder, and the flag \<^verbatim>\<open>training\<close> of \<^verbatim>\<open>nn.Module\<close>, which
  is set at construction and switched by \<^verbatim>\<open>train()\<close> and \<^verbatim>\<open>eval()\<close>.\<close>

record AbstractDQN =
  training :: bool
  encoder :: "Linear \<times> Linear"

record SimpleQNetwork = AbstractDQN +
  fc1_units :: nat
  fc2_units :: nat
  step :: nat
  logits_t :: "Linear \<times> Linear"
  fc :: "Linear \<times> Linear"

record CEQNetwork_1 = AbstractDQN +
  fc1_units :: nat
  fc2_units :: nat
  num_treatment :: nat
  step :: nat
  logits_t :: "Linear \<times> Linear"
  fc :: "Linear \<times> Linear"

record CEQNetwork_2 = AbstractDQN +
  fc1_units :: nat
  fc2_units :: nat
  num_treatment :: nat
  step :: nat
  logits_t :: "Linear \<times> Linear"
  fc_t0 :: "Linear \<times> Linear"
  fc_t1 :: "Linear \<times> Linear"

definition nn_eval :: "'a AbstractDQN_scheme \<Rightarrow> 'a AbstractDQN_scheme" where
  "nn_eval self = self\<lparr>training := False\<rparr>"

definition nn_train :: "'a AbstractDQN_scheme \<Rightarrow> 'a AbstractDQN_scheme" where
  "nn_train self = self\<lparr>training := True\<rparr>"

text \<open>The constructors. The arguments \<open>pe\<close>, \<open>pt\<close>, \<open>pf\<close>, \<open>pf0\<close>, \<open>pf1\<close> are the
  parameters of the two linear layers of the encoder, of the treatment head and of the
  value heads.\<close>

definition SimpleQNetwork_init ::
  "nat \<Rightarrow> nat \<Rightarrow> nat \<Rightarrow> nat \<Rightarrow> nat \<Rightarrow> nat \<Rightarrow> params \<times> params \<Rightarrow> params \<times> params \<Rightarrow> params \<times> params
     \<Rightarrow> SimpleQNetwork" where
  "SimpleQNetwork_init state_size action_size fc1 fc2 stp nt pe pt pf =
     \<lparr>training = True,
      encoder = (nn_Linear state_size fc1 (fst pe), nn_Linear fc1 fc2 (snd pe)),
      SimpleQNetwork.fc1_units = fc1,
      SimpleQNetwork.fc2_units = fc2,
      SimpleQNetwork.step = stp,
      SimpleQNetwork.logits_t =
        (nn_Linear fc2 (fc2 div 2) (fst pt), nn_Linear (fc2 div 2) nt (snd pt)),
      SimpleQNetwork.fc =
        (nn_Linear (fc2 * stp) (fc2 * stp div 2) (fst pf),
         nn_Linear (fc2 * stp div 2) action_size (snd pf))\<rparr>"

definition CEQNetwork_1_init ::
  "nat \<Rightarrow> nat \<Rightarrow> nat \<Rightarrow> nat \<Rightarrow> nat \<Rightarrow> nat \<Rightarrow> params \<times> params \<Rightarrow> params \<times> params \<Rightarrow> params \<times> params
     \<Rightarrow> CEQNetwork_1" where
  "CEQNetwork_1_init state_size action_size fc1 fc2 stp nt pe pt pf =
     \<lparr>training = True,
      encoder = (nn_Linear state_size fc1 (fst pe), nn_Linear fc1 fc2 (snd pe)),
      CEQNetwork_1.fc1_units = fc1,
      CEQNetwork_1.fc2_units = fc2,
      CEQNetwork_1.num_treatment = nt,
      CEQNetwork_1.step = stp,
      CEQNetwork_1.logits_t =
        (nn_Linear fc2 (fc2 div 2) (fst pt), nn_Linear (fc2 div 2) nt (snd pt)),
      CEQNetwork_1.fc =
        (nn_Linear ((fc2 + nt) * stp) ((fc2 + nt) * stp div 2) (fst pf),
         nn_Linear ((fc2 + nt) * stp div 2) action_size (snd pf))\<rparr>"

definition CEQNetwork_2_init ::
  "nat \<Rightarrow> nat \<Rightarrow> nat \<Rightarrow> nat \<Rightarrow> nat \<Rightarrow> nat \<Rightarrow> params \<times> params \<Rightarrow> params \<times> params \<Rightarrow> params \<times> params
     \<Rightarrow> params \<times> params \<Rightarrow> CEQNetwork_2" where
  "CEQNetwork_2_init state_size action_size fc1 fc2 stp nt pe pt pf0 pf1 =
     \<lparr>training = True,
      encoder = (nn_Linear state_size fc1 (fst pe), nn_Linear fc1 fc2 (snd pe)),
      CEQNetwork_2.fc1_units = fc1,
      CEQNetwork_2.fc2_units = fc2,
      CEQNetwork_2.num_treatment = nt,
      CEQNetwork_2.step = stp,
      CEQNetwork_2.logits_t =
        (nn_Linear fc2 (fc2 div 2) (fst pt), nn_Linear (fc2 div 2) nt (snd pt)),
      CEQNetwork_2.fc_t0 =
        (nn_Linear ((fc2 + nt) * stp) ((fc2 + nt) * stp div 2) (fst pf0),
         nn_Linear ((fc2 + nt) * stp div 2) action_size (snd pf0)),
      CEQNetwork_2.fc_t1 =
        (nn_Linear ((fc2 + nt) * stp) ((fc2 + nt) * stp div 2) (fst pf1),
         nn_Linear ((fc2 + nt) * stp div 2) action_size (snd pf1))\<rparr>"

section \<open>The forward computations\<close>

text \<open>
  \<^verbatim>\<open>AbstractDQN.forward\<close>: the encoder runs on every element of \<^verbatim>\<open>data['state']\<close>,
  the result is stored under \<^verbatim>\<open>data['z']\<close>, and the \<^verbatim>\<open>_forward\<close> of the subclass
  runs on the changed dictionary. A forward computation returns the dictionary as it
  leaves it, and the output or the exception.
\<close>

definition AbstractDQN_forward ::
  "('a AbstractDQN_scheme \<Rightarrow> 'b batch_scheme \<Rightarrow> 'b batch_scheme \<times> (error + out))
     \<Rightarrow> 'a AbstractDQN_scheme \<Rightarrow> 'b batch_scheme \<Rightarrow> 'b batch_scheme \<times> (error + out)" where
  "AbstractDQN_forward forward_impl self data =
     (case data_state data of
        None \<Rightarrow> (data, Inl (KeyError ''state''))
      | Some ss \<Rightarrow>
          (case mapE (Sequential_LRLR (encoder self)) ss of
             Inl e \<Rightarrow> (data, Inl e)
           | Inr zs \<Rightarrow> forward_impl self (data\<lparr>data_z := Some zs\<rparr>)))"

text \<open>
  Lines 44 to 48 (the same as lines 86 to 90 and 135 to 139): the last \<^verbatim>\<open>step\<close> latent
  tensors, the logits of the treatment head on each, and the concatenation of the latent
  tensors padded with zeros on the left to the width \<^verbatim>\<open>fc2_units * step\<close>.
\<close>

definition latent_window ::
  "nat \<Rightarrow> nat \<Rightarrow> Linear \<times> Linear \<Rightarrow> tensor list \<Rightarrow> error + (tensor list \<times> tensor)" where
  "latent_window stp fc2 lt z_all =
     (let z = py_slice_last stp z_all in
      bindE (mapE (Sequential_LRL lt) z) (\<lambda>t.
      bindE (torch_cat_last z) (\<lambda>zc.
      bindE (F_pad_left (int (fc2 * stp) - int (shape_last zc)) zc) (\<lambda>zp.
      Inr (t, zp)))))"

text \<open>\<^verbatim>\<open>SimpleQNetwork._forward\<close>.\<close>

definition SimpleQNetwork_forward_impl ::
  "(fp list \<Rightarrow> nat) \<Rightarrow> SimpleQNetwork \<Rightarrow> 'b batch_scheme \<Rightarrow> 'b batch_scheme \<times> (error + out)" where
  "SimpleQNetwork_forward_impl tk self data =
     (case data_z data of
        None \<Rightarrow> (data, Inl (KeyError ''z''))
      | Some z_all \<Rightarrow>
     (case latent_window (SimpleQNetwork.step self) (SimpleQNetwork.fc2_units self)
             (SimpleQNetwork.logits_t self) z_all of
        Inl e \<Rightarrow> (data, Inl e)
      | Inr (t, z) \<Rightarrow>
     (case Sequential_LRL (SimpleQNetwork.fc self) z of
        Inl e \<Rightarrow> (data, Inl e)
      | Inr y \<Rightarrow>
     (case data_prev_action data of
        None \<Rightarrow> (data, Inl (KeyError ''prev_action''))
      | Some prev \<Rightarrow>
     (case scatter_last (zeros_like y) prev of
        Inl e \<Rightarrow> (data, Inl e)
      | Inr onehot \<Rightarrow>
          (data\<lparr>data_onehot_prev_action := Some onehot\<rparr>,
           bindE
             (if training self then
                (case data_t data of
                   None \<Rightarrow> Inl (KeyError ''t'')
                 | Some ts \<Rightarrow> bindE (py_last ts) (\<lambda>tl. torch_where (eq_one tl) onehot y))
              else
                bindE (py_last t) (\<lambda>tl.
                bindE (topk1 tk tl) (\<lambda>ix. torch_where (eq_one ix) onehot y)))
             (\<lambda>y'. bindE (py_last t) (\<lambda>tl. Inr \<lparr>out_t = tl, out_y = y', out_z = z\<rparr>))))))))"

definition SimpleQNetwork_forward ::
  "(fp list \<Rightarrow> nat) \<Rightarrow> SimpleQNetwork \<Rightarrow> 'b batch_scheme \<Rightarrow> 'b batch_scheme \<times> (error + out)" where
  "SimpleQNetwork_forward tk = AbstractDQN_forward (SimpleQNetwork_forward_impl tk)"

text \<open>
  Lines 91 to 103 (the same as lines 140 to 157 without \<^verbatim>\<open>t_bernoulli\<close>): the treatment
  block. The logits are stacked to \<open>(N, L, num_treatment)\<close>; a tensor of zeros of that shape
  receives a 1 at the label of each timestep (training) or at the top index of the logits
  of each timestep (evaluation), is flattened to \<open>(N, L * num_treatment)\<close> and padded with
  zeros on the left to the width \<^verbatim>\<open>num_treatment * step\<close>.
\<close>

definition treatment_block ::
  "(fp list \<Rightarrow> nat) \<Rightarrow> bool \<Rightarrow> nat \<Rightarrow> nat \<Rightarrow> long_tensor list option \<Rightarrow> tensor list
     \<Rightarrow> error + tensor" where
  "treatment_block tk train nt stp dt t =
     bindE (torch_stack1 t) (\<lambda>t_stack.
     bindE
       (if train then
          (case dt of
             None \<Rightarrow> Inl (KeyError ''t'')
           | Some ts \<Rightarrow>
               bindE (torch_stack1 (py_slice_last stp ts)) (\<lambda>lbl.
               bindE (scatter_last3 (map zeros_like t_stack) lbl) (\<lambda>oh. Inr (view_flat oh))))
        else
          bindE (topk1_3 tk t_stack) (\<lambda>ix.
          bindE (scatter_last3 (map zeros_like t_stack) ix) (\<lambda>oh. Inr (view_flat oh))))
       (\<lambda>onehot_t. F_pad_left (int (nt * stp) - int (shape_last onehot_t)) onehot_t))"

text \<open>\<^verbatim>\<open>CEQNetwork_1._forward\<close>. It does not write to the dictionary.\<close>

definition CEQNetwork_1_forward_impl ::
  "(fp list \<Rightarrow> nat) \<Rightarrow> CEQNetwork_1 \<Rightarrow> 'b batch_scheme \<Rightarrow> 'b batch_scheme \<times> (error + out)" where
  "CEQNetwork_1_forward_impl tk self data =
     (data,
      case data_z data of
        None \<Rightarrow> Inl (KeyError ''z'')
      | Some z_all \<Rightarrow>
          bindE (latent_window (CEQNetwork_1.step self) (CEQNetwork_1.fc2_units self)
                   (CEQNetwork_1.logits_t self) z_all) (\<lambda>(t, z).
          bindE (treatment_block tk (training self) (CEQNetwork_1.num_treatment self)
                   (CEQNetwork_1.step self) (data_t data) t) (\<lambda>onehot_t.
          bindE (torch_cat_last [z, onehot_t]) (\<lambda>x.
          bindE (Sequential_LRL (CEQNetwork_1.fc self) x) (\<lambda>y.
          bindE (py_last t) (\<lambda>tl. Inr \<lparr>out_t = tl, out_y = y, out_z = z\<rparr>))))))"

definition CEQNetwork_1_forward ::
  "(fp list \<Rightarrow> nat) \<Rightarrow> CEQNetwork_1 \<Rightarrow> 'b batch_scheme \<Rightarrow> 'b batch_scheme \<times> (error + out)" where
  "CEQNetwork_1_forward tk = AbstractDQN_forward (CEQNetwork_1_forward_impl tk)"

text \<open>
  \<^verbatim>\<open>t_bernoulli\<close> of \<^verbatim>\<open>CEQNetwork_2._forward\<close> (lines 148 and 153): the latest label
  tensor in training mode, the top index of the latest logits as a float tensor in
  evaluation mode. In the product of line 161 an integer tensor is promoted to float.
  The source computes it between the flattening and the padding of the treatment block;
  where the block has been computed neither the padding nor \<^verbatim>\<open>t_bernoulli\<close> raises, so
  the model computes it after the block.
\<close>

definition t_bernoulli_of ::
  "(fp list \<Rightarrow> nat) \<Rightarrow> bool \<Rightarrow> long_tensor list option \<Rightarrow> tensor list \<Rightarrow> error + tensor" where
  "t_bernoulli_of tk train dt t =
     (if train then
        (case dt of
           None \<Rightarrow> Inl (KeyError ''t'')
         | Some ts \<Rightarrow> bindE (py_last ts) (\<lambda>tl. Inr (to_float tl)))
      else bindE (py_last t) (\<lambda>tl. bindE (topk1 tk tl) (\<lambda>ix. Inr (to_float ix))))"

text \<open>\<^verbatim>\<open>CEQNetwork_2._forward\<close>. It does not write to the dictionary.\<close>

definition CEQNetwork_2_forward_impl ::
  "(fp list \<Rightarrow> nat) \<Rightarrow> CEQNetwork_2 \<Rightarrow> 'b batch_scheme \<Rightarrow> 'b batch_scheme \<times> (error + out)" where
  "CEQNetwork_2_forward_impl tk self data =
     (data,
      case data_z data of
        None \<Rightarrow> Inl (KeyError ''z'')
      | Some z_all \<Rightarrow>
          bindE (latent_window (CEQNetwork_2.step self) (CEQNetwork_2.fc2_units self)
                   (CEQNetwork_2.logits_t self) z_all) (\<lambda>(t, z).
          bindE (treatment_block tk (training self) (CEQNetwork_2.num_treatment self)
                   (CEQNetwork_2.step self) (data_t data) t) (\<lambda>onehot_t.
          bindE (t_bernoulli_of tk (training self) (data_t data) t) (\<lambda>t_bernoulli.
          bindE (torch_cat_last [z, onehot_t]) (\<lambda>x0.
          bindE (Sequential_LRL (CEQNetwork_2.fc_t0 self) x0) (\<lambda>y_t0.
          bindE (torch_cat_last [z, onehot_t]) (\<lambda>x1.
          bindE (Sequential_LRL (CEQNetwork_2.fc_t1 self) x1) (\<lambda>y_t1.
          bindE (torch_mul t_bernoulli y_t1) (\<lambda>a.
          bindE (torch_mul (one_minus t_bernoulli) y_t0) (\<lambda>b.
          bindE (torch_add a b) (\<lambda>y.
          bindE (py_last t) (\<lambda>tl. Inr \<lparr>out_t = tl, out_y = y, out_z = z\<rparr>))))))))))))"

definition CEQNetwork_2_forward ::
  "(fp list \<Rightarrow> nat) \<Rightarrow> CEQNetwork_2 \<Rightarrow> 'b batch_scheme \<Rightarrow> 'b batch_scheme \<times> (error + out)" where
  "CEQNetwork_2_forward tk = AbstractDQN_forward (CEQNetwork_2_forward_impl tk)"

section \<open>A concrete network and concrete batches\<close>

text \<open>
  One choice of the top index: the first position of an entry that no other entry exceeds.
  The examples use it; the theorems hold for every choice \<open>tk\<close>.
\<close>

fun argmax_first :: "fp list \<Rightarrow> nat" where
  "argmax_first [] = 0"
| "argmax_first (x # xs) = (if list_all (\<lambda>v. fp_le v x) xs then 0 else Suc (argmax_first xs))"

text \<open>Networks with \<^verbatim>\<open>state_size=1, action_size=2, fc1_units=1, fc2_units=2, step=2,
  num_treatment=2\<close>, and batches of two samples with one and with three timesteps.\<close>

definition ex_params :: "params \<times> params" where
  "ex_params = ((\<lambda>_ _. 1, \<lambda>_. 0), (\<lambda>j i. Finite (real (i + j)), \<lambda>j. Finite (real j)))"

definition ex_params' :: "params \<times> params" where
  "ex_params' =
     ((\<lambda>j i. Finite (real i - real j), \<lambda>_. 1), (\<lambda>j i. Finite (real (i + j)), \<lambda>j. Finite (- real j)))"

definition ex_SimpleQNetwork :: SimpleQNetwork where
  "ex_SimpleQNetwork = SimpleQNetwork_init 1 2 1 2 2 2 ex_params ex_params ex_params'"

definition ex_CEQNetwork_1 :: CEQNetwork_1 where
  "ex_CEQNetwork_1 = CEQNetwork_1_init 1 2 1 2 2 2 ex_params ex_params ex_params'"

definition ex_CEQNetwork_2 :: CEQNetwork_2 where
  "ex_CEQNetwork_2 = CEQNetwork_2_init 1 2 1 2 2 2 ex_params ex_params ex_params ex_params'"

definition ex_batch :: batch where
  "ex_batch =
     \<lparr>data_state = Some [[[1], [2]]],
      data_prev_action = Some [[0], [1]],
      data_t = Some [[[1], [0]]],
      data_z = None,
      data_onehot_prev_action = None\<rparr>"

definition ex_batch3 :: batch where
  "ex_batch3 =
     \<lparr>data_state = Some [[[1], [2]], [[3], [0]], [[2], [2]]],
      data_prev_action = Some [[0], [1]],
      data_t = Some [[[1], [0]], [[0], [0]], [[0], [1]]],
      data_z = None,
      data_onehot_prev_action = None\<rparr>"


text \<open>A batch whose second sample has \<^verbatim>\<open>prev_action = 2\<close> where \<^verbatim>\<open>action_size\<close> is 2.\<close>

definition ex_batch_bad_action :: batch where
  "ex_batch_bad_action =
     \<lparr>data_state = Some [[[1], [2]]],
      data_prev_action = Some [[0], [2]],
      data_t = Some [[[1], [0]]],
      data_z = None,
      data_onehot_prev_action = None\<rparr>"



text \<open>A \<^verbatim>\<open>CEQNetwork_2\<close> whose head \<^verbatim>\<open>fc_t0\<close> has an infinite bias: its output is infinite,
  as after an overflow.\<close>

definition ex_params_inf :: "params \<times> params" where
  "ex_params_inf = ((\<lambda>_ _. 1, \<lambda>_. 0), (\<lambda>j i. Finite (real (i + j)), \<lambda>_. PInf))"

definition ex_CEQNetwork_2_inf :: CEQNetwork_2 where
  "ex_CEQNetwork_2_inf =
     CEQNetwork_2_init 1 2 1 2 2 2 ex_params ex_params ex_params_inf ex_params'"

section \<open>Basic facts\<close>

lemma numeral_fp: "(numeral k :: fp) = Finite (numeral k)"
proof (induction k)
  case One
  show ?case by (simp add: one_fp_def)
next
  case (Bit0 k)
  have "(numeral (num.Bit0 k) :: fp) = numeral k + numeral k" by (rule numeral_Bit0)
  also have "\<dots> = Finite (numeral k + numeral k)" by (simp only: Bit0.IH plus_fp.simps)
  also have "numeral k + numeral k = (numeral (num.Bit0 k) :: real)"
    by (rule numeral_Bit0[symmetric])
  finally show ?case .
next
  case (Bit1 k)
  have "(numeral (num.Bit1 k) :: fp) = numeral k + numeral k + 1" by (rule numeral_Bit1)
  also have "\<dots> = Finite (numeral k + numeral k + 1)"
    by (simp only: Bit1.IH plus_fp.simps one_fp_def)
  also have "numeral k + numeral k + 1 = (numeral (num.Bit1 k) :: real)"
    by (rule numeral_Bit1[symmetric])
  finally show ?case .
qed

lemma bindE_simps [simp]: "bindE (Inl e) f = Inl e" "bindE (Inr x) f = f x"
  by (simp_all add: bindE_def)

lemma bindE_eq_Inr: "bindE m f = Inr y \<longleftrightarrow> (\<exists>x. m = Inr x \<and> f x = Inr y)"
  by (cases m) simp_all





subsection \<open>Shapes of the results of the torch operations\<close>

lemma mapE_eq_Inr: "mapE f xs = Inr ys \<longleftrightarrow> list_all2 (\<lambda>x y. f x = Inr y) xs ys"
proof (induction xs arbitrary: ys)
  case Nil
  then show ?case by auto
next
  case (Cons a xs)
  show ?case
  proof (cases ys)
    case Nil
    then show ?thesis by (auto simp: bindE_eq_Inr)
  next
    case (Cons y ys')
    then show ?thesis using Cons.IH[of ys'] by (auto simp: bindE_eq_Inr)
  qed
qed

lemma mapE_Inr_length: "mapE f xs = Inr ys \<Longrightarrow> length ys = length xs"
  by (simp add: mapE_eq_Inr list_all2_lengthD)

lemma mapE_Inr_nth: "mapE f xs = Inr ys \<Longrightarrow> i < length xs \<Longrightarrow> f (xs ! i) = Inr (ys ! i)"
  by (simp add: mapE_eq_Inr list_all2_conv_all_nth)

lemma mapE_map: "(\<And>x. x \<in> set xs \<Longrightarrow> f x = Inr (g x)) \<Longrightarrow> mapE f xs = Inr (map g xs)"
  by (induction xs) auto

lemma length_Linear_row [simp]: "length (Linear_row l x) = out_features l"
  by (simp add: Linear_row_def)

lemma Linear_forward_Inr:
  "Linear_forward l m = Inr m' \<longleftrightarrow> (\<forall>x\<in>set m. length x = in_features l) \<and> m' = map (Linear_row l) m"
  by (auto simp: Linear_forward_def)

lemma Linear_forward_shape:
  assumes "Linear_forward l m = Inr m'"
  shows "length m' = length m" and "\<forall>r\<in>set m'. length r = out_features l"
  using assms by (auto simp: Linear_forward_Inr)

lemma Sequential_LRL_shape:
  assumes "Sequential_LRL ls m = Inr y"
  shows "length y = length m" and "\<forall>r\<in>set y. length r = out_features (snd ls)"
  using assms by (auto simp: Sequential_LRL_def bindE_eq_Inr Linear_forward_Inr ReLU_def)

lemma Sequential_LRLR_shape:
  assumes "Sequential_LRLR ls m = Inr y"
  shows "length y = length m" and "\<forall>r\<in>set y. length r = out_features (snd ls)"
  using assms by (auto simp: Sequential_LRLR_def bindE_eq_Inr Linear_forward_Inr ReLU_def)

lemma torch_cat_last_Inr:
  assumes "torch_cat_last ts = Inr c"
  shows "ts \<noteq> []" and "\<forall>m\<in>set ts. length m = length c"
    and "\<forall>i<length c. c ! i = concat (map (\<lambda>m. m ! i) ts)"
  using assms by (auto simp: torch_cat_last_def split: list.splits if_splits)

lemma F_pad_left_nonneg:
  "0 \<le> p \<Longrightarrow> F_pad_left p m = Inr (map (\<lambda>r. replicate (nat p) 0 @ r) m)"
  by (simp add: F_pad_left_def)

lemma py_slice_last_pos: "0 < n \<Longrightarrow> py_slice_last n xs = drop (length xs - n) xs"
  by (simp add: py_slice_last_def)

lemma length_py_slice_last: "0 < n \<Longrightarrow> length (py_slice_last n xs) = min n (length xs)"
  by (auto simp: py_slice_last_def)

lemma py_slice_last_eq_Nil [simp]: "py_slice_last n xs = [] \<longleftrightarrow> xs = []"
  by (cases xs) (auto simp: py_slice_last_def)

lemma last_py_slice_last: "xs \<noteq> [] \<Longrightarrow> last (py_slice_last n xs) = last xs"
  by (auto simp: py_slice_last_def)

lemma py_last_Inr: "py_last xs = Inr x \<longleftrightarrow> xs \<noteq> [] \<and> x = last xs"
  by (auto simp: py_last_def)

subsection \<open>The window of latent vectors\<close>

lemma latent_window_Inr:
  assumes "latent_window stp fc2 lt zs = Inr (t, zp)"
  shows "mapE (Sequential_LRL lt) (py_slice_last stp zs) = Inr t"
    and "\<exists>zc. torch_cat_last (py_slice_last stp zs) = Inr zc
          \<and> F_pad_left (int (fc2 * stp) - int (shape_last zc)) zc = Inr zp"
  using assms by (auto simp: latent_window_def Let_def bindE_eq_Inr)

lemma length_concat_const:
  "(\<And>x. x \<in> set xs \<Longrightarrow> length (f x) = c) \<Longrightarrow> length (concat (map f xs)) = c * length xs"
  by (induction xs) auto

lemma F_pad_left_length: "F_pad_left p m = Inr m' \<Longrightarrow> length m' = length m"
  by (auto simp: F_pad_left_def split: if_splits)

lemma latent_window_lengths:
  assumes "latent_window stp fc2 lt zs = Inr (t, zp)"
  shows "zs \<noteq> []" and "t \<noteq> []" and "length t = length (py_slice_last stp zs)"
    and "\<forall>m\<in>set (py_slice_last stp zs). length m = length zp"
    and "\<forall>l\<in>set t. length l = length zp"
    and "\<forall>l\<in>set t. \<forall>r\<in>set l. length r = out_features (snd lt)"
proof -
  from latent_window_Inr[OF assms] obtain zc where
    t: "mapE (Sequential_LRL lt) (py_slice_last stp zs) = Inr t"
    and c: "torch_cat_last (py_slice_last stp zs) = Inr zc"
    and p: "F_pad_left (int (fc2 * stp) - int (shape_last zc)) zc = Inr zp"
    by blast
  from torch_cat_last_Inr(1)[OF c] show "zs \<noteq> []" by simp
  show lt: "length t = length (py_slice_last stp zs)" by (rule mapE_Inr_length[OF t])
  with torch_cat_last_Inr(1)[OF c] show "t \<noteq> []" by auto
  have lz: "length zp = length zc" by (rule F_pad_left_length[OF p])
  with torch_cat_last_Inr(2)[OF c] show m: "\<forall>m\<in>set (py_slice_last stp zs). length m = length zp"
    by simp
  have nth: "\<And>i. i < length t \<Longrightarrow> Sequential_LRL lt (py_slice_last stp zs ! i) = Inr (t ! i)"
    using mapE_Inr_nth[OF t] lt by simp
  show "\<forall>l\<in>set t. length l = length zp"
  proof
    fix l assume "l \<in> set t"
    then obtain i where i: "i < length t" "l = t ! i" by (auto simp: in_set_conv_nth)
    from Sequential_LRL_shape(1)[OF nth[OF i(1)]] i m lt show "length l = length zp"
      by (metis nth_mem)
  qed
  show "\<forall>l\<in>set t. \<forall>r\<in>set l. length r = out_features (snd lt)"
  proof
    fix l assume "l \<in> set t"
    then obtain i where i: "i < length t" "l = t ! i" by (auto simp: in_set_conv_nth)
    from Sequential_LRL_shape(2)[OF nth[OF i(1)]] i
    show "\<forall>r\<in>set l. length r = out_features (snd lt)" by simp
  qed
qed

lemma latent_window_rows:
  assumes stp: "0 < stp"
    and w: "\<forall>m\<in>set zs. \<forall>r\<in>set m. length r = fc2"
    and lw: "latent_window stp fc2 lt zs = Inr (t, zp)"
    and i: "i < length zp"
  shows "zp ! i = replicate (fc2 * (stp - length zs)) 0
                    @ concat (map (\<lambda>m. m ! i) (drop (length zs - stp) zs))"
    and "length (zp ! i) = fc2 * stp"
proof -
  let ?z = "drop (length zs - stp) zs"
  have sl: "py_slice_last stp zs = ?z" using stp by (simp add: py_slice_last_pos)
  from latent_window_Inr(2)[OF lw] sl obtain zc where
    c: "torch_cat_last ?z = Inr zc"
    and p: "F_pad_left (int (fc2 * stp) - int (shape_last zc)) zc = Inr zp"
    by auto
  have lz: "length zp = length zc" by (rule F_pad_left_length[OF p])
  have rows: "\<And>j. j < length zc \<Longrightarrow> zc ! j = concat (map (\<lambda>m. m ! j) ?z)"
    using torch_cat_last_Inr(3)[OF c] by simp
  have len: "\<And>m. m \<in> set ?z \<Longrightarrow> length m = length zc"
    using torch_cat_last_Inr(2)[OF c] by simp
  have wid: "\<And>j. j < length zc \<Longrightarrow> length (zc ! j) = fc2 * length ?z"
  proof -
    fix j assume j: "j < length zc"
    have "\<And>m. m \<in> set ?z \<Longrightarrow> length (m ! j) = fc2"
    proof -
      fix m assume m: "m \<in> set ?z"
      then have "m \<in> set zs" by (rule in_set_dropD)
      moreover have "m ! j \<in> set m" using len[OF m] j by simp
      ultimately show "length (m ! j) = fc2" using w by blast
    qed
    then show "length (zc ! j) = fc2 * length ?z"
      unfolding rows[OF j] by (rule length_concat_const)
  qed
  have ne: "zc \<noteq> []" using i lz by auto
  then have "shape_last zc = length (zc ! 0)"
    by (cases zc) (simp_all add: shape_last_def)
  with wid[of 0] ne have sh: "shape_last zc = fc2 * length ?z" by simp
  define n where "n = length ?z"
  have lenz: "n = min stp (length zs)" unfolding n_def by auto
  have sh': "shape_last zc = fc2 * n" using sh n_def by simp
  have le: "fc2 * n \<le> fc2 * stp" using lenz by simp
  have df: "fc2 * stp - fc2 * n = fc2 * (stp - length zs)"
    unfolding lenz by (simp add: diff_mult_distrib2 min_def)
  have "int (fc2 * stp) - int (fc2 * n) = int (fc2 * stp - fc2 * n)"
    using le by (rule of_nat_diff[symmetric])
  then have pad: "int (fc2 * stp) - int (shape_last zc) = int (fc2 * (stp - length zs))"
    unfolding sh' df .
  have zp: "zp = map (\<lambda>r. replicate (fc2 * (stp - length zs)) 0 @ r) zc"
    using p unfolding pad by (auto simp: F_pad_left_def nat_mult_distrib)
  from i lz have ic: "i < length zc" by simp
  show "zp ! i = replicate (fc2 * (stp - length zs)) 0
                    @ concat (map (\<lambda>m. m ! i) (drop (length zs - stp) zs))"
    using zp ic rows[OF ic] by simp
  have "length (zp ! i) = fc2 * (stp - length zs) + fc2 * n"
    using zp ic wid[OF ic] by (simp add: n_def)
  also have "\<dots> = fc2 * stp"
    using df le by linarith
  finally show "length (zp ! i) = fc2 * stp" .
qed

subsection \<open>What a forward call that returns has computed\<close>

lemma AbstractDQN_forward_Inr:
  assumes "snd (AbstractDQN_forward impl self data) = Inr res"
  shows "\<exists>sts zs. data_state data = Some sts
           \<and> mapE (Sequential_LRLR (encoder self)) sts = Inr zs
           \<and> AbstractDQN_forward impl self data = impl self (data\<lparr>data_z := Some zs\<rparr>)"
  using assms by (auto simp: AbstractDQN_forward_def split: option.splits sum.splits)

lemma encoder_widths:
  assumes "mapE (Sequential_LRLR enc) sts = Inr zs"
  shows "\<forall>m\<in>set zs. \<forall>r\<in>set m. length r = out_features (snd enc)"
proof
  fix m assume "m \<in> set zs"
  then obtain i where i: "i < length zs" "m = zs ! i" by (auto simp: in_set_conv_nth)
  with mapE_Inr_length[OF assms] have "i < length sts" by simp
  from Sequential_LRLR_shape(2)[OF mapE_Inr_nth[OF assms this]] i
  show "\<forall>r\<in>set m. length r = out_features (snd enc)" by simp
qed

lemma SimpleQNetwork_forward_impl_Inr:
  assumes "snd (SimpleQNetwork_forward_impl tk self d) = Inr res"
  shows "\<exists>z_all t y prev onehot.
           data_z d = Some z_all
           \<and> latent_window (SimpleQNetwork.step self) (SimpleQNetwork.fc2_units self)
                 (SimpleQNetwork.logits_t self) z_all = Inr (t, out_z res)
           \<and> Sequential_LRL (SimpleQNetwork.fc self) (out_z res) = Inr y
           \<and> data_prev_action d = Some prev
           \<and> scatter_last (zeros_like y) prev = Inr onehot
           \<and> fst (SimpleQNetwork_forward_impl tk self d)
               = d\<lparr>data_onehot_prev_action := Some onehot\<rparr>
           \<and> (if training self
               then \<exists>ts. data_t d = Some ts \<and> ts \<noteq> []
                      \<and> torch_where (eq_one (last ts)) onehot y = Inr (out_y res)
               else \<exists>ix. topk1 tk (last t) = Inr ix
                      \<and> torch_where (eq_one ix) onehot y = Inr (out_y res))
           \<and> t \<noteq> [] \<and> out_t res = last t"
  using assms
  by (auto simp: SimpleQNetwork_forward_impl_def bindE_eq_Inr py_last_Inr
      split: option.splits sum.splits prod.splits if_splits)

lemma CEQNetwork_1_forward_impl_Inr:
  assumes "snd (CEQNetwork_1_forward_impl tk self d) = Inr res"
  shows "\<exists>z_all t onehot_t x.
           data_z d = Some z_all
           \<and> latent_window (CEQNetwork_1.step self) (CEQNetwork_1.fc2_units self)
                 (CEQNetwork_1.logits_t self) z_all = Inr (t, out_z res)
           \<and> treatment_block tk (training self) (CEQNetwork_1.num_treatment self)
                 (CEQNetwork_1.step self) (data_t d) t = Inr onehot_t
           \<and> torch_cat_last [out_z res, onehot_t] = Inr x
           \<and> Sequential_LRL (CEQNetwork_1.fc self) x = Inr (out_y res)
           \<and> fst (CEQNetwork_1_forward_impl tk self d) = d
           \<and> t \<noteq> [] \<and> out_t res = last t"
  using assms
  by (auto simp: CEQNetwork_1_forward_impl_def bindE_eq_Inr py_last_Inr
      split: option.splits sum.splits prod.splits if_splits)

lemma CEQNetwork_2_forward_impl_Inr:
  assumes "snd (CEQNetwork_2_forward_impl tk self d) = Inr res"
  shows "\<exists>z_all t onehot_t t_bernoulli x y_t0 y_t1 a b.
           data_z d = Some z_all
           \<and> latent_window (CEQNetwork_2.step self) (CEQNetwork_2.fc2_units self)
                 (CEQNetwork_2.logits_t self) z_all = Inr (t, out_z res)
           \<and> treatment_block tk (training self) (CEQNetwork_2.num_treatment self)
                 (CEQNetwork_2.step self) (data_t d) t = Inr onehot_t
           \<and> t_bernoulli_of tk (training self) (data_t d) t = Inr t_bernoulli
           \<and> torch_cat_last [out_z res, onehot_t] = Inr x
           \<and> Sequential_LRL (CEQNetwork_2.fc_t0 self) x = Inr y_t0
           \<and> Sequential_LRL (CEQNetwork_2.fc_t1 self) x = Inr y_t1
           \<and> torch_mul t_bernoulli y_t1 = Inr a
           \<and> torch_mul (one_minus t_bernoulli) y_t0 = Inr b
           \<and> torch_add a b = Inr (out_y res)
           \<and> fst (CEQNetwork_2_forward_impl tk self d) = d
           \<and> t \<noteq> [] \<and> out_t res = last t"
  using assms
  by (auto simp: CEQNetwork_2_forward_impl_def bindE_eq_Inr py_last_Inr
      split: option.splits sum.splits prod.splits if_splits)

lemma init_fields [simp]:
  "encoder ((SimpleQNetwork_init state_size action_size fc1 fc2 stp nt pe pt pf)\<lparr>training := m\<rparr>)
     = (nn_Linear state_size fc1 (fst pe), nn_Linear fc1 fc2 (snd pe))"
  "encoder ((CEQNetwork_1_init state_size action_size fc1 fc2 stp nt pe pt pf)\<lparr>training := m\<rparr>)
     = (nn_Linear state_size fc1 (fst pe), nn_Linear fc1 fc2 (snd pe))"
  "encoder ((CEQNetwork_2_init state_size action_size fc1 fc2 stp nt pe pt pf0 pf1)\<lparr>training := m\<rparr>)
     = (nn_Linear state_size fc1 (fst pe), nn_Linear fc1 fc2 (snd pe))"
  "training ((SimpleQNetwork_init state_size action_size fc1 fc2 stp nt pe pt pf)\<lparr>training := m\<rparr>) = m"
  "training ((CEQNetwork_1_init state_size action_size fc1 fc2 stp nt pe pt pf)\<lparr>training := m\<rparr>) = m"
  "training ((CEQNetwork_2_init state_size action_size fc1 fc2 stp nt pe pt pf0 pf1)\<lparr>training := m\<rparr>) = m"
  "SimpleQNetwork.step ((SimpleQNetwork_init state_size action_size fc1 fc2 stp nt pe pt pf)\<lparr>training := m\<rparr>) = stp"
  "CEQNetwork_1.step ((CEQNetwork_1_init state_size action_size fc1 fc2 stp nt pe pt pf)\<lparr>training := m\<rparr>) = stp"
  "CEQNetwork_2.step ((CEQNetwork_2_init state_size action_size fc1 fc2 stp nt pe pt pf0 pf1)\<lparr>training := m\<rparr>) = stp"
  "SimpleQNetwork.fc2_units ((SimpleQNetwork_init state_size action_size fc1 fc2 stp nt pe pt pf)\<lparr>training := m\<rparr>) = fc2"
  "CEQNetwork_1.fc2_units ((CEQNetwork_1_init state_size action_size fc1 fc2 stp nt pe pt pf)\<lparr>training := m\<rparr>) = fc2"
  "CEQNetwork_2.fc2_units ((CEQNetwork_2_init state_size action_size fc1 fc2 stp nt pe pt pf0 pf1)\<lparr>training := m\<rparr>) = fc2"
  "CEQNetwork_1.num_treatment ((CEQNetwork_1_init state_size action_size fc1 fc2 stp nt pe pt pf)\<lparr>training := m\<rparr>) = nt"
  "CEQNetwork_2.num_treatment ((CEQNetwork_2_init state_size action_size fc1 fc2 stp nt pe pt pf0 pf1)\<lparr>training := m\<rparr>) = nt"
  "SimpleQNetwork.logits_t ((SimpleQNetwork_init state_size action_size fc1 fc2 stp nt pe pt pf)\<lparr>training := m\<rparr>)
     = (nn_Linear fc2 (fc2 div 2) (fst pt), nn_Linear (fc2 div 2) nt (snd pt))"
  "CEQNetwork_1.logits_t ((CEQNetwork_1_init state_size action_size fc1 fc2 stp nt pe pt pf)\<lparr>training := m\<rparr>)
     = (nn_Linear fc2 (fc2 div 2) (fst pt), nn_Linear (fc2 div 2) nt (snd pt))"
  "CEQNetwork_2.logits_t ((CEQNetwork_2_init state_size action_size fc1 fc2 stp nt pe pt pf0 pf1)\<lparr>training := m\<rparr>)
     = (nn_Linear fc2 (fc2 div 2) (fst pt), nn_Linear (fc2 div 2) nt (snd pt))"
  "SimpleQNetwork.fc ((SimpleQNetwork_init state_size action_size fc1 fc2 stp nt pe pt pf)\<lparr>training := m\<rparr>)
     = (nn_Linear (fc2 * stp) (fc2 * stp div 2) (fst pf),
        nn_Linear (fc2 * stp div 2) action_size (snd pf))"
  "CEQNetwork_1.fc ((CEQNetwork_1_init state_size action_size fc1 fc2 stp nt pe pt pf)\<lparr>training := m\<rparr>)
     = (nn_Linear ((fc2 + nt) * stp) ((fc2 + nt) * stp div 2) (fst pf),
        nn_Linear ((fc2 + nt) * stp div 2) action_size (snd pf))"
  "CEQNetwork_2.fc_t0 ((CEQNetwork_2_init state_size action_size fc1 fc2 stp nt pe pt pf0 pf1)\<lparr>training := m\<rparr>)
     = (nn_Linear ((fc2 + nt) * stp) ((fc2 + nt) * stp div 2) (fst pf0),
        nn_Linear ((fc2 + nt) * stp div 2) action_size (snd pf0))"
  "CEQNetwork_2.fc_t1 ((CEQNetwork_2_init state_size action_size fc1 fc2 stp nt pe pt pf0 pf1)\<lparr>training := m\<rparr>)
     = (nn_Linear ((fc2 + nt) * stp) ((fc2 + nt) * stp div 2) (fst pf1),
        nn_Linear ((fc2 + nt) * stp div 2) action_size (snd pf1))"
  by (simp_all add: SimpleQNetwork_init_def CEQNetwork_1_init_def CEQNetwork_2_init_def)

lemma nn_Linear_features [simp]:
  "in_features (nn_Linear i o_f p) = i" "out_features (nn_Linear i o_f p) = o_f"
  by (simp_all add: nn_Linear_def)

lemma forward_window:
  assumes "snd (SimpleQNetwork_forward tk
                  ((SimpleQNetwork_init state_size action_size fc1 fc2 stp nt pe pt pf)
                     \<lparr>training := m\<rparr>) data) = Inr res
           \<or> snd (CEQNetwork_1_forward tk
                  ((CEQNetwork_1_init state_size action_size fc1 fc2 stp nt pe pt pf')
                     \<lparr>training := m\<rparr>) data) = Inr res
           \<or> snd (CEQNetwork_2_forward tk
                  ((CEQNetwork_2_init state_size action_size fc1 fc2 stp nt pe pt pf0 pf1)
                     \<lparr>training := m\<rparr>) data) = Inr res"
  shows "\<exists>sts zs t. data_state data = Some sts
           \<and> mapE (Sequential_LRLR (nn_Linear state_size fc1 (fst pe), nn_Linear fc1 fc2 (snd pe)))
                 sts = Inr zs
           \<and> latent_window stp fc2
                 (nn_Linear fc2 (fc2 div 2) (fst pt), nn_Linear (fc2 div 2) nt (snd pt)) zs
               = Inr (t, out_z res)"
  using assms
proof (elim disjE)
  assume a: "snd (SimpleQNetwork_forward tk
                  ((SimpleQNetwork_init state_size action_size fc1 fc2 stp nt pe pt pf)
                     \<lparr>training := m\<rparr>) data) = Inr res"
  from AbstractDQN_forward_Inr[OF a[unfolded SimpleQNetwork_forward_def]]
  obtain sts zs where s: "data_state data = Some sts"
    "mapE (Sequential_LRLR (nn_Linear state_size fc1 (fst pe), nn_Linear fc1 fc2 (snd pe))) sts = Inr zs"
    and e: "SimpleQNetwork_forward tk
                  ((SimpleQNetwork_init state_size action_size fc1 fc2 stp nt pe pt pf)
                     \<lparr>training := m\<rparr>) data
            = SimpleQNetwork_forward_impl tk
                  ((SimpleQNetwork_init state_size action_size fc1 fc2 stp nt pe pt pf)
                     \<lparr>training := m\<rparr>) (data\<lparr>data_z := Some zs\<rparr>)"
    by (auto simp: SimpleQNetwork_forward_def)
  from SimpleQNetwork_forward_impl_Inr[OF a[unfolded e]] s show ?thesis by auto
next
  assume a: "snd (CEQNetwork_1_forward tk
                  ((CEQNetwork_1_init state_size action_size fc1 fc2 stp nt pe pt pf')
                     \<lparr>training := m\<rparr>) data) = Inr res"
  from AbstractDQN_forward_Inr[OF a[unfolded CEQNetwork_1_forward_def]]
  obtain sts zs where s: "data_state data = Some sts"
    "mapE (Sequential_LRLR (nn_Linear state_size fc1 (fst pe), nn_Linear fc1 fc2 (snd pe))) sts = Inr zs"
    and e: "CEQNetwork_1_forward tk
                  ((CEQNetwork_1_init state_size action_size fc1 fc2 stp nt pe pt pf')
                     \<lparr>training := m\<rparr>) data
            = CEQNetwork_1_forward_impl tk
                  ((CEQNetwork_1_init state_size action_size fc1 fc2 stp nt pe pt pf')
                     \<lparr>training := m\<rparr>) (data\<lparr>data_z := Some zs\<rparr>)"
    by (auto simp: CEQNetwork_1_forward_def)
  from CEQNetwork_1_forward_impl_Inr[OF a[unfolded e]] s show ?thesis by auto
next
  assume a: "snd (CEQNetwork_2_forward tk
                  ((CEQNetwork_2_init state_size action_size fc1 fc2 stp nt pe pt pf0 pf1)
                     \<lparr>training := m\<rparr>) data) = Inr res"
  from AbstractDQN_forward_Inr[OF a[unfolded CEQNetwork_2_forward_def]]
  obtain sts zs where s: "data_state data = Some sts"
    "mapE (Sequential_LRLR (nn_Linear state_size fc1 (fst pe), nn_Linear fc1 fc2 (snd pe))) sts = Inr zs"
    and e: "CEQNetwork_2_forward tk
                  ((CEQNetwork_2_init state_size action_size fc1 fc2 stp nt pe pt pf0 pf1)
                     \<lparr>training := m\<rparr>) data
            = CEQNetwork_2_forward_impl tk
                  ((CEQNetwork_2_init state_size action_size fc1 fc2 stp nt pe pt pf0 pf1)
                     \<lparr>training := m\<rparr>) (data\<lparr>data_z := Some zs\<rparr>)"
    by (auto simp: CEQNetwork_2_forward_def)
  from CEQNetwork_2_forward_impl_Inr[OF a[unfolded e]] s show ?thesis by auto
qed

subsection \<open>Broadcasting, selection, scatter and top index on well-shaped tensors\<close>

lemma bcast_list_same: "length xs = length ys \<Longrightarrow> bcast_list xs ys = Inr (zip xs ys)"
  by (simp add: bcast_list_def)

lemma bcast_list_single: "bcast_list [x] ys = Inr (map (Pair x) ys)"
proof (cases "length ys = 1")
  case True
  then obtain y where "ys = [y]" by (cases ys) auto
  then show ?thesis by (simp add: bcast_list_def)
next
  case False
  then show ?thesis by (auto simp: bcast_list_def)
qed

lemma bcast2_col:
  assumes "length c = length a" and "\<forall>q\<in>set c. length q = 1"
  shows "bcast2 f c a = Inr (map (\<lambda>(q, ra). map (f (hd q)) ra) (zip c a))"
proof -
  have "mapE (\<lambda>(ra, rb). bindE (bcast_list ra rb) (\<lambda>ps. Inr (map (\<lambda>(u, v). f u v) ps))) (zip c a)
          = Inr (map (\<lambda>(q, ra). map (f (hd q)) ra) (zip c a))"
  proof (rule mapE_map)
    fix p assume p: "p \<in> set (zip c a)"
    obtain q ra where pq: "p = (q, ra)" by (cases p)
    with p have "q \<in> set c" by (auto dest: set_zip_leftD)
    with assms(2) have "length q = 1" by simp
    then have q: "q = [hd q]" by (cases q) auto
    have "bcast_list q ra = Inr (map (Pair (hd q)) ra)"
      by (subst q) (rule bcast_list_single)
    then show "(case p of (ra, rb) \<Rightarrow> bindE (bcast_list ra rb) (\<lambda>ps. Inr (map (\<lambda>(u, v). f u v) ps)))
               = Inr (case p of (q, ra) \<Rightarrow> map (f (hd q)) ra)"
      by (simp add: pq)
  qed
  then show ?thesis by (simp add: bcast2_def bcast_list_same[OF assms(1)])
qed

lemma bcast2_same:
  assumes "length a = length b" and "\<forall>i<length a. length (a ! i) = length (b ! i)"
  shows "bcast2 f a b = Inr (map (\<lambda>(ra, rb). map (\<lambda>(u, v). f u v) (zip ra rb)) (zip a b))"
proof -
  have "mapE (\<lambda>(ra, rb). bindE (bcast_list ra rb) (\<lambda>ps. Inr (map (\<lambda>(u, v). f u v) ps))) (zip a b)
          = Inr (map (\<lambda>(ra, rb). map (\<lambda>(u, v). f u v) (zip ra rb)) (zip a b))"
  proof (rule mapE_map)
    fix p assume p: "p \<in> set (zip a b)"
    obtain ra rb where pq: "p = (ra, rb)" by (cases p)
    with p obtain i where "i < length a" "ra = a ! i" "rb = b ! i"
      by (auto simp: in_set_zip)
    with assms(2) have "length ra = length rb" by simp
    then show "(case p of (ra, rb) \<Rightarrow> bindE (bcast_list ra rb) (\<lambda>ps. Inr (map (\<lambda>(u, v). f u v) ps)))
               = Inr (case p of (ra, rb) \<Rightarrow> map (\<lambda>(u, v). f u v) (zip ra rb))"
      by (simp add: pq bcast_list_same)
  qed
  then show ?thesis by (simp add: bcast2_def bcast_list_same[OF assms(1)])
qed

lemma select_rows:
  "length xs = length ys
     \<Longrightarrow> map (\<lambda>(u, v). (case u of (ci, ai) \<Rightarrow> \<lambda>bi. if ci then ai else bi) v) (zip (map (Pair c0) xs) ys)
         = (if c0 then xs else ys)"
  by (induction xs ys rule: list_induct2) auto

lemma torch_where_col:
  assumes "length c = length a" and "length a = length b"
    and "\<forall>q\<in>set c. length q = 1"
    and "\<forall>i<length a. length (a ! i) = length (b ! i)"
  shows "torch_where c a b = Inr (map (\<lambda>i. if hd (c ! i) then a ! i else b ! i) [0..<length a])"
proof -
  let ?ca = "map (\<lambda>(q, ra). map (Pair (hd q)) ra) (zip c a)"
  have 1: "bcast2 Pair c a = Inr ?ca" by (rule bcast2_col[OF assms(1,3)])
  have l: "length ?ca = length b" using assms(1,2) by simp
  have w: "\<forall>i<length ?ca. length (?ca ! i) = length (b ! i)"
    using assms by simp
  have 2: "bcast2 (\<lambda>(ci, ai) bi. if ci then ai else bi) ?ca b
        = Inr (map (\<lambda>(ra, rb). map (\<lambda>(u, v). (case u of (ci, ai) \<Rightarrow> \<lambda>bi. if ci then ai else bi) v) (zip ra rb)) (zip ?ca b))"
    by (rule bcast2_same[OF l w])
  have "map (\<lambda>(ra, rb). map (\<lambda>(u, v). (case u of (ci, ai) \<Rightarrow> \<lambda>bi. if ci then ai else bi) v) (zip ra rb)) (zip ?ca b)
        = map (\<lambda>i. if hd (c ! i) then a ! i else b ! i) [0..<length a]"
    using assms by (auto intro!: nth_equalityI simp: select_rows)
  with 1 2 show ?thesis by (simp add: torch_where_def)
qed

lemma zeros_like_nth: "i < length y \<Longrightarrow> zeros_like y ! i = replicate (length (y ! i)) 0"
  by (simp add: zeros_like_def map_replicate_const)

lemma length_zeros_like [simp]: "length (zeros_like y) = length y"
  by (simp add: zeros_like_def)

lemma scatter_row_single:
  "scatter_row r [k] = (if 0 \<le> k \<and> k < int (length r) then Inr (r[nat k := 1])
                        else Inl (RuntimeError index_out_of_bounds))"
  by simp

lemma scatter_last_col:
  assumes "scatter_last x index = Inr oh" and "length index = length x"
    and "\<forall>q\<in>set index. length q = 1"
  shows "length oh = length x"
    and "\<forall>i<length x. 0 \<le> hd (index ! i) \<and> hd (index ! i) < int (length (x ! i))
            \<and> oh ! i = (x ! i)[nat (hd (index ! i)) := 1]"
proof -
  from assms(1,2) have m: "mapE (\<lambda>(r, ks). scatter_row r ks) (zip x index) = Inr oh"
    by (auto simp: scatter_last_def bindE_eq_Inr split: if_splits)
  from mapE_Inr_length[OF m] assms(2) show l: "length oh = length x" by simp
  show "\<forall>i<length x. 0 \<le> hd (index ! i) \<and> hd (index ! i) < int (length (x ! i))
            \<and> oh ! i = (x ! i)[nat (hd (index ! i)) := 1]"
  proof (intro allI impI)
    fix i assume i: "i < length x"
    then have iz: "i < length (zip x index)" using assms(2) by simp
    from i assms(2,3) have "length (index ! i) = 1" by simp
    then have q: "index ! i = [hd (index ! i)]" by (cases "index ! i") auto
    from mapE_Inr_nth[OF m iz] i assms(2)
    have "scatter_row (x ! i) (index ! i) = Inr (oh ! i)" by simp
    then have "scatter_row (x ! i) [hd (index ! i)] = Inr (oh ! i)" using q by simp
    then show "0 \<le> hd (index ! i) \<and> hd (index ! i) < int (length (x ! i))
            \<and> oh ! i = (x ! i)[nat (hd (index ! i)) := 1]"
      by (auto simp: scatter_row_single split: if_splits)
  qed
qed

lemma topk1_Inr:
  assumes "topk1 tk m = Inr ix"
  shows "length ix = length m" and "\<forall>q\<in>set ix. length q = 1"
    and "\<forall>i<length m. ix ! i = [int (tk (m ! i))]"
proof -
  from mapE_Inr_length[OF assms[unfolded topk1_def]] show l: "length ix = length m" .
  have n: "ix ! i = [int (tk (m ! i))]" if "i < length m" for i
    using mapE_Inr_nth[OF assms[unfolded topk1_def] that]
    by (cases "m ! i = []") (simp_all add: topk1_row_def)
  then show "\<forall>i<length m. ix ! i = [int (tk (m ! i))]" by simp
  show "\<forall>q\<in>set ix. length q = 1"
    using n l by (auto simp: in_set_conv_nth)
qed

lemma SimpleQNetwork_forward_Inr:
  assumes "snd (SimpleQNetwork_forward tk self data) = Inr res"
  shows "\<exists>sts zs. data_state data = Some sts
           \<and> mapE (Sequential_LRLR (encoder self)) sts = Inr zs
           \<and> SimpleQNetwork_forward tk self data
               = SimpleQNetwork_forward_impl tk self (data\<lparr>data_z := Some zs\<rparr>)"
  using AbstractDQN_forward_Inr[OF assms[unfolded SimpleQNetwork_forward_def]]
  by (simp add: SimpleQNetwork_forward_def)

subsection \<open>When the torch operations succeed\<close>

lemma scatter_row_Inr:
  "scatter_row r ks = Inr r' \<Longrightarrow> (\<forall>k\<in>set ks. 0 \<le> k \<and> k < int (length r)) \<and> length r' = length r"
proof (induction ks arbitrary: r)
  case Nil
  then show ?case by simp
next
  case (Cons k ks)
  from Cons.prems have k: "0 \<le> k \<and> k < int (length r)"
    and s: "scatter_row (r[nat k := 1]) ks = Inr r'"
    by (auto split: if_splits)
  from Cons.IH[OF s] k show ?case by simp
qed

lemma scatter_row_ok:
  "\<forall>k\<in>set ks. 0 \<le> k \<and> k < int (length r) \<Longrightarrow> \<exists>r'. scatter_row r ks = Inr r'"
  by (induction ks arbitrary: r) auto

lemma scatter_last_Inr:
  assumes "scatter_last x index = Inr oh"
  shows "length index \<le> length x"
    and "\<forall>i<length index. \<forall>k\<in>set (index ! i). 0 \<le> k \<and> k < int (length (x ! i))"
proof -
  from assms show l: "length index \<le> length x"
    by (auto simp: scatter_last_def split: if_splits)
  from assms obtain rs where m: "mapE (\<lambda>(r, ks). scatter_row r ks) (zip x index) = Inr rs"
    by (auto simp: scatter_last_def bindE_eq_Inr split: if_splits)
  show "\<forall>i<length index. \<forall>k\<in>set (index ! i). 0 \<le> k \<and> k < int (length (x ! i))"
  proof (intro allI impI)
    fix i assume i: "i < length index"
    with l have "i < length (zip x index)" by simp
    from mapE_Inr_nth[OF m this] i l
    have "scatter_row (x ! i) (index ! i) = Inr (rs ! i)" by simp
    from scatter_row_Inr[OF this]
    show "\<forall>k\<in>set (index ! i). 0 \<le> k \<and> k < int (length (x ! i))" by simp
  qed
qed

lemma mapE_ok: "(\<And>x. x \<in> set xs \<Longrightarrow> \<exists>v. f x = Inr v) \<Longrightarrow> \<exists>vs. mapE f xs = Inr vs"
proof (induction xs)
  case Nil
  then show ?case by simp
next
  case (Cons a xs)
  from Cons.prems[of a] obtain v where v: "f a = Inr v" by auto
  from Cons.IH Cons.prems obtain vs where "mapE f xs = Inr vs" by auto
  with v show ?case by simp
qed

lemma scatter_last_ok:
  assumes "length index \<le> length x"
    and "\<forall>i<length index. \<forall>k\<in>set (index ! i). 0 \<le> k \<and> k < int (length (x ! i))"
  shows "\<exists>oh. scatter_last x index = Inr oh"
proof -
  have "\<exists>rs. mapE (\<lambda>(r, ks). scatter_row r ks) (zip x index) = Inr rs"
  proof (rule mapE_ok)
    fix p assume "p \<in> set (zip x index)"
    then obtain i where i: "i < length index" "p = (x ! i, index ! i)"
      by (auto simp: in_set_zip)
    with assms(2) scatter_row_ok[of "index ! i" "x ! i"]
    show "\<exists>v. (case p of (r, ks) \<Rightarrow> scatter_row r ks) = Inr v" by simp
  qed
  with assms(1) show ?thesis by (auto simp: scatter_last_def)
qed

lemma Sequential_LRLR_ok:
  "\<forall>x\<in>set m. length x = i
     \<Longrightarrow> \<exists>v. Sequential_LRLR (nn_Linear i h p1, nn_Linear h o_f p2) m = Inr v"
  by (simp add: Sequential_LRLR_def Linear_forward_def ReLU_def)

lemma Sequential_LRL_ok:
  "\<forall>x\<in>set m. length x = i
     \<Longrightarrow> \<exists>v. Sequential_LRL (nn_Linear i h p1, nn_Linear h o_f p2) m = Inr v"
  by (simp add: Sequential_LRL_def Linear_forward_def ReLU_def)

lemma torch_cat_last_ok:
  "ts \<noteq> [] \<Longrightarrow> \<forall>m\<in>set ts. length m = n \<Longrightarrow> \<exists>c. torch_cat_last ts = Inr c"
  by (cases ts) (auto simp: torch_cat_last_def)

lemma F_pad_left_ok: "\<exists>v. F_pad_left (int a - int (shape_last m)) m = Inr v"
  by (simp add: F_pad_left_def)

lemma latent_window_ok:
  assumes "zs \<noteq> []" and "\<forall>z\<in>set zs. length z = n \<and> (\<forall>r\<in>set z. length r = fc2)"
  shows "\<exists>t zp. latent_window stp fc2 (nn_Linear fc2 h p1, nn_Linear h nt p2) zs = Inr (t, zp)"
proof -
  let ?z = "py_slice_last stp zs"
  have sub: "set ?z \<subseteq> set zs" by (auto simp: py_slice_last_def dest: in_set_dropD)
  have "\<exists>t. mapE (Sequential_LRL (nn_Linear fc2 h p1, nn_Linear h nt p2)) ?z = Inr t"
  proof (rule mapE_ok)
    fix x assume "x \<in> set ?z"
    with sub assms(2) have "\<forall>r\<in>set x. length r = fc2" by auto
    then show "\<exists>v. Sequential_LRL (nn_Linear fc2 h p1, nn_Linear h nt p2) x = Inr v"
      by (rule Sequential_LRL_ok)
  qed
  then obtain t where t: "mapE (Sequential_LRL (nn_Linear fc2 h p1, nn_Linear h nt p2)) ?z = Inr t" ..
  have "?z \<noteq> []" using assms(1) by simp
  moreover have "\<forall>m\<in>set ?z. length m = n" using sub assms(2) by auto
  ultimately obtain zc where c: "torch_cat_last ?z = Inr zc"
    using torch_cat_last_ok by blast
  obtain zp where p: "F_pad_left (int (fc2 * stp) - int (shape_last zc)) zc = Inr zp"
    using F_pad_left_ok by blast
  from t c p show ?thesis by (simp add: latent_window_def)
qed

lemma topk1_ok: "\<forall>r\<in>set m. r \<noteq> [] \<Longrightarrow> \<exists>ix. topk1 tk m = Inr ix"
  unfolding topk1_def by (rule mapE_ok) (simp add: topk1_row_def)

lemma encoder_ok:
  assumes "\<forall>s\<in>set sts. length s = n \<and> (\<forall>x\<in>set s. length x = state_size)"
  shows "\<exists>zs. mapE (Sequential_LRLR (nn_Linear state_size fc1 p1, nn_Linear fc1 fc2 p2)) sts = Inr zs
           \<and> length zs = length sts
           \<and> (\<forall>z\<in>set zs. length z = n \<and> (\<forall>r\<in>set z. length r = fc2))"
proof -
  let ?enc = "(nn_Linear state_size fc1 p1, nn_Linear fc1 fc2 p2)"
  have "\<exists>zs. mapE (Sequential_LRLR ?enc) sts = Inr zs"
    by (rule mapE_ok) (use assms in \<open>auto intro: Sequential_LRLR_ok\<close>)
  then obtain zs where zs: "mapE (Sequential_LRLR ?enc) sts = Inr zs" ..
  have l: "length zs = length sts" by (rule mapE_Inr_length[OF zs])
  have "\<forall>z\<in>set zs. length z = n \<and> (\<forall>r\<in>set z. length r = fc2)"
  proof
    fix z assume "z \<in> set zs"
    then obtain i where i: "i < length zs" "z = zs ! i" by (auto simp: in_set_conv_nth)
    with l have il: "i < length sts" by simp
    note e = mapE_Inr_nth[OF zs il]
    from Sequential_LRLR_shape[OF e] assms il i
    show "length z = n \<and> (\<forall>r\<in>set z. length r = fc2)" by simp
  qed
  with zs l show ?thesis by blast
qed

subsection \<open>The two networks with a treatment block\<close>

lemma CEQNetwork_2_forward_Inr:
  assumes "snd (CEQNetwork_2_forward tk self data) = Inr res"
  shows "\<exists>sts zs. data_state data = Some sts
           \<and> mapE (Sequential_LRLR (encoder self)) sts = Inr zs
           \<and> CEQNetwork_2_forward tk self data
               = CEQNetwork_2_forward_impl tk self (data\<lparr>data_z := Some zs\<rparr>)"
  using AbstractDQN_forward_Inr[OF assms[unfolded CEQNetwork_2_forward_def]]
  by (simp add: CEQNetwork_2_forward_def)

lemma CEQNetwork_1_forward_Inr:
  assumes "snd (CEQNetwork_1_forward tk self data) = Inr res"
  shows "\<exists>sts zs. data_state data = Some sts
           \<and> mapE (Sequential_LRLR (encoder self)) sts = Inr zs
           \<and> CEQNetwork_1_forward tk self data
               = CEQNetwork_1_forward_impl tk self (data\<lparr>data_z := Some zs\<rparr>)"
  using AbstractDQN_forward_Inr[OF assms[unfolded CEQNetwork_1_forward_def]]
  by (simp add: CEQNetwork_1_forward_def)

lemma torch_mul_col:
  "length c = length y \<Longrightarrow> \<forall>q\<in>set c. length q = 1
     \<Longrightarrow> torch_mul c y = Inr (map (\<lambda>(q, r). map ((*) (hd q)) r) (zip c y))"
  unfolding torch_mul_def by (rule bcast2_col)

lemma torch_add_same:
  "length a = length b \<Longrightarrow> \<forall>i<length a. length (a ! i) = length (b ! i)
     \<Longrightarrow> torch_add a b = Inr (map (\<lambda>(ra, rb). map (\<lambda>(u, v). u + v) (zip ra rb)) (zip a b))"
  unfolding torch_add_def by (rule bcast2_same)

lemma combine_rows:
  "length us = length vs
     \<Longrightarrow> map (\<lambda>(u, v). u + v) (zip (map ((*) c) us) (map ((*) (1 - c)) vs))
         = map (\<lambda>(u, v). c * u + (1 - c) * v) (zip us (vs :: fp list))"
  by (induction us vs rule: list_induct2) auto

text \<open>The blend of line 161 at the weights 0 and 1: the selected entry comes out when the
  other entry is finite.\<close>

lemma blend_zero: "is_finite u \<Longrightarrow> 0 * u + (1 - 0) * v = (v :: fp)"
  by (cases u; cases v) (simp_all add: is_finite_def zero_fp_def one_fp_def minus_fp_def)

lemma blend_one: "is_finite v \<Longrightarrow> 1 * u + (1 - 1) * v = (u :: fp)"
  by (cases u; cases v) (simp_all add: is_finite_def zero_fp_def one_fp_def minus_fp_def)

lemma t_bernoulli_of_Inr:
  assumes tb: "t_bernoulli_of tk m dt t = Inr b"
    and t: "t \<noteq> []" "length (last t) = n"
    and lab: "m \<longrightarrow> dt = Some ts \<and> length (last ts) = n \<and> (\<forall>q\<in>set (last ts). length q = 1)"
  shows "length b = n" and "\<forall>q\<in>set b. length q = 1"
    and "\<forall>i<n. hd (b ! i) = (if m then fp_of_int (hd (last ts ! i)) else fp_of_int (int (tk (last t ! i))))"
proof -
  have "length b = n \<and> (\<forall>q\<in>set b. length q = 1)
     \<and> (\<forall>i<n. hd (b ! i) = (if m then fp_of_int (hd (last ts ! i)) else fp_of_int (int (tk (last t ! i)))))"
  proof (cases m)
    case True
    with lab tb have b: "b = to_float (last ts)" and l: "length (last ts) = n"
      and q: "\<forall>q\<in>set (last ts). length q = 1"
      by (auto simp: t_bernoulli_of_def bindE_eq_Inr py_last_Inr)
    have "\<forall>i<n. hd (b ! i) = fp_of_int (hd (last ts ! i))"
    proof (intro allI impI)
      fix i assume i: "i < n"
      with l q have "length (last ts ! i) = 1" by simp
      then obtain k where "last ts ! i = [k]" by (cases "last ts ! i") auto
      with i l b show "hd (b ! i) = fp_of_int (hd (last ts ! i))"
        by (simp add: to_float_def)
    qed
    with True b l q show ?thesis by (auto simp: to_float_def)
  next
    case False
    with tb obtain ix where ix: "topk1 tk (last t) = Inr ix" and b: "b = to_float ix"
      by (auto simp: t_bernoulli_of_def bindE_eq_Inr py_last_Inr)
    note k = topk1_Inr[OF ix]
    from k t(2) b False show ?thesis by (auto simp: to_float_def)
  qed
  then show "length b = n" and "\<forall>q\<in>set b. length q = 1"
    and "\<forall>i<n. hd (b ! i) = (if m then fp_of_int (hd (last ts ! i)) else fp_of_int (int (tk (last t ! i))))"
    by blast+
qed

lemma torch_stack1_Inr:
  assumes "torch_stack1 ts = Inr s"
  shows "ts \<noteq> []"
    and "s = map (\<lambda>i. map (\<lambda>m. m ! i) ts) [0..<length (hd ts)]"
    and "\<forall>m\<in>set ts. map length m = map length (hd ts)"
  using assms by (auto simp: torch_stack1_def split: list.splits if_splits)

lemma torch_stack1_rows:
  assumes "torch_stack1 ts = Inr s" and "\<forall>m\<in>set ts. length m = n"
  shows "length s = n" and "\<forall>i<n. s ! i = map (\<lambda>m. m ! i) ts"
proof -
  note S = torch_stack1_Inr[OF assms(1)]
  from S(1) have "hd ts \<in> set ts" by simp
  with assms(2) have h: "length (hd ts) = n" by simp
  with S(2) show "length s = n" by simp
  from S(2) h show "\<forall>i<n. s ! i = map (\<lambda>m. m ! i) ts" by simp
qed

lemma scatter_last3_same:
  assumes "scatter_last3 x index = Inr oh" and "length index = length x"
  shows "length oh = length x"
    and "\<forall>i<length x. scatter_last (x ! i) (index ! i) = Inr (oh ! i)"
proof -
  from assms have m: "mapE (\<lambda>(m, ix). scatter_last m ix) (zip x index) = Inr oh"
    by (auto simp: scatter_last3_def bindE_eq_Inr split: if_splits)
  from mapE_Inr_length[OF m] assms(2) show "length oh = length x" by simp
  show "\<forall>i<length x. scatter_last (x ! i) (index ! i) = Inr (oh ! i)"
  proof (intro allI impI)
    fix i assume i: "i < length x"
    then have "i < length (zip x index)" using assms(2) by simp
    from mapE_Inr_nth[OF m this] i assms(2)
    show "scatter_last (x ! i) (index ! i) = Inr (oh ! i)" by simp
  qed
qed

lemma topk1_3_Inr:
  assumes "topk1_3 tk x = Inr ix"
  shows "length ix = length x"
    and "\<forall>i<length x. length (ix ! i) = length (x ! i)
           \<and> (\<forall>q\<in>set (ix ! i). length q = 1)
           \<and> (\<forall>j<length (x ! i). ix ! i ! j = [int (tk (x ! i ! j))])"
proof -
  from mapE_Inr_length[OF assms[unfolded topk1_3_def]] show "length ix = length x" .
  show "\<forall>i<length x. length (ix ! i) = length (x ! i)
           \<and> (\<forall>q\<in>set (ix ! i). length q = 1)
           \<and> (\<forall>j<length (x ! i). ix ! i ! j = [int (tk (x ! i ! j))])"
  proof (intro allI impI)
    fix i assume "i < length x"
    from topk1_Inr[OF mapE_Inr_nth[OF assms[unfolded topk1_3_def] this]]
    show "length (ix ! i) = length (x ! i)
           \<and> (\<forall>q\<in>set (ix ! i). length q = 1)
           \<and> (\<forall>j<length (x ! i). ix ! i ! j = [int (tk (x ! i ! j))])"
      by blast
  qed
qed

lemma slot_of_padded:
  assumes "\<forall>v\<in>set vs. length v = w" and "s < p + length vs"
  shows "take w (drop (s * w) (replicate (w * p) (0::fp) @ concat vs))
           = (if s < p then replicate w 0 else vs ! (s - p))"
proof (cases "s < p")
  case True
  then have "s * w + w \<le> w * p"
    by (metis Suc_leI mult.commute mult_Suc mult_le_mono2 add.commute)
  then have "take w (drop (s * w) (replicate (w * p) (0::fp) @ concat vs))
              = take w (drop (s * w) (replicate (w * p) (0::fp)))"
    by simp
  also have "\<dots> = replicate w 0"
    using \<open>s * w + w \<le> w * p\<close> by (simp add: min_def)
  finally show ?thesis using True by simp
next
  case False
  define j where "j = s - p"
  with False assms(2) have j: "j < length vs" "s = p + j" by simp_all
  have d: "drop (s * w) (replicate (w * p) (0::fp) @ concat vs) = drop (j * w) (concat vs)"
    using j(2) by (simp add: algebra_simps)
  from assms(1) j(1) have "take w (drop (j * w) (concat vs)) = vs ! j"
  proof (induction vs arbitrary: j)
    case Nil
    then show ?case by simp
  next
    case (Cons v vs)
    show ?case
    proof (cases j)
      case 0
      with Cons.prems show ?thesis by simp
    next
      case (Suc k)
      with Cons.prems have "take w (drop (k * w) (concat vs)) = vs ! k"
        by (intro Cons.IH) simp_all
      with Suc Cons.prems show ?thesis by simp
    qed
  qed
  with d False j_def show ?thesis by simp
qed

lemma treatment_block_rows:
  assumes t: "t \<noteq> []" "length t \<le> stp" "\<forall>l\<in>set t. length l = n \<and> (\<forall>r\<in>set l. length r = nt)"
    and tb: "treatment_block tk m nt stp dt t = Inr ob"
    and lab: "m \<longrightarrow> dt = Some ts \<and> length (py_slice_last stp ts) = length t
                \<and> (\<forall>l\<in>set (py_slice_last stp ts). length l = n \<and> (\<forall>q\<in>set l. length q = 1))"
  shows "length ob = n"
    and "\<forall>i<n. \<exists>ks. length ks = length t
            \<and> (\<forall>j<length t. ks ! j < nt
                   \<and> int (ks ! j) = (if m then hd (py_slice_last stp ts ! j ! i)
                                      else int (tk (t ! j ! i))))
            \<and> ob ! i = replicate (nt * (stp - length t)) 0
                         @ concat (map (\<lambda>k. (replicate nt 0)[k := 1]) ks)"
proof -
  let ?L = "length t"
  let ?sl = "py_slice_last stp ts"
  let ?k = "\<lambda>i j. if m then hd (?sl ! j ! i) else int (tk (t ! j ! i))"
  from tb obtain t_stack flat where
    S: "torch_stack1 t = Inr t_stack"
    and br: "(if m then
          (case dt of
             None \<Rightarrow> Inl (KeyError ''t'')
           | Some ts \<Rightarrow>
               bindE (torch_stack1 (py_slice_last stp ts)) (\<lambda>lbl.
               bindE (scatter_last3 (map zeros_like t_stack) lbl) (\<lambda>oh. Inr (view_flat oh))))
        else
          bindE (topk1_3 tk t_stack) (\<lambda>ix.
          bindE (scatter_last3 (map zeros_like t_stack) ix) (\<lambda>oh. Inr (view_flat oh)))) = Inr flat"
    and P: "F_pad_left (int (nt * stp) - int (shape_last flat)) flat = Inr ob"
    by (auto simp: treatment_block_def bindE_eq_Inr)
  have tn: "\<forall>l\<in>set t. length l = n" using t(3) by simp
  note TS = torch_stack1_rows[OF S tn]
  have ts_ij: "\<And>i j. i < n \<Longrightarrow> j < ?L \<Longrightarrow> t_stack ! i ! j = t ! j ! i"
    using TS(2) by simp
  have ts_len: "\<And>i. i < n \<Longrightarrow> length (t_stack ! i) = ?L" using TS(2) by simp
  have ts_w: "\<And>i j. i < n \<Longrightarrow> j < ?L \<Longrightarrow> length (t_stack ! i ! j) = nt"
    using ts_ij t(3) by (metis nth_mem)
  have "\<exists>idx oh. scatter_last3 (map zeros_like t_stack) idx = Inr oh \<and> flat = view_flat oh
          \<and> length idx = n
          \<and> (\<forall>i<n. length (idx ! i) = ?L \<and> (\<forall>q\<in>set (idx ! i). length q = 1)
                  \<and> (\<forall>j<?L. hd (idx ! i ! j) = ?k i j))"
  proof (cases m)
    case True
    with lab have dt: "dt = Some ts" and ll: "length ?sl = ?L"
      and sh: "\<forall>l\<in>set ?sl. length l = n \<and> (\<forall>q\<in>set l. length q = 1)"
      by simp_all
    from br True dt obtain lbl oh where
      L: "torch_stack1 ?sl = Inr lbl"
      and sc: "scatter_last3 (map zeros_like t_stack) lbl = Inr oh"
      and fl: "flat = view_flat oh"
      by (auto simp: bindE_eq_Inr)
    have "\<forall>l\<in>set ?sl. length l = n" using sh by simp
    note LS = torch_stack1_rows[OF L this]
    have "\<forall>i<n. length (lbl ! i) = ?L \<and> (\<forall>q\<in>set (lbl ! i). length q = 1)
                  \<and> (\<forall>j<?L. hd (lbl ! i ! j) = ?k i j)"
    proof (intro allI impI)
      fix i assume i: "i < n"
      have e: "lbl ! i = map (\<lambda>c. c ! i) ?sl" using LS(2) i by simp
      have "\<forall>q\<in>set (lbl ! i). length q = 1"
      proof
        fix q assume "q \<in> set (lbl ! i)"
        then obtain c where c: "c \<in> set ?sl" "q = c ! i" unfolding e by auto
        with sh i have "c ! i \<in> set c" by simp
        with c sh show "length q = 1" by blast
      qed
      with e ll True show "length (lbl ! i) = ?L \<and> (\<forall>q\<in>set (lbl ! i). length q = 1)
                  \<and> (\<forall>j<?L. hd (lbl ! i ! j) = ?k i j)"
        by simp
    qed
    with sc fl LS(1) show ?thesis by blast
  next
    case False
    with br obtain ix oh where
      X: "topk1_3 tk t_stack = Inr ix"
      and sc: "scatter_last3 (map zeros_like t_stack) ix = Inr oh"
      and fl: "flat = view_flat oh"
      by (auto simp: bindE_eq_Inr)
    note K = topk1_3_Inr[OF X]
    have "\<forall>i<n. length (ix ! i) = ?L \<and> (\<forall>q\<in>set (ix ! i). length q = 1)
                  \<and> (\<forall>j<?L. hd (ix ! i ! j) = ?k i j)"
    proof (intro allI impI)
      fix i assume i: "i < n"
      with K(2) TS(1) have a: "length (ix ! i) = length (t_stack ! i)"
        and b: "\<forall>q\<in>set (ix ! i). length q = 1"
        and c: "\<forall>j<length (t_stack ! i). ix ! i ! j = [int (tk (t_stack ! i ! j))]"
        by simp_all
      from a b c ts_len[OF i] ts_ij[OF i] False
      show "length (ix ! i) = ?L \<and> (\<forall>q\<in>set (ix ! i). length q = 1)
                  \<and> (\<forall>j<?L. hd (ix ! i ! j) = ?k i j)"
        by simp
    qed
    moreover have "length ix = n" using K(1) TS(1) by simp
    ultimately show ?thesis using sc fl by blast
  qed
  then obtain idx oh where
    sc: "scatter_last3 (map zeros_like t_stack) idx = Inr oh"
    and fl: "flat = view_flat oh"
    and li: "length idx = n"
    and ix: "\<And>i. i < n \<Longrightarrow> length (idx ! i) = ?L \<and> (\<forall>q\<in>set (idx ! i). length q = 1)
                  \<and> (\<forall>j<?L. hd (idx ! i ! j) = ?k i j)"
    by blast
  have "length idx = length (map zeros_like t_stack)" using li TS(1) by simp
  note SC = scatter_last3_same[OF sc this]
  have loh: "length oh = n" using SC(1) TS(1) by simp
  have rows: "\<And>i. i < n \<Longrightarrow> length (oh ! i) = ?L
                 \<and> (\<forall>j<?L. 0 \<le> ?k i j \<and> ?k i j < int nt
                        \<and> oh ! i ! j = (replicate nt 0)[nat (?k i j) := 1])"
  proof -
    fix i assume i: "i < n"
    from SC(2) i TS(1) have s: "scatter_last (zeros_like (t_stack ! i)) (idx ! i) = Inr (oh ! i)"
      by simp
    from ix[OF i] ts_len[OF i]
    have "length (idx ! i) = length (zeros_like (t_stack ! i))" "\<forall>q\<in>set (idx ! i). length q = 1"
      by simp_all
    note C = scatter_last_col[OF s this]
    from C(1) ts_len[OF i] have l: "length (oh ! i) = ?L" by simp
    have "\<forall>j<?L. 0 \<le> ?k i j \<and> ?k i j < int nt
                        \<and> oh ! i ! j = (replicate nt 0)[nat (?k i j) := 1]"
    proof (intro allI impI)
      fix j assume j: "j < ?L"
      from C(2) j ts_len[OF i]
      have "0 \<le> hd (idx ! i ! j) \<and> hd (idx ! i ! j) < int (length (zeros_like (t_stack ! i) ! j))
            \<and> oh ! i ! j = (zeros_like (t_stack ! i) ! j)[nat (hd (idx ! i ! j)) := 1]"
        by simp
      moreover have "zeros_like (t_stack ! i) ! j = replicate nt 0"
        using j ts_len[OF i] ts_w[OF i j] by (simp add: zeros_like_nth)
      moreover have "hd (idx ! i ! j) = ?k i j" using ix[OF i] j by blast
      ultimately show "0 \<le> ?k i j \<and> ?k i j < int nt
                        \<and> oh ! i ! j = (replicate nt 0)[nat (?k i j) := 1]"
        by simp
    qed
    with l show "length (oh ! i) = ?L
                 \<and> (\<forall>j<?L. 0 \<le> ?k i j \<and> ?k i j < int nt
                        \<and> oh ! i ! j = (replicate nt 0)[nat (?k i j) := 1])"
      by blast
  qed
  have lf: "length flat = n" using fl loh by (simp add: view_flat_def)
  have lob: "length ob = n" using F_pad_left_length[OF P] lf by simp
  show "length ob = n" by (rule lob)
  show "\<forall>i<n. \<exists>ks. length ks = length t
            \<and> (\<forall>j<length t. ks ! j < nt
                   \<and> int (ks ! j) = (if m then hd (py_slice_last stp ts ! j ! i)
                                      else int (tk (t ! j ! i))))
            \<and> ob ! i = replicate (nt * (stp - length t)) 0
                         @ concat (map (\<lambda>k. (replicate nt 0)[k := 1]) ks)"
  proof (intro allI impI)
    fix i assume i: "i < n"
    define ks where "ks = map (\<lambda>j. nat (?k i j)) [0..<?L]"
    have lk: "length ks = ?L" by (simp add: ks_def)
    have kj: "\<forall>j<?L. ks ! j < nt \<and> int (ks ! j) = ?k i j"
      using rows[OF i] by (auto simp: ks_def)
    have ohi: "\<And>i'. i' < n \<Longrightarrow> oh ! i' = map (\<lambda>j. (replicate nt 0)[nat (?k i' j) := 1]) [0..<?L]"
      using rows by (intro nth_equalityI) simp_all
    have ohk: "oh ! i = map (\<lambda>k. (replicate nt 0)[k := 1]) ks"
      unfolding ohi[OF i] ks_def by (simp add: comp_def)
    have wflat: "\<And>i'. i' < n \<Longrightarrow> length (flat ! i') = nt * ?L"
    proof -
      fix i' assume i': "i' < n"
      have "flat ! i' = concat (oh ! i')" using fl loh i' by (simp add: view_flat_def)
      also have "\<dots> = concat (map (\<lambda>j. (replicate nt 0)[nat (?k i' j) := 1]) [0..<?L])"
        by (simp only: ohi[OF i'])
      finally have "length (flat ! i') = nt * length [0..<?L]"
        by (simp only: length_concat_const[where c = nt] length_list_update length_replicate)
      then show "length (flat ! i') = nt * ?L" by simp
    qed
    have "flat \<noteq> []" using lf i by auto
    then have "shape_last flat = length (flat ! 0)"
      by (cases flat) (simp_all add: shape_last_def)
    with wflat[of 0] i have sh: "shape_last flat = nt * ?L" by simp
    have le: "nt * ?L \<le> nt * stp" using t(2) by simp
    have "int (nt * stp) - int (nt * ?L) = int (nt * stp - nt * ?L)"
      using le by (rule of_nat_diff[symmetric])
    also have "nt * stp - nt * ?L = nt * (stp - ?L)" by (simp add: diff_mult_distrib2)
    finally have pad: "int (nt * stp) - int (shape_last flat) = int (nt * (stp - ?L))"
      unfolding sh .
    have ob: "ob = map (\<lambda>r. replicate (nt * (stp - ?L)) 0 @ r) flat"
      using P unfolding pad by (auto simp: F_pad_left_def nat_mult_distrib)
    have "ob ! i = replicate (nt * (stp - ?L)) 0 @ concat (oh ! i)"
      using ob lf i fl loh by (simp add: view_flat_def)
    with ohk have "ob ! i = replicate (nt * (stp - ?L)) 0
                         @ concat (map (\<lambda>k. (replicate nt 0)[k := 1]) ks)"
      by simp
    with lk kj show "\<exists>ks. length ks = length t
            \<and> (\<forall>j<length t. ks ! j < nt
                   \<and> int (ks ! j) = (if m then hd (py_slice_last stp ts ! j ! i)
                                      else int (tk (t ! j ! i))))
            \<and> ob ! i = replicate (nt * (stp - length t)) 0
                         @ concat (map (\<lambda>k. (replicate nt 0)[k := 1]) ks)"
      by blast
  qed
qed

lemma sum_list_zeros: "sum_list (replicate n (0::fp)) = 0"
  by (induction n) simp_all

lemma sum_list_unit: "k < n \<Longrightarrow> sum_list ((replicate n (0::fp))[k := 1]) = 1"
proof (induction n arbitrary: k)
  case 0
  then show ?case by simp
next
  case (Suc n)
  then show ?case by (cases k) (simp_all add: sum_list_zeros)
qed

lemma encoder_lengths:
  assumes "mapE (Sequential_LRLR enc) sts = Inr zs"
  shows "length zs = length sts" and "\<forall>k<length sts. length (zs ! k) = length (sts ! k)"
proof -
  show "length zs = length sts" by (rule mapE_Inr_length[OF assms])
  show "\<forall>k<length sts. length (zs ! k) = length (sts ! k)"
    using Sequential_LRLR_shape(1)[OF mapE_Inr_nth[OF assms]] by simp
qed

lemma window_sample_count:
  assumes stp: "0 < stp"
    and e: "mapE (Sequential_LRLR enc) sts = Inr zs"
    and w: "latent_window stp fc2 lt zs = Inr (t, zp)"
  shows "\<forall>s\<in>set (drop (length sts - stp) sts). length s = length zp"
    and "length (last sts) = length zp"
    and "sts \<noteq> []"
proof -
  note el = encoder_lengths[OF e]
  note wl = latent_window_lengths[OF w]
  show ne: "sts \<noteq> []" using wl(1) el(1) by auto
  let ?d = "length sts - stp"
  have sl: "py_slice_last stp zs = drop ?d zs" using stp el(1) by (simp add: py_slice_last_pos)
  show all: "\<forall>s\<in>set (drop ?d sts). length s = length zp"
  proof
    fix s assume "s \<in> set (drop ?d sts)"
    then obtain j where j: "j < length sts - ?d" "s = drop ?d sts ! j"
      by (auto simp: in_set_conv_nth)
    then have k: "?d + j < length sts" and s: "s = sts ! (?d + j)" by simp_all
    have "j < length (drop ?d zs)" using j(1) el(1) by simp
    then have "drop ?d zs ! j \<in> set (drop ?d zs)" by (rule nth_mem)
    with wl(4) sl have a: "length (drop ?d zs ! j) = length zp" by (simp del: nth_drop)
    have b: "drop ?d zs ! j = zs ! (?d + j)" using k el(1) by simp
    from a b el(2) k s show "length s = length zp" by simp
  qed
  have "?d < length sts" using ne stp by (cases sts) auto
  then have "last sts \<in> set (drop ?d sts)"
    using ne by (metis drop_eq_Nil last_drop last_in_set not_le)
  with all show "length (last sts) = length zp" by blast
qed

text \<open>What a returning forward call of the two networks with a treatment block has
  computed, with the configuration written out.\<close>

lemma CEQNetwork_1_forward_parts:
  assumes "snd (CEQNetwork_1_forward tk
                  ((CEQNetwork_1_init state_size action_size fc1 fc2 stp nt pe pt pf)
                     \<lparr>training := m\<rparr>) data) = Inr res"
  shows "\<exists>sts zs t onehot_t x. data_state data = Some sts
           \<and> mapE (Sequential_LRLR (nn_Linear state_size fc1 (fst pe), nn_Linear fc1 fc2 (snd pe)))
                 sts = Inr zs
           \<and> latent_window stp fc2
                 (nn_Linear fc2 (fc2 div 2) (fst pt), nn_Linear (fc2 div 2) nt (snd pt)) zs
               = Inr (t, out_z res)
           \<and> t \<noteq> [] \<and> out_t res = last t
           \<and> treatment_block tk m nt stp (data_t data) t = Inr onehot_t
           \<and> torch_cat_last [out_z res, onehot_t] = Inr x
           \<and> Sequential_LRL (nn_Linear ((fc2 + nt) * stp) ((fc2 + nt) * stp div 2) (fst pf),
                              nn_Linear ((fc2 + nt) * stp div 2) action_size (snd pf)) x
               = Inr (out_y res)"
proof -
  let ?net = "(CEQNetwork_1_init state_size action_size fc1 fc2 stp nt pe pt pf)\<lparr>training := m\<rparr>"
  from CEQNetwork_1_forward_Inr[OF assms] obtain sts zs where
    s: "data_state data = Some sts"
    "mapE (Sequential_LRLR (encoder ?net)) sts = Inr zs"
    and e: "CEQNetwork_1_forward tk ?net data
              = CEQNetwork_1_forward_impl tk ?net (data\<lparr>data_z := Some zs\<rparr>)"
    by blast
  from CEQNetwork_1_forward_impl_Inr[OF assms[unfolded e]] s show ?thesis by auto
qed

lemma CEQNetwork_2_forward_parts:
  assumes "snd (CEQNetwork_2_forward tk
                  ((CEQNetwork_2_init state_size action_size fc1 fc2 stp nt pe pt pf0 pf1)
                     \<lparr>training := m\<rparr>) data) = Inr res"
  shows "\<exists>sts zs t onehot_t t_bernoulli x y_t0 y_t1 a b. data_state data = Some sts
           \<and> mapE (Sequential_LRLR (nn_Linear state_size fc1 (fst pe), nn_Linear fc1 fc2 (snd pe)))
                 sts = Inr zs
           \<and> latent_window stp fc2
                 (nn_Linear fc2 (fc2 div 2) (fst pt), nn_Linear (fc2 div 2) nt (snd pt)) zs
               = Inr (t, out_z res)
           \<and> t \<noteq> [] \<and> out_t res = last t
           \<and> treatment_block tk m nt stp (data_t data) t = Inr onehot_t
           \<and> t_bernoulli_of tk m (data_t data) t = Inr t_bernoulli
           \<and> torch_cat_last [out_z res, onehot_t] = Inr x
           \<and> Sequential_LRL (nn_Linear ((fc2 + nt) * stp) ((fc2 + nt) * stp div 2) (fst pf0),
                              nn_Linear ((fc2 + nt) * stp div 2) action_size (snd pf0)) x
               = Inr y_t0
           \<and> Sequential_LRL (nn_Linear ((fc2 + nt) * stp) ((fc2 + nt) * stp div 2) (fst pf1),
                              nn_Linear ((fc2 + nt) * stp div 2) action_size (snd pf1)) x
               = Inr y_t1
           \<and> torch_mul t_bernoulli y_t1 = Inr a
           \<and> torch_mul (one_minus t_bernoulli) y_t0 = Inr b
           \<and> torch_add a b = Inr (out_y res)"
proof -
  let ?net = "(CEQNetwork_2_init state_size action_size fc1 fc2 stp nt pe pt pf0 pf1)\<lparr>training := m\<rparr>"
  from CEQNetwork_2_forward_Inr[OF assms] obtain sts zs where
    s: "data_state data = Some sts"
    "mapE (Sequential_LRLR (encoder ?net)) sts = Inr zs"
    and e: "CEQNetwork_2_forward tk ?net data
              = CEQNetwork_2_forward_impl tk ?net (data\<lparr>data_z := Some zs\<rparr>)"
    by blast
  from CEQNetwork_2_forward_impl_Inr[OF assms[unfolded e]] s show ?thesis by auto
qed

text \<open>The three broadcasting operations of line 161, row by row.\<close>

lemma blend_rows:
  assumes tb: "length tb = n" "\<forall>q\<in>set tb. length q = 1"
    and h: "length h0 = n" "length h1 = n"
      "\<forall>i<n. length (h0 ! i) = w" "\<forall>i<n. length (h1 ! i) = w"
    and a: "torch_mul tb h1 = Inr a"
    and b: "torch_mul (one_minus tb) h0 = Inr b"
    and y: "torch_add a b = Inr y"
  shows "length y = n"
    and "\<forall>i<n. y ! i = map (\<lambda>(u, v). hd (tb ! i) * u + (1 - hd (tb ! i)) * v)
                            (zip (h1 ! i) (h0 ! i))"
proof -
  have a': "a = map (\<lambda>(q, r). map ((*) (hd q)) r) (zip tb h1)"
    using torch_mul_col[of tb h1] tb h(2) a by simp
  have "length (one_minus tb) = length h0" "\<forall>q\<in>set (one_minus tb). length q = 1"
    using tb h(1) by (auto simp: one_minus_def)
  from torch_mul_col[OF this] b
  have b': "b = map (\<lambda>(q, r). map ((*) (hd q)) r) (zip (one_minus tb) h0)" by simp
  have hom: "\<And>i. i < n \<Longrightarrow> hd (one_minus tb ! i) = 1 - hd (tb ! i)"
  proof -
    fix i assume i: "i < n"
    with tb have "length (tb ! i) = 1" by simp
    then obtain v where "tb ! i = [v]" by (cases "tb ! i") auto
    with i tb(1) show "hd (one_minus tb ! i) = 1 - hd (tb ! i)"
      by (simp add: one_minus_def)
  qed
  have la: "length a = n" and lb: "length b = n"
    using a' b' tb(1) h(1,2) by (simp_all add: one_minus_def)
  have ai: "\<And>i. i < n \<Longrightarrow> a ! i = map ((*) (hd (tb ! i))) (h1 ! i)"
    using a' tb(1) h(2) by simp
  have bi: "\<And>i. i < n \<Longrightarrow> b ! i = map ((*) (1 - hd (tb ! i))) (h0 ! i)"
    using b' tb(1) h(1) hom by (simp add: one_minus_def)
  have "length a = length b" "\<forall>i<length a. length (a ! i) = length (b ! i)"
    using la lb ai bi h(3,4) by simp_all
  from torch_add_same[OF this] y
  have oy: "y = map (\<lambda>(ra, rb). map (\<lambda>(u, v). u + v) (zip ra rb)) (zip a b)" by simp
  then show "length y = n" using la lb by simp
  show "\<forall>i<n. y ! i = map (\<lambda>(u, v). hd (tb ! i) * u + (1 - hd (tb ! i)) * v)
                            (zip (h1 ! i) (h0 ! i))"
  proof (intro allI impI)
    fix i assume i: "i < n"
    have len: "length (h1 ! i) = length (h0 ! i)" using h(3,4) i by simp
    have "y ! i = map (\<lambda>(u, v). u + v) (zip (a ! i) (b ! i))"
      by (subst oy) (simp add: i la lb)
    also have "\<dots> = map (\<lambda>(u, v). hd (tb ! i) * u + (1 - hd (tb ! i)) * v)
                        (zip (h1 ! i) (h0 ! i))"
      unfolding ai[OF i] bi[OF i] by (rule combine_rows[OF len])
    finally show "y ! i = map (\<lambda>(u, v). hd (tb ! i) * u + (1 - hd (tb ! i)) * v)
                        (zip (h1 ! i) (h0 ! i))" .
  qed
qed

lemma forward_treatment_block:
  assumes "snd (CEQNetwork_1_forward tk
                  ((CEQNetwork_1_init state_size action_size fc1 fc2 stp nt pe pt pf)
                     \<lparr>training := m\<rparr>) data) = Inr res
           \<or> snd (CEQNetwork_2_forward tk
                  ((CEQNetwork_2_init state_size action_size fc1 fc2 stp nt pe pt pf0 pf1)
                     \<lparr>training := m\<rparr>) data) = Inr res"
  shows "\<exists>sts zs t onehot_t x. data_state data = Some sts
           \<and> mapE (Sequential_LRLR (nn_Linear state_size fc1 (fst pe), nn_Linear fc1 fc2 (snd pe)))
                 sts = Inr zs
           \<and> latent_window stp fc2
                 (nn_Linear fc2 (fc2 div 2) (fst pt), nn_Linear (fc2 div 2) nt (snd pt)) zs
               = Inr (t, out_z res)
           \<and> out_t res = last t
           \<and> treatment_block tk m nt stp (data_t data) t = Inr onehot_t
           \<and> torch_cat_last [out_z res, onehot_t] = Inr x
           \<and> (snd (CEQNetwork_1_forward tk
                  ((CEQNetwork_1_init state_size action_size fc1 fc2 stp nt pe pt pf)
                     \<lparr>training := m\<rparr>) data) = Inr res
                \<longrightarrow> Sequential_LRL
                      (nn_Linear ((fc2 + nt) * stp) ((fc2 + nt) * stp div 2) (fst pf),
                       nn_Linear ((fc2 + nt) * stp div 2) action_size (snd pf)) x
                    = Inr (out_y res))
           \<and> (snd (CEQNetwork_2_forward tk
                  ((CEQNetwork_2_init state_size action_size fc1 fc2 stp nt pe pt pf0 pf1)
                     \<lparr>training := m\<rparr>) data) = Inr res
                \<longrightarrow> (\<exists>t_bernoulli y_t0 y_t1 a b.
                       t_bernoulli_of tk m (data_t data) t = Inr t_bernoulli
                       \<and> Sequential_LRL
                           (nn_Linear ((fc2 + nt) * stp) ((fc2 + nt) * stp div 2) (fst pf0),
                            nn_Linear ((fc2 + nt) * stp div 2) action_size (snd pf0)) x
                         = Inr y_t0
                       \<and> Sequential_LRL
                           (nn_Linear ((fc2 + nt) * stp) ((fc2 + nt) * stp div 2) (fst pf1),
                            nn_Linear ((fc2 + nt) * stp div 2) action_size (snd pf1)) x
                         = Inr y_t1
                       \<and> torch_mul t_bernoulli y_t1 = Inr a
                       \<and> torch_mul (one_minus t_bernoulli) y_t0 = Inr b
                       \<and> torch_add a b = Inr (out_y res)))"
  using assms
proof (elim disjE)
  assume a: "snd (CEQNetwork_1_forward tk
                  ((CEQNetwork_1_init state_size action_size fc1 fc2 stp nt pe pt pf)
                     \<lparr>training := m\<rparr>) data) = Inr res"
  from CEQNetwork_1_forward_parts[OF a] obtain sts zs t onehot_t x where
    p: "data_state data = Some sts"
    "mapE (Sequential_LRLR (nn_Linear state_size fc1 (fst pe), nn_Linear fc1 fc2 (snd pe)))
                 sts = Inr zs"
    "latent_window stp fc2
                 (nn_Linear fc2 (fc2 div 2) (fst pt), nn_Linear (fc2 div 2) nt (snd pt)) zs
               = Inr (t, out_z res)"
    "out_t res = last t"
    "treatment_block tk m nt stp (data_t data) t = Inr onehot_t"
    "torch_cat_last [out_z res, onehot_t] = Inr x"
    by blast
  have c: "snd (CEQNetwork_2_forward tk
                  ((CEQNetwork_2_init state_size action_size fc1 fc2 stp nt pe pt pf0 pf1)
                     \<lparr>training := m\<rparr>) data) = Inr res
           \<longrightarrow> (\<exists>t_bernoulli y_t0 y_t1 a b.
                       t_bernoulli_of tk m (data_t data) t = Inr t_bernoulli
                       \<and> Sequential_LRL
                           (nn_Linear ((fc2 + nt) * stp) ((fc2 + nt) * stp div 2) (fst pf0),
                            nn_Linear ((fc2 + nt) * stp div 2) action_size (snd pf0)) x
                         = Inr y_t0
                       \<and> Sequential_LRL
                           (nn_Linear ((fc2 + nt) * stp) ((fc2 + nt) * stp div 2) (fst pf1),
                            nn_Linear ((fc2 + nt) * stp div 2) action_size (snd pf1)) x
                         = Inr y_t1
                       \<and> torch_mul t_bernoulli y_t1 = Inr a
                       \<and> torch_mul (one_minus t_bernoulli) y_t0 = Inr b
                       \<and> torch_add a b = Inr (out_y res))"
  proof
    assume c': "snd (CEQNetwork_2_forward tk
                  ((CEQNetwork_2_init state_size action_size fc1 fc2 stp nt pe pt pf0 pf1)
                     \<lparr>training := m\<rparr>) data) = Inr res"
    from CEQNetwork_2_forward_parts[OF c'] p(1,2,3,5,6)
    show "(\<exists>t_bernoulli y_t0 y_t1 a b.
                       t_bernoulli_of tk m (data_t data) t = Inr t_bernoulli
                       \<and> Sequential_LRL
                           (nn_Linear ((fc2 + nt) * stp) ((fc2 + nt) * stp div 2) (fst pf0),
                            nn_Linear ((fc2 + nt) * stp div 2) action_size (snd pf0)) x
                         = Inr y_t0
                       \<and> Sequential_LRL
                           (nn_Linear ((fc2 + nt) * stp) ((fc2 + nt) * stp div 2) (fst pf1),
                            nn_Linear ((fc2 + nt) * stp div 2) action_size (snd pf1)) x
                         = Inr y_t1
                       \<and> torch_mul t_bernoulli y_t1 = Inr a
                       \<and> torch_mul (one_minus t_bernoulli) y_t0 = Inr b
                       \<and> torch_add a b = Inr (out_y res))"
      by auto
  qed
  from CEQNetwork_1_forward_parts[OF a] p(1,2,3,5,6)
  have b: "Sequential_LRL
                      (nn_Linear ((fc2 + nt) * stp) ((fc2 + nt) * stp div 2) (fst pf),
                       nn_Linear ((fc2 + nt) * stp div 2) action_size (snd pf)) x
                    = Inr (out_y res)"
    by auto
  from p b c show ?thesis by blast
next
  assume a: "snd (CEQNetwork_2_forward tk
                  ((CEQNetwork_2_init state_size action_size fc1 fc2 stp nt pe pt pf0 pf1)
                     \<lparr>training := m\<rparr>) data) = Inr res"
  from CEQNetwork_2_forward_parts[OF a] obtain sts zs t onehot_t x where
    p: "data_state data = Some sts"
    "mapE (Sequential_LRLR (nn_Linear state_size fc1 (fst pe), nn_Linear fc1 fc2 (snd pe)))
                 sts = Inr zs"
    "latent_window stp fc2
                 (nn_Linear fc2 (fc2 div 2) (fst pt), nn_Linear (fc2 div 2) nt (snd pt)) zs
               = Inr (t, out_z res)"
    "out_t res = last t"
    "treatment_block tk m nt stp (data_t data) t = Inr onehot_t"
    "torch_cat_last [out_z res, onehot_t] = Inr x"
    by blast
  from CEQNetwork_2_forward_parts[OF a] p(1,2,3,5,6)
  have c: "\<exists>t_bernoulli y_t0 y_t1 a b.
                       t_bernoulli_of tk m (data_t data) t = Inr t_bernoulli
                       \<and> Sequential_LRL
                           (nn_Linear ((fc2 + nt) * stp) ((fc2 + nt) * stp div 2) (fst pf0),
                            nn_Linear ((fc2 + nt) * stp div 2) action_size (snd pf0)) x
                         = Inr y_t0
                       \<and> Sequential_LRL
                           (nn_Linear ((fc2 + nt) * stp) ((fc2 + nt) * stp div 2) (fst pf1),
                            nn_Linear ((fc2 + nt) * stp div 2) action_size (snd pf1)) x
                         = Inr y_t1
                       \<and> torch_mul t_bernoulli y_t1 = Inr a
                       \<and> torch_mul (one_minus t_bernoulli) y_t0 = Inr b
                       \<and> torch_add a b = Inr (out_y res)"
    by auto
  have b: "snd (CEQNetwork_1_forward tk
                  ((CEQNetwork_1_init state_size action_size fc1 fc2 stp nt pe pt pf)
                     \<lparr>training := m\<rparr>) data) = Inr res
           \<longrightarrow> Sequential_LRL
                      (nn_Linear ((fc2 + nt) * stp) ((fc2 + nt) * stp div 2) (fst pf),
                       nn_Linear ((fc2 + nt) * stp div 2) action_size (snd pf)) x
                    = Inr (out_y res)"
  proof
    assume b': "snd (CEQNetwork_1_forward tk
                  ((CEQNetwork_1_init state_size action_size fc1 fc2 stp nt pe pt pf)
                     \<lparr>training := m\<rparr>) data) = Inr res"
    from CEQNetwork_1_forward_parts[OF b'] p(1,2,3,5,6)
    show "Sequential_LRL
                      (nn_Linear ((fc2 + nt) * stp) ((fc2 + nt) * stp div 2) (fst pf),
                       nn_Linear ((fc2 + nt) * stp div 2) action_size (snd pf)) x
                    = Inr (out_y res)"
      by auto
  qed
  from p b c show ?thesis by blast
qed

section \<open>The claims\<close>

subsection \<open>Noninterference and the frame of a forward call\<close>

text \<open>
  A forward call writes to the dictionary it was given. A second call on the dictionary as
  the first call left it gives the result of the first: no network reads the keys
  \<^verbatim>\<open>z\<close> and \<^verbatim>\<open>onehot_prev_action\<close> before it has written them.
\<close>

lemma forward_rerun:
  "SimpleQNetwork_forward tk a (fst (SimpleQNetwork_forward tk a data))
     = SimpleQNetwork_forward tk a data"
  "CEQNetwork_1_forward tk b (fst (CEQNetwork_1_forward tk b data))
     = CEQNetwork_1_forward tk b data"
  "CEQNetwork_2_forward tk c (fst (CEQNetwork_2_forward tk c data))
     = CEQNetwork_2_forward tk c data"
    apply (simp add: SimpleQNetwork_forward_def AbstractDQN_forward_def
        SimpleQNetwork_forward_impl_def split: option.splits sum.splits prod.splits)
   apply (simp add: CEQNetwork_1_forward_def AbstractDQN_forward_def
        CEQNetwork_1_forward_impl_def split: option.splits sum.splits prod.splits)
  apply (simp add: CEQNetwork_2_forward_def AbstractDQN_forward_def
        CEQNetwork_2_forward_impl_def split: option.splits sum.splits prod.splits)
  done

text \<open>
  C9. In evaluation mode the outputs do not depend on the treatment labels of the batch:
  for each of the three networks, replacing \<^verbatim>\<open>data['t']\<close> by anything else (or removing
  it) leaves the returned outputs, or the raised exception, the same.
\<close>

theorem eval_forward_ignores_treatment_sequence:
  "snd (SimpleQNetwork_forward tk (nn_eval a) (data\<lparr>data_t := v\<rparr>))
     = snd (SimpleQNetwork_forward tk (nn_eval a) data)
   \<and> snd (CEQNetwork_1_forward tk (nn_eval b) (data\<lparr>data_t := v\<rparr>))
     = snd (CEQNetwork_1_forward tk (nn_eval b) data)
   \<and> snd (CEQNetwork_2_forward tk (nn_eval c) (data\<lparr>data_t := v\<rparr>))
     = snd (CEQNetwork_2_forward tk (nn_eval c) data)"
proof (intro conjI)
  show "snd (SimpleQNetwork_forward tk (nn_eval a) (data\<lparr>data_t := v\<rparr>))
          = snd (SimpleQNetwork_forward tk (nn_eval a) data)"
    by (simp add: SimpleQNetwork_forward_def AbstractDQN_forward_def
        SimpleQNetwork_forward_impl_def nn_eval_def
        split: option.splits sum.splits prod.splits)
  show "snd (CEQNetwork_1_forward tk (nn_eval b) (data\<lparr>data_t := v\<rparr>))
          = snd (CEQNetwork_1_forward tk (nn_eval b) data)"
    by (simp add: CEQNetwork_1_forward_def AbstractDQN_forward_def
        CEQNetwork_1_forward_impl_def nn_eval_def treatment_block_def
        split: option.splits sum.splits prod.splits)
  show "snd (CEQNetwork_2_forward tk (nn_eval c) (data\<lparr>data_t := v\<rparr>))
          = snd (CEQNetwork_2_forward tk (nn_eval c) data)"
    by (simp add: CEQNetwork_2_forward_def AbstractDQN_forward_def
        CEQNetwork_2_forward_impl_def nn_eval_def treatment_block_def t_bernoulli_of_def
        split: option.splits sum.splits prod.splits)
qed

theorem eval_forward_ignores_treatment_sequence_witness:
  "snd (CEQNetwork_2_forward argmax_first (nn_eval ex_CEQNetwork_2)
          (ex_batch3\<lparr>data_t := None\<rparr>))
     = Inr \<lparr>out_t = [[0, 4], [0, 4]], out_y = [[33, 83], [54, 109]],
            out_z = [[0, 4, 0, 3], [0, 1, 0, 3]]\<rparr>"
proof -
  have "snd (CEQNetwork_2_forward argmax_first (nn_eval ex_CEQNetwork_2) ex_batch3)
          = Inr \<lparr>out_t = [[0, 4], [0, 4]], out_y = [[33, 83], [54, 109]],
                 out_z = [[0, 4, 0, 3], [0, 1, 0, 3]]\<rparr>"
    by code_simp
  with eval_forward_ignores_treatment_sequence
         [where tk = argmax_first and data = ex_batch3 and v = None and c = ex_CEQNetwork_2]
  show ?thesis by simp
qed

text \<open>
  C8, as the claim states it: a forward call leaves the batch it was given unchanged. The
  code stores the latent sequence under \<^verbatim>\<open>data['z']\<close> (line 19) and, in
  \<^verbatim>\<open>SimpleQNetwork\<close>, the one-hot buffer under \<^verbatim>\<open>data['onehot_prev_action']\<close>
  (line 52), so the dictionary after the call differs from the one before.
\<close>

theorem forward_changes_batch_counterexample:
  "fst (SimpleQNetwork_forward argmax_first ex_SimpleQNetwork ex_batch) \<noteq> ex_batch"
proof -
  have "data_z (fst (SimpleQNetwork_forward argmax_first ex_SimpleQNetwork ex_batch))
          = Some [[[0, 2], [0, 3]]]"
    by code_simp
  moreover have "data_z ex_batch = None"
    by (simp add: ex_batch_def)
  ultimately show ?thesis by auto
qed

text \<open>
  C8, amended. A forward call of any of the three networks leaves \<^verbatim>\<open>data['state']\<close>,
  \<^verbatim>\<open>data['prev_action']\<close>, \<^verbatim>\<open>data['t']\<close> and every other entry of the batch unchanged,
  except \<^verbatim>\<open>data['z']\<close> and, for \<^verbatim>\<open>SimpleQNetwork\<close>, \<^verbatim>\<open>data['onehot_prev_action']\<close>.
  The network is an argument that the call does not return: no parameter changes.
\<close>

theorem forward_frame:
  "data_state (fst (SimpleQNetwork_forward tk a data)) = data_state data
   \<and> data_prev_action (fst (SimpleQNetwork_forward tk a data)) = data_prev_action data
   \<and> data_t (fst (SimpleQNetwork_forward tk a data)) = data_t data
   \<and> batch.more (fst (SimpleQNetwork_forward tk a data)) = batch.more data
   \<and> (\<exists>v. fst (CEQNetwork_1_forward tk b data) = data\<lparr>data_z := v\<rparr>)
   \<and> (\<exists>v. fst (CEQNetwork_2_forward tk c data) = data\<lparr>data_z := v\<rparr>)"
proof -
  have A: "data_state (fst (SimpleQNetwork_forward tk a data)) = data_state data
     \<and> data_prev_action (fst (SimpleQNetwork_forward tk a data)) = data_prev_action data
     \<and> data_t (fst (SimpleQNetwork_forward tk a data)) = data_t data
     \<and> batch.more (fst (SimpleQNetwork_forward tk a data)) = batch.more data"
    by (simp add: SimpleQNetwork_forward_def AbstractDQN_forward_def
        SimpleQNetwork_forward_impl_def split: option.splits sum.splits prod.splits)
  have "fst (CEQNetwork_1_forward tk b data)
          = data\<lparr>data_z := data_z (fst (CEQNetwork_1_forward tk b data))\<rparr>"
    by (simp add: CEQNetwork_1_forward_def AbstractDQN_forward_def
        CEQNetwork_1_forward_impl_def split: option.splits sum.splits prod.splits)
  then have B: "\<exists>v. fst (CEQNetwork_1_forward tk b data) = data\<lparr>data_z := v\<rparr>" ..
  have "fst (CEQNetwork_2_forward tk c data)
          = data\<lparr>data_z := data_z (fst (CEQNetwork_2_forward tk c data))\<rparr>"
    by (simp add: CEQNetwork_2_forward_def AbstractDQN_forward_def
        CEQNetwork_2_forward_impl_def split: option.splits sum.splits prod.splits)
  then have C: "\<exists>v. fst (CEQNetwork_2_forward tk c data) = data\<lparr>data_z := v\<rparr>" ..
  from A B C show ?thesis by blast
qed

theorem forward_frame_witness:
  "data_state (fst (SimpleQNetwork_forward argmax_first ex_SimpleQNetwork ex_batch))
     = Some [[[1], [2]]]
   \<and> data_prev_action (fst (SimpleQNetwork_forward argmax_first ex_SimpleQNetwork ex_batch))
     = Some [[0], [1]]
   \<and> data_t (fst (SimpleQNetwork_forward argmax_first ex_SimpleQNetwork ex_batch))
     = Some [[[1], [0]]]"
  using forward_frame [of argmax_first ex_SimpleQNetwork ex_batch]
  by (simp add: ex_batch_def)

subsection \<open>Shape checking\<close>




subsection \<open>The window assembler\<close>

text \<open>
  C3. Whenever the forward call of one of the three networks returns (with a window length
  \<^verbatim>\<open>step\<close> of at least 1), the state sequence of the batch is not empty, the latent
  sequence is the encoder applied to it, element by element, and every latent vector has
  \<^verbatim>\<open>fc2_units\<close> entries. The returned window block has one row per sample: as many rows as
  the latest state tensor, and as each of the last \<^verbatim>\<open>step\<close> state tensors. Every row has
  exactly \<^verbatim>\<open>fc2_units * step\<close> entries. If the sequence has \<open>L < step\<close> elements, the row of
  sample \<open>i\<close> is \<^verbatim>\<open>fc2_units * (step - L)\<close> zeros followed by the \<open>L\<close> latent vectors of the
  sample in their order; otherwise it is the concatenation of the last \<^verbatim>\<open>step\<close> latent
  vectors of the sample, in their order.
\<close>

theorem window_block_law:
  assumes "0 < stp"
    and "snd (SimpleQNetwork_forward tk
                  ((SimpleQNetwork_init state_size action_size fc1 fc2 stp nt pe pt pf)
                     \<lparr>training := m\<rparr>) data) = Inr res
           \<or> snd (CEQNetwork_1_forward tk
                  ((CEQNetwork_1_init state_size action_size fc1 fc2 stp nt pe pt pf')
                     \<lparr>training := m\<rparr>) data) = Inr res
           \<or> snd (CEQNetwork_2_forward tk
                  ((CEQNetwork_2_init state_size action_size fc1 fc2 stp nt pe pt pf0 pf1)
                     \<lparr>training := m\<rparr>) data) = Inr res"
  shows "\<exists>sts zs.
           data_state data = Some sts
           \<and> mapE (Sequential_LRLR (nn_Linear state_size fc1 (fst pe), nn_Linear fc1 fc2 (snd pe)))
                 sts = Inr zs
           \<and> 1 \<le> length zs
           \<and> length zs = length sts
           \<and> (\<forall>z\<in>set zs. \<forall>r\<in>set z. length r = fc2)
           \<and> length (out_z res) = length (last sts)
           \<and> (\<forall>s\<in>set (drop (length sts - stp) sts). length s = length (out_z res))
           \<and> (\<forall>i<length (out_z res).
                  length (out_z res ! i) = fc2 * stp
                  \<and> (length zs < stp \<longrightarrow>
                       out_z res ! i
                         = replicate (fc2 * (stp - length zs)) 0 @ concat (map (\<lambda>z. z ! i) zs))
                  \<and> (stp \<le> length zs \<longrightarrow>
                       out_z res ! i = concat (map (\<lambda>z. z ! i) (drop (length zs - stp) zs))))"
proof -
  let ?enc = "(nn_Linear state_size fc1 (fst pe), nn_Linear fc1 fc2 (snd pe))"
  let ?lt = "(nn_Linear fc2 (fc2 div 2) (fst pt), nn_Linear (fc2 div 2) nt (snd pt))"
  from forward_window[OF assms(2)] obtain sts zs t where
    s: "data_state data = Some sts"
    and e: "mapE (Sequential_LRLR ?enc) sts = Inr zs"
    and w: "latent_window stp fc2 ?lt zs = Inr (t, out_z res)"
    by blast
  have wid: "\<forall>z\<in>set zs. \<forall>r\<in>set z. length r = fc2"
    using encoder_widths[OF e] by simp
  have ne: "1 \<le> length zs"
    using latent_window_lengths(1)[OF w] by (cases zs) simp_all
  have lz: "length zs = length sts" by (rule mapE_Inr_length[OF e])
  note cnt = window_sample_count[OF assms(1) e w]
  have rows: "\<forall>i<length (out_z res).
                  length (out_z res ! i) = fc2 * stp
                  \<and> (length zs < stp \<longrightarrow>
                       out_z res ! i
                         = replicate (fc2 * (stp - length zs)) 0 @ concat (map (\<lambda>z. z ! i) zs))
                  \<and> (stp \<le> length zs \<longrightarrow>
                       out_z res ! i = concat (map (\<lambda>z. z ! i) (drop (length zs - stp) zs)))"
  proof (intro allI impI)
    fix i assume i: "i < length (out_z res)"
    note r = latent_window_rows[OF assms(1) wid w i]
    show "length (out_z res ! i) = fc2 * stp
          \<and> (length zs < stp \<longrightarrow>
               out_z res ! i
                 = replicate (fc2 * (stp - length zs)) 0 @ concat (map (\<lambda>z. z ! i) zs))
          \<and> (stp \<le> length zs \<longrightarrow>
               out_z res ! i = concat (map (\<lambda>z. z ! i) (drop (length zs - stp) zs)))"
      using r by auto
  qed
  from s e ne lz wid cnt(2)[symmetric] cnt(1) rows show ?thesis by blast
qed


theorem window_block_law_witness:
  "(0::nat) < 2
   \<and> snd (SimpleQNetwork_forward argmax_first
            ((SimpleQNetwork_init 1 2 1 2 2 2 ex_params ex_params ex_params')\<lparr>training := True\<rparr>)
            ex_batch)
       = Inr \<lparr>out_t = [[0, 3], [0, 4]], out_y = [[1, 0], [7, 23]],
              out_z = [[0, 0, 0, 2], [0, 0, 0, 3]]\<rparr>
   \<and> snd (CEQNetwork_1_forward argmax_first
            ((CEQNetwork_1_init 1 2 1 2 2 2 ex_params ex_params ex_params')\<lparr>training := True\<rparr>)
            ex_batch3)
       = Inr \<lparr>out_t = [[0, 4], [0, 4]], out_y = [[27, 71], [48, 99]],
              out_z = [[0, 4, 0, 3], [0, 1, 0, 3]]\<rparr>
   \<and> snd (CEQNetwork_2_forward argmax_first
            ((CEQNetwork_2_init 1 2 1 2 2 2 ex_params ex_params ex_params ex_params')
               \<lparr>training := False\<rparr>)
            ex_batch3)
       = Inr \<lparr>out_t = [[0, 4], [0, 4]], out_y = [[33, 83], [54, 109]],
              out_z = [[0, 4, 0, 3], [0, 1, 0, 3]]\<rparr>
   \<and> data_state ex_batch = Some [[[1], [2]]]
   \<and> data_state ex_batch3 = Some [[[1], [2]], [[3], [0]], [[2], [2]]]
   \<and> mapE (Sequential_LRLR (nn_Linear 1 1 (fst ex_params), nn_Linear 1 2 (snd ex_params)))
         [[[1], [2]]] = Inr [[[0, 2], [0, 3]]]
   \<and> mapE (Sequential_LRLR (nn_Linear 1 1 (fst ex_params), nn_Linear 1 2 (snd ex_params)))
         [[[1], [2]], [[3], [0]], [[2], [2]]]
       = Inr [[[0, 2], [0, 3]], [[0, 4], [0, 1]], [[0, 3], [0, 3]]]
   \<and> length [[0, 0, 0, 2], [0, 0, 0, 3 :: fp]] = length (last [[[1], [2 :: fp]]])
   \<and> [0, 0, 0, 2] = replicate (2 * (2 - 1)) 0 @ concat (map (\<lambda>z. z ! 0) [[[0, 2], [0, 3 :: fp]]])
   \<and> [0, 0, 0, 3] = replicate (2 * (2 - 1)) 0 @ concat (map (\<lambda>z. z ! 1) [[[0, 2], [0, 3 :: fp]]])
   \<and> length [[0, 4, 0, 3], [0, 1, 0, 3 :: fp]] = length (last [[[1], [2]], [[3], [0]], [[2], [2 :: fp]]])
   \<and> [0, 4, 0, 3]
       = concat (map (\<lambda>z. z ! 0)
                  (drop (3 - 2) [[[0, 2], [0, 3]], [[0, 4], [0, 1]], [[0, 3], [0, 3 :: fp]]]))
   \<and> [0, 1, 0, 3]
       = concat (map (\<lambda>z. z ! 1)
                  (drop (3 - 2) [[[0, 2], [0, 3]], [[0, 4], [0, 1]], [[0, 3], [0, 3 :: fp]]]))"
proof -
  let ?enc = "(nn_Linear 1 1 (fst ex_params), nn_Linear 1 2 (snd ex_params))"
  let ?rA = "\<lparr>out_t = [[0, 3], [0, 4]], out_y = [[1, 0], [7, 23]],
              out_z = [[0, 0, 0, 2], [0, 0, 0, 3]]\<rparr>"
  let ?rB = "\<lparr>out_t = [[0, 4], [0, 4]], out_y = [[27, 71], [48, 99]],
              out_z = [[0, 4, 0, 3], [0, 1, 0, 3]]\<rparr>"
  let ?rC = "\<lparr>out_t = [[0, 4], [0, 4]], out_y = [[33, 83], [54, 109]],
              out_z = [[0, 4, 0, 3], [0, 1, 0, 3]]\<rparr>"
  let ?s1 = "[[[1], [2 :: fp]]]"
  let ?s3 = "[[[1], [2]], [[3], [0]], [[2], [2 :: fp]]]"
  let ?z1 = "[[[0, 2], [0, 3 :: fp]]]"
  let ?z3 = "[[[0, 2], [0, 3]], [[0, 4], [0, 1]], [[0, 3], [0, 3 :: fp]]]"
  have h0: "(0::nat) < 2" by simp
  have hA: "snd (SimpleQNetwork_forward argmax_first
            ((SimpleQNetwork_init 1 2 1 2 2 2 ex_params ex_params ex_params')\<lparr>training := True\<rparr>)
            ex_batch) = Inr ?rA"
    by code_simp
  have hB: "snd (CEQNetwork_1_forward argmax_first
            ((CEQNetwork_1_init 1 2 1 2 2 2 ex_params ex_params ex_params')\<lparr>training := True\<rparr>)
            ex_batch3) = Inr ?rB"
    by code_simp
  have hC: "snd (CEQNetwork_2_forward argmax_first
            ((CEQNetwork_2_init 1 2 1 2 2 2 ex_params ex_params ex_params ex_params')
               \<lparr>training := False\<rparr>)
            ex_batch3) = Inr ?rC"
    by code_simp
  have s1: "data_state ex_batch = Some ?s1" by (simp add: ex_batch_def)
  have s3: "data_state ex_batch3 = Some ?s3" by (simp add: ex_batch3_def)
  have e1: "mapE (Sequential_LRLR ?enc) ?s1 = Inr ?z1" by code_simp
  have e3: "mapE (Sequential_LRLR ?enc) ?s3 = Inr ?z3" by code_simp
  from window_block_law[OF h0 disjI1, OF hA] s1 e1
  have A: "length (out_z ?rA) = length (last ?s1)"
    "\<forall>i<length (out_z ?rA).
        (length ?z1 < 2 \<longrightarrow>
           out_z ?rA ! i = replicate (2 * (2 - length ?z1)) 0 @ concat (map (\<lambda>z. z ! i) ?z1))"
    by auto
  from window_block_law[OF h0 disjI2, OF disjI1, OF hB] s3 e3
  have B: "length (out_z ?rB) = length (last ?s3)"
    "\<forall>i<length (out_z ?rB).
        (2 \<le> length ?z3 \<longrightarrow>
           out_z ?rB ! i = concat (map (\<lambda>z. z ! i) (drop (length ?z3 - 2) ?z3)))"
    by auto
  from window_block_law[OF h0 disjI2, OF disjI2, OF hC] s3 e3
  have C: "length (out_z ?rC) = length (last ?s3)"
    "\<forall>i<length (out_z ?rC).
        (2 \<le> length ?z3 \<longrightarrow>
           out_z ?rC ! i = concat (map (\<lambda>z. z ! i) (drop (length ?z3 - 2) ?z3)))"
    by auto
  from A(1) have a0: "length [[0, 0, 0, 2], [0, 0, 0, 3 :: fp]] = length (last ?s1)"
    by (simp only: out.simps)
  from A(2)[rule_format, of 0]
  have a1: "[0, 0, 0, 2] = replicate (2 * (2 - 1)) 0 @ concat (map (\<lambda>z. z ! 0) ?z1)"
    by (simp add: numeral_2_eq_2)
  from A(2)[rule_format, of 1]
  have a2: "[0, 0, 0, 3] = replicate (2 * (2 - 1)) 0 @ concat (map (\<lambda>z. z ! 1) ?z1)"
    by (simp add: numeral_2_eq_2)
  from C(1) B(1) have c0: "length [[0, 4, 0, 3], [0, 1, 0, 3 :: fp]] = length (last ?s3)"
    by (simp only: out.simps)
  from C(2)[rule_format, of 0]
  have c1: "[0, 4, 0, 3] = concat (map (\<lambda>z. z ! 0) (drop (3 - 2) ?z3))" by simp
  from B(2)[rule_format, of 1]
  have c2: "[0, 1, 0, 3] = concat (map (\<lambda>z. z ! 1) (drop (3 - 2) ?z3))" by simp
  show ?thesis
    by (intro conjI) (rule h0 hA hB hC s1 s3 e1 e3 a0 a1 a2 c0 c1 c2)+
qed

subsection \<open>The override of \<^verbatim>\<open>SimpleQNetwork\<close>\<close>




text \<open>
  C10. The one-hot buffer has the shape of the output of \<^verbatim>\<open>fc\<close>, so its rows have
  \<^verbatim>\<open>action_size\<close> entries. On a well-formed batch (a state sequence that is not empty,
  \<open>n\<close> samples with state vectors of dimension \<^verbatim>\<open>state_size\<close>, one \<^verbatim>\<open>prev_action\<close>
  index per sample; in training mode one latest label per sample, in evaluation mode at
  least one treatment class) and with a window length of at least 1: if every index lies in
  \<open>[0, action_size)\<close> the forward call of \<^verbatim>\<open>SimpleQNetwork\<close> returns, and each row of the
  buffer it stores under \<^verbatim>\<open>data['onehot_prev_action']\<close> has a 1 at the index of the sample
  and 0 everywhere else; if some index lies outside, the call raises and returns no output.
\<close>

theorem prev_action_precondition:
  assumes stp: "0 < stp"
    and st: "data_state data = Some sts" "sts \<noteq> []"
      "\<forall>s\<in>set sts. length s = n \<and> (\<forall>x\<in>set s. length x = state_size)"
    and pa: "data_prev_action data = Some prev" "length prev = n" "\<forall>q\<in>set prev. length q = 1"
    and md: "if m then \<exists>ts. data_t data = Some ts \<and> ts \<noteq> [] \<and> length (last ts) = n
                        \<and> (\<forall>q\<in>set (last ts). length q = 1)
             else 0 < nt"
  shows "((\<forall>q\<in>set prev. 0 \<le> hd q \<and> hd q < int action_size) \<longrightarrow>
            (\<exists>res oh.
               snd (SimpleQNetwork_forward tk
                      ((SimpleQNetwork_init state_size action_size fc1 fc2 stp nt pe pt pf)
                         \<lparr>training := m\<rparr>) data) = Inr res
               \<and> data_onehot_prev_action (fst (SimpleQNetwork_forward tk
                      ((SimpleQNetwork_init state_size action_size fc1 fc2 stp nt pe pt pf)
                         \<lparr>training := m\<rparr>) data)) = Some oh
               \<and> length oh = n
               \<and> (\<forall>i<n. oh ! i = (replicate action_size 0)[nat (hd (prev ! i)) := 1]
                        \<and> (\<forall>j<action_size.
                              oh ! i ! j = (if int j = hd (prev ! i) then 1 else 0)))))
         \<and> ((\<exists>q\<in>set prev. hd q < 0 \<or> int action_size \<le> hd q) \<longrightarrow>
            (\<exists>e. snd (SimpleQNetwork_forward tk
                      ((SimpleQNetwork_init state_size action_size fc1 fc2 stp nt pe pt pf)
                         \<lparr>training := m\<rparr>) data) = Inl e))"
proof (intro conjI impI)
  let ?net = "(SimpleQNetwork_init state_size action_size fc1 fc2 stp nt pe pt pf)\<lparr>training := m\<rparr>"
  let ?enc = "(nn_Linear state_size fc1 (fst pe), nn_Linear fc1 fc2 (snd pe))"
  let ?fc = "(nn_Linear (fc2 * stp) (fc2 * stp div 2) (fst pf),
              nn_Linear (fc2 * stp div 2) action_size (snd pf))"
  let ?lt = "(nn_Linear fc2 (fc2 div 2) (fst pt), nn_Linear (fc2 div 2) nt (snd pt))"
  {
    assume bad: "\<exists>q\<in>set prev. hd q < 0 \<or> int action_size \<le> hd q"
    show "\<exists>e. snd (SimpleQNetwork_forward tk ?net data) = Inl e"
    proof (cases "snd (SimpleQNetwork_forward tk ?net data)")
      case (Inl e)
      then show ?thesis by blast
    next
      case (Inr res)
      from SimpleQNetwork_forward_Inr[OF Inr] obtain zs where
        e: "SimpleQNetwork_forward tk ?net data
              = SimpleQNetwork_forward_impl tk ?net (data\<lparr>data_z := Some zs\<rparr>)"
        by blast
      let ?d = "data\<lparr>data_z := Some zs\<rparr>"
      from SimpleQNetwork_forward_impl_Inr[OF Inr[unfolded e]]
      obtain y prev' onehot where
        D3: "Sequential_LRL (SimpleQNetwork.fc ?net) (out_z res) = Inr y"
        and D4: "data_prev_action ?d = Some prev'"
        and D5: "scatter_last (zeros_like y) prev' = Inr onehot"
        by blast
      from D3 have y: "Sequential_LRL ?fc (out_z res) = Inr y" by simp
      from D4 D5 pa(1) have oh: "scatter_last (zeros_like y) prev = Inr onehot" by simp
      from bad obtain q where q: "q \<in> set prev" "hd q < 0 \<or> int action_size \<le> hd q" by blast
      then obtain i where i: "i < length prev" "q = prev ! i" by (auto simp: in_set_conv_nth)
      from q(1) pa(3) have "length q = 1" by simp
      then have hq: "hd q \<in> set q" by (cases q) auto
      from scatter_last_Inr[OF oh] i hq
      have iy: "i < length y" and "0 \<le> hd q \<and> hd q < int (length (zeros_like y ! i))"
        by auto
      moreover have "length (y ! i) = action_size"
        using Sequential_LRL_shape(2)[OF y] iy by simp
      ultimately have "0 \<le> hd q \<and> hd q < int action_size"
        by (simp add: zeros_like_nth)
      with q(2) show ?thesis by simp
    qed
  }
  {
    assume good: "\<forall>q\<in>set prev. 0 \<le> hd q \<and> hd q < int action_size"
    from encoder_ok[OF st(3)] obtain zs where
      zs: "mapE (Sequential_LRLR ?enc) sts = Inr zs"
      and lzs: "length zs = length sts"
      and szs: "\<forall>z\<in>set zs. length z = n \<and> (\<forall>r\<in>set z. length r = fc2)"
      by blast
    let ?d = "data\<lparr>data_z := Some zs\<rparr>"
    have fw: "SimpleQNetwork_forward tk ?net data = SimpleQNetwork_forward_impl tk ?net ?d"
      using st(1) zs by (simp add: SimpleQNetwork_forward_def AbstractDQN_forward_def)
    have zne: "zs \<noteq> []" using lzs st(2) by auto
    from latent_window_ok[OF zne szs] obtain t zp where
      w: "latent_window stp fc2 ?lt zs = Inr (t, zp)" by blast
    note wl = latent_window_lengths[OF w]
    have lzp: "length zp = n"
    proof -
      have "last (py_slice_last stp zs) \<in> set (py_slice_last stp zs)" using zne by simp
      moreover have "last (py_slice_last stp zs) \<in> set zs"
        using zne by (simp add: last_py_slice_last)
      ultimately show ?thesis using wl(4) szs by metis
    qed
    have wzp: "\<forall>r\<in>set zp. length r = fc2 * stp"
      using latent_window_rows(2)[OF stp _ w] szs by (auto simp: in_set_conv_nth)
    from Sequential_LRL_ok[OF wzp] obtain y where y: "Sequential_LRL ?fc zp = Inr y" by blast
    have ly: "length y = n" using Sequential_LRL_shape(1)[OF y] lzp by simp
    have wy: "\<And>i. i < n \<Longrightarrow> length (y ! i) = action_size"
      using Sequential_LRL_shape(2)[OF y] ly by simp
    have "\<exists>oh. scatter_last (zeros_like y) prev = Inr oh"
    proof (rule scatter_last_ok)
      show "length prev \<le> length (zeros_like y)" using pa(2) ly by simp
      show "\<forall>i<length prev. \<forall>k\<in>set (prev ! i). 0 \<le> k \<and> k < int (length (zeros_like y ! i))"
      proof (intro allI impI ballI)
        fix i k assume i: "i < length prev" and k: "k \<in> set (prev ! i)"
        from i pa(3) have "length (prev ! i) = 1" by simp
        with k have "k = hd (prev ! i)" by (cases "prev ! i") auto
        with good i have "0 \<le> k \<and> k < int action_size" by simp
        with i pa(2) ly wy show "0 \<le> k \<and> k < int (length (zeros_like y ! i))"
          by (simp add: zeros_like_nth)
      qed
    qed
    then obtain oh where oh: "scatter_last (zeros_like y) prev = Inr oh" ..
    have lp: "length prev = length (zeros_like y)" using pa(2) ly by simp
    note sc = scatter_last_col[OF oh lp pa(3)]
    have loh: "length oh = n" using sc(1) ly by simp
    have row: "\<And>i. i < n \<Longrightarrow> oh ! i = (replicate action_size 0)[nat (hd (prev ! i)) := 1]"
      using sc(2) ly wy by (simp add: zeros_like_nth)
    have wid: "\<forall>i<length oh. length (oh ! i) = length (y ! i)"
      using row wy loh by simp
    have tne: "t \<noteq> []" by (rule wl(2))
    have "\<exists>y'. (if m then
                (case data_t ?d of
                   None \<Rightarrow> Inl (KeyError ''t'')
                 | Some ts \<Rightarrow> bindE (py_last ts) (\<lambda>tl. torch_where (eq_one tl) oh y))
              else
                bindE (py_last t) (\<lambda>tl.
                bindE (topk1 tk tl) (\<lambda>ix. torch_where (eq_one ix) oh y))) = Inr y'"
    proof (cases m)
      case True
      with md obtain ts where ts: "data_t data = Some ts" "ts \<noteq> []" "length (last ts) = n"
        "\<forall>q\<in>set (last ts). length q = 1"
        by auto
      have "length (eq_one (last ts)) = length oh" "length oh = length y"
        "\<forall>q\<in>set (eq_one (last ts)). length q = 1"
        using ts loh ly by (auto simp: eq_one_def)
      from torch_where_col[OF this wid] True ts show ?thesis
        by (simp add: py_last_def)
    next
      case False
      with md have nt: "0 < nt" by simp
      have lt: "last t \<in> set t" using tne by simp
      with wl(5,6) have l: "length (last t) = n" and "\<forall>r\<in>set (last t). length r = nt"
        using lzp by auto
      with nt have "\<forall>r\<in>set (last t). r \<noteq> []" by auto
      from topk1_ok[OF this] obtain ix where ix: "topk1 tk (last t) = Inr ix" ..
      note k = topk1_Inr[OF ix]
      have "length (eq_one ix) = length oh" "length oh = length y"
        "\<forall>q\<in>set (eq_one ix). length q = 1"
        using k l loh ly by (auto simp: eq_one_def)
      from torch_where_col[OF this wid] False ix tne show ?thesis
        by (simp add: py_last_def)
    qed
    then obtain y' where y': "(if m then
                (case data_t ?d of
                   None \<Rightarrow> Inl (KeyError ''t'')
                 | Some ts \<Rightarrow> bindE (py_last ts) (\<lambda>tl. torch_where (eq_one tl) oh y))
              else
                bindE (py_last t) (\<lambda>tl.
                bindE (topk1 tk tl) (\<lambda>ix. torch_where (eq_one ix) oh y))) = Inr y'" ..
    have impl: "SimpleQNetwork_forward_impl tk ?net ?d
                  = (?d\<lparr>data_onehot_prev_action := Some oh\<rparr>,
                     Inr \<lparr>out_t = last t, out_y = y', out_z = zp\<rparr>)"
      using w y oh pa(1) y' tne
      by (simp add: SimpleQNetwork_forward_impl_def py_last_def)
    have ent: "\<And>i. i < n \<Longrightarrow> \<forall>j<action_size.
                              oh ! i ! j = (if int j = hd (prev ! i) then 1 else 0)"
    proof (intro allI impI)
      fix i j assume i: "i < n" and j: "j < action_size"
      from i pa(2) have "prev ! i \<in> set prev" by simp
      with good have "0 \<le> hd (prev ! i)" by simp
      then have "(nat (hd (prev ! i)) = j) = (int j = hd (prev ! i))" by auto
      with row[OF i] j show "oh ! i ! j = (if int j = hd (prev ! i) then 1 else 0)"
        by (simp add: nth_list_update)
    qed
    show "\<exists>res oh.
               snd (SimpleQNetwork_forward tk ?net data) = Inr res
               \<and> data_onehot_prev_action (fst (SimpleQNetwork_forward tk ?net data)) = Some oh
               \<and> length oh = n
               \<and> (\<forall>i<n. oh ! i = (replicate action_size 0)[nat (hd (prev ! i)) := 1]
                        \<and> (\<forall>j<action_size.
                              oh ! i ! j = (if int j = hd (prev ! i) then 1 else 0)))"
      unfolding fw impl using loh row ent by simp
  }
qed


theorem prev_action_precondition_witness:
  "(0::nat) < 2
   \<and> data_state ex_batch = Some [[[1], [2]]]
   \<and> data_prev_action ex_batch = Some [[0], [1]]
   \<and> 0 \<le> hd [0::int] \<and> hd [0::int] < int 2 \<and> 0 \<le> hd [1::int] \<and> hd [1::int] < int 2
   \<and> (\<exists>res oh.
         snd (SimpleQNetwork_forward argmax_first
                ((SimpleQNetwork_init 1 2 1 2 2 2 ex_params ex_params ex_params')
                   \<lparr>training := True\<rparr>) ex_batch) = Inr res
         \<and> data_onehot_prev_action (fst (SimpleQNetwork_forward argmax_first
                ((SimpleQNetwork_init 1 2 1 2 2 2 ex_params ex_params ex_params')
                   \<lparr>training := True\<rparr>) ex_batch)) = Some oh
         \<and> oh ! 0 = [1, 0] \<and> oh ! 1 = [0, 1])
   \<and> data_prev_action ex_batch_bad_action = Some [[0], [2]]
   \<and> (\<exists>q\<in>set [[0], [2::int]]. hd q < 0 \<or> int 2 \<le> hd q)
   \<and> (\<exists>e. snd (SimpleQNetwork_forward argmax_first
                ((SimpleQNetwork_init 1 2 1 2 2 2 ex_params ex_params ex_params')
                   \<lparr>training := True\<rparr>) ex_batch_bad_action) = Inl e)"
proof -
  have stp: "(0::nat) < 2" by simp
  have s1: "data_state ex_batch = Some [[[1], [2]]]" by (simp add: ex_batch_def)
  have s1': "data_state ex_batch_bad_action = Some [[[1], [2]]]"
    by (simp add: ex_batch_bad_action_def)
  have s2: "[[[1], [2::fp]]] \<noteq> []" by simp
  have s3: "\<forall>s\<in>set [[[1], [2::fp]]]. length s = 2 \<and> (\<forall>x\<in>set s. length x = 1)" by simp
  have p1: "data_prev_action ex_batch = Some [[0], [1]]" by (simp add: ex_batch_def)
  have p1': "data_prev_action ex_batch_bad_action = Some [[0], [2]]"
    by (simp add: ex_batch_bad_action_def)
  have p2: "length [[0], [1::int]] = 2" by simp
  have p2': "length [[0], [2::int]] = 2" by simp
  have p3: "\<forall>q\<in>set [[0], [1::int]]. length q = 1" by simp
  have p3': "\<forall>q\<in>set [[0], [2::int]]. length q = 1" by simp
  have md: "if True then \<exists>ts. data_t ex_batch = Some ts \<and> ts \<noteq> [] \<and> length (last ts) = 2
                        \<and> (\<forall>q\<in>set (last ts). length q = 1)
             else (0::nat) < 2"
    by (simp add: ex_batch_def)
  have md': "if True then \<exists>ts. data_t ex_batch_bad_action = Some ts \<and> ts \<noteq> []
                        \<and> length (last ts) = 2 \<and> (\<forall>q\<in>set (last ts). length q = 1)
             else (0::nat) < 2"
    by (simp add: ex_batch_bad_action_def)
  have good: "\<forall>q\<in>set [[0], [1::int]]. 0 \<le> hd q \<and> hd q < int 2" by simp
  have bad: "\<exists>q\<in>set [[0], [2::int]]. hd q < 0 \<or> int 2 \<le> hd q" by simp
  from prev_action_precondition[OF stp s1 s2 s3 p1 p2 p3 md, where action_size = 2
      and tk = argmax_first and ?fc1.0 = 1 and ?fc2.0 = 2 and pe = ex_params and pt = ex_params
      and pf = ex_params'] good
  obtain res oh where
    r: "snd (SimpleQNetwork_forward argmax_first
                ((SimpleQNetwork_init 1 2 1 2 2 2 ex_params ex_params ex_params')
                   \<lparr>training := True\<rparr>) ex_batch) = Inr res"
    and o: "data_onehot_prev_action (fst (SimpleQNetwork_forward argmax_first
                ((SimpleQNetwork_init 1 2 1 2 2 2 ex_params ex_params ex_params')
                   \<lparr>training := True\<rparr>) ex_batch)) = Some oh"
    and rows: "\<forall>i<2. oh ! i = (replicate 2 0)[nat (hd ([[0], [1]] ! i)) := 1]"
    by blast
  from rows[rule_format, of 0] have o0: "oh ! 0 = [1, 0]" by (simp add: numeral_2_eq_2)
  from rows[rule_format, of 1] have o1: "oh ! 1 = [0, 1]" by (simp add: numeral_2_eq_2)
  from prev_action_precondition[OF stp s1' s2 s3 p1' p2' p3' md', where action_size = 2
      and tk = argmax_first and ?fc1.0 = 1 and ?fc2.0 = 2 and pe = ex_params and pt = ex_params
      and pf = ex_params'] bad
  obtain e where
    f: "snd (SimpleQNetwork_forward argmax_first
                ((SimpleQNetwork_init 1 2 1 2 2 2 ex_params ex_params ex_params')
                   \<lparr>training := True\<rparr>) ex_batch_bad_action) = Inl e"
    by blast
  have g: "0 \<le> hd [0::int]" "hd [0::int] < int 2" "0 \<le> hd [1::int]" "hd [1::int] < int 2"
    by simp_all
  show ?thesis
    by (intro conjI exI[of _ res] exI[of _ oh] exI[of _ e])
       (rule stp s1 p1 g r o o0 o1 p1' bad f)+
qed

subsection \<open>The combination of \<^verbatim>\<open>CEQNetwork_2\<close>\<close>

text \<open>
  C2, as the claim states it: for every batch, for \<open>t = 0\<close> the action values are the output
  of \<^verbatim>\<open>fc_t0\<close> and for \<open>t = 1\<close> the output of \<^verbatim>\<open>fc_t1\<close>, entry for entry. Line 161
  computes \<^verbatim>\<open>t_bernoulli * y_t1 + (1 - t_bernoulli) * y_t0\<close> in floating point: the head
  that is not selected is multiplied by 0 and added, and the product of 0 and an infinite
  entry is NaN. In the network below the bias of the output layer of \<^verbatim>\<open>fc_t0\<close> is
  \<open>+inf\<close>, so every entry of the output of \<^verbatim>\<open>fc_t0\<close> is \<open>+inf\<close>. The first sample of the
  batch has the latest label 1 and \<^verbatim>\<open>fc_t1\<close> gives \<open>[42, 79]\<close> for it, on the tensor that
  both heads are applied to; its action values are \<open>[NaN, NaN]\<close>.
\<close>

theorem blend_with_infinite_head_counterexample:
  "data_t ex_batch = Some [[[1], [0]]]
   \<and> snd (CEQNetwork_2_forward argmax_first (ex_CEQNetwork_2_inf\<lparr>training := True\<rparr>) ex_batch)
       = Inr \<lparr>out_t = [[0, 3], [0, 4]], out_y = [[NaN, NaN], [PInf, PInf]],
              out_z = [[0, 0, 0, 2], [0, 0, 0, 3]]\<rparr>
   \<and> treatment_block argmax_first True 2 2 (data_t ex_batch) [[[0, 3], [0, 4]]]
       = Inr [[0, 0, 0, 1], [0, 0, 1, 0]]
   \<and> torch_cat_last [[[0, 0, 0, 2], [0, 0, 0, 3]], [[0, 0, 0, 1], [0, 0, 1, 0 :: fp]]]
       = Inr [[0, 0, 0, 2, 0, 0, 0, 1], [0, 0, 0, 3, 0, 0, 1, 0]]
   \<and> Sequential_LRL (CEQNetwork_2.fc_t0 ex_CEQNetwork_2_inf)
         [[0, 0, 0, 2, 0, 0, 0, 1], [0, 0, 0, 3, 0, 0, 1, 0]]
       = Inr [[PInf, PInf], [PInf, PInf]]
   \<and> Sequential_LRL (CEQNetwork_2.fc_t1 ex_CEQNetwork_2_inf)
         [[0, 0, 0, 2, 0, 0, 0, 1], [0, 0, 0, 3, 0, 0, 1, 0]]
       = Inr [[42, 79], [40, 79]]
   \<and> [NaN, NaN] \<noteq> [42, 79 :: fp]"
proof (intro conjI)
  show "data_t ex_batch = Some [[[1], [0]]]" by (simp add: ex_batch_def)
  show "snd (CEQNetwork_2_forward argmax_first (ex_CEQNetwork_2_inf\<lparr>training := True\<rparr>) ex_batch)
       = Inr \<lparr>out_t = [[0, 3], [0, 4]], out_y = [[NaN, NaN], [PInf, PInf]],
              out_z = [[0, 0, 0, 2], [0, 0, 0, 3]]\<rparr>"
    by code_simp
  show "treatment_block argmax_first True 2 2 (data_t ex_batch) [[[0, 3], [0, 4]]]
       = Inr [[0, 0, 0, 1], [0, 0, 1, 0]]"
    by code_simp
  show "torch_cat_last [[[0, 0, 0, 2], [0, 0, 0, 3]], [[0, 0, 0, 1], [0, 0, 1, 0 :: fp]]]
       = Inr [[0, 0, 0, 2, 0, 0, 0, 1], [0, 0, 0, 3, 0, 0, 1, 0]]"
    by code_simp
  show "Sequential_LRL (CEQNetwork_2.fc_t0 ex_CEQNetwork_2_inf)
         [[0, 0, 0, 2, 0, 0, 0, 1], [0, 0, 0, 3, 0, 0, 1, 0]]
       = Inr [[PInf, PInf], [PInf, PInf]]"
    by code_simp
  show "Sequential_LRL (CEQNetwork_2.fc_t1 ex_CEQNetwork_2_inf)
         [[0, 0, 0, 2, 0, 0, 0, 1], [0, 0, 0, 3, 0, 0, 1, 0]]
       = Inr [[42, 79], [40, 79]]"
    by code_simp
  show "[NaN, NaN] \<noteq> [42, 79 :: fp]" by (simp add: numeral_fp)
qed

text \<open>
  C2, amended. Let the forward call of \<^verbatim>\<open>CEQNetwork_2\<close> return, on a batch whose latest
  treatment tensor, in training mode, holds one label per sample. The latent sequence is the
  encoder applied to the state sequence of the batch, and the two heads \<^verbatim>\<open>fc_t0\<close> and
  \<^verbatim>\<open>fc_t1\<close> are applied to the same tensor, the concatenation of the returned window block
  and the treatment block. For every sample, with \<open>\<tau>\<close> the latest label (training) or the
  top index of the returned treatment logits (evaluation) as a float, every action value is
  \<open>\<tau> * head1 + (1 - \<tau>) * head0\<close> in the arithmetic of the floats. For \<open>\<tau> = 0\<close> an action
  value is the entry of the output of \<^verbatim>\<open>fc_t0\<close> wherever the entry of \<^verbatim>\<open>fc_t1\<close> at the same
  place is finite, and for \<open>\<tau> = 1\<close> it is the entry of \<^verbatim>\<open>fc_t1\<close> wherever the entry of
  \<^verbatim>\<open>fc_t0\<close> is finite. The two selections use only \<open>0 * u = 0\<close>, \<open>1 * u = u\<close>,
  \<open>1 - 0 = 1\<close>, \<open>1 - 1 = 0\<close> and \<open>0 + u = u\<close> on finite \<open>u\<close>, which no rounding affects.
\<close>

theorem combination_law:
  assumes ret: "snd (CEQNetwork_2_forward tk
                  ((CEQNetwork_2_init state_size action_size fc1 fc2 stp nt pe pt pf0 pf1)
                     \<lparr>training := m\<rparr>) data) = Inr res"
    and lab: "m \<longrightarrow> data_t data = Some ts \<and> length (last ts) = length (out_z res)
                  \<and> (\<forall>q\<in>set (last ts). length q = 1)"
  shows "\<exists>sts zs t onehot_t x head0 head1.
           data_state data = Some sts
           \<and> mapE (Sequential_LRLR (nn_Linear state_size fc1 (fst pe), nn_Linear fc1 fc2 (snd pe)))
                 sts = Inr zs
           \<and> latent_window stp fc2
               (nn_Linear fc2 (fc2 div 2) (fst pt), nn_Linear (fc2 div 2) nt (snd pt)) zs
             = Inr (t, out_z res)
           \<and> out_t res = last t
           \<and> treatment_block tk m nt stp (data_t data) t = Inr onehot_t
           \<and> torch_cat_last [out_z res, onehot_t] = Inr x
           \<and> Sequential_LRL (nn_Linear ((fc2 + nt) * stp) ((fc2 + nt) * stp div 2) (fst pf0),
                              nn_Linear ((fc2 + nt) * stp div 2) action_size (snd pf0)) x
               = Inr head0
           \<and> Sequential_LRL (nn_Linear ((fc2 + nt) * stp) ((fc2 + nt) * stp div 2) (fst pf1),
                              nn_Linear ((fc2 + nt) * stp div 2) action_size (snd pf1)) x
               = Inr head1
           \<and> length (out_y res) = length (out_z res)
           \<and> length head0 = length (out_z res) \<and> length head1 = length (out_z res)
           \<and> (\<forall>i<length (out_z res).
                 length (head0 ! i) = action_size \<and> length (head1 ! i) = action_size
                 \<and> length (out_y res ! i) = action_size
                 \<and> (let \<tau> = (if m then fp_of_int (hd (last ts ! i))
                              else fp_of_int (int (tk (out_t res ! i))))
                    in out_y res ! i
                         = map (\<lambda>(u, v). \<tau> * u + (1 - \<tau>) * v) (zip (head1 ! i) (head0 ! i))
                       \<and> (\<forall>j<action_size.
                             (\<tau> = 0 \<and> is_finite (head1 ! i ! j)
                                \<longrightarrow> out_y res ! i ! j = head0 ! i ! j)
                           \<and> (\<tau> = 1 \<and> is_finite (head0 ! i ! j)
                                \<longrightarrow> out_y res ! i ! j = head1 ! i ! j))))"
proof -
  let ?lt = "(nn_Linear fc2 (fc2 div 2) (fst pt), nn_Linear (fc2 div 2) nt (snd pt))"
  let ?f0 = "(nn_Linear ((fc2 + nt) * stp) ((fc2 + nt) * stp div 2) (fst pf0),
              nn_Linear ((fc2 + nt) * stp div 2) action_size (snd pf0))"
  let ?f1 = "(nn_Linear ((fc2 + nt) * stp) ((fc2 + nt) * stp div 2) (fst pf1),
              nn_Linear ((fc2 + nt) * stp div 2) action_size (snd pf1))"
  let ?N = "length (out_z res)"
  from CEQNetwork_2_forward_parts[OF ret]
  obtain sts zs t onehot_t tb x h0 h1 a b where
    s: "data_state data = Some sts"
    and e: "mapE (Sequential_LRLR (nn_Linear state_size fc1 (fst pe), nn_Linear fc1 fc2 (snd pe)))
                 sts = Inr zs"
    and w: "latent_window stp fc2 ?lt zs = Inr (t, out_z res)"
    and t: "t \<noteq> []" "out_t res = last t"
    and blk: "treatment_block tk m nt stp (data_t data) t = Inr onehot_t"
    and tbo: "t_bernoulli_of tk m (data_t data) t = Inr tb"
    and cat: "torch_cat_last [out_z res, onehot_t] = Inr x"
    and h0: "Sequential_LRL ?f0 x = Inr h0"
    and h1: "Sequential_LRL ?f1 x = Inr h1"
    and ma: "torch_mul tb h1 = Inr a"
    and mb: "torch_mul (one_minus tb) h0 = Inr b"
    and ad: "torch_add a b = Inr (out_y res)"
    by blast
  have lx: "length x = ?N" using torch_cat_last_Inr(2)[OF cat] by simp
  have l0: "length h0 = ?N" using Sequential_LRL_shape(1)[OF h0] lx by simp
  have l1: "length h1 = ?N" using Sequential_LRL_shape(1)[OF h1] lx by simp
  have w0: "\<forall>i<?N. length (h0 ! i) = action_size"
    using Sequential_LRL_shape(2)[OF h0] l0 by simp
  have w1: "\<forall>i<?N. length (h1 ! i) = action_size"
    using Sequential_LRL_shape(2)[OF h1] l1 by simp
  have "last t \<in> set t" using t(1) by simp
  with latent_window_lengths(5)[OF w] have llt: "length (last t) = ?N" by simp
  note B = t_bernoulli_of_Inr[OF tbo t(1) llt lab]
  let ?tau = "\<lambda>i. if m then fp_of_int (hd (last ts ! i))
                   else fp_of_int (int (tk (out_t res ! i)))"
  have tau: "\<And>i. i < ?N \<Longrightarrow> hd (tb ! i) = ?tau i" using B(3) t(2) by simp
  note R = blend_rows[OF B(1,2) l0 l1 w0 w1 ma mb ad]
  have rows: "\<forall>i<?N.
                 length (h0 ! i) = action_size \<and> length (h1 ! i) = action_size
                 \<and> length (out_y res ! i) = action_size
                 \<and> (let \<tau> = ?tau i
                    in out_y res ! i
                         = map (\<lambda>(u, v). \<tau> * u + (1 - \<tau>) * v) (zip (h1 ! i) (h0 ! i))
                       \<and> (\<forall>j<action_size.
                             (\<tau> = 0 \<and> is_finite (h1 ! i ! j)
                                \<longrightarrow> out_y res ! i ! j = h0 ! i ! j)
                           \<and> (\<tau> = 1 \<and> is_finite (h0 ! i ! j)
                                \<longrightarrow> out_y res ! i ! j = h1 ! i ! j)))"
  proof (intro allI impI)
    fix i assume i: "i < ?N"
    have a0: "length (h0 ! i) = action_size" and a1: "length (h1 ! i) = action_size"
      using w0 w1 i by simp_all
    from R(2) i tau[OF i] have r: "out_y res ! i
        = map (\<lambda>(u, v). ?tau i * u + (1 - ?tau i) * v) (zip (h1 ! i) (h0 ! i))"
      by simp
    then have ly: "length (out_y res ! i) = action_size" using a0 a1 by simp
    have ent: "\<And>j. j < action_size \<Longrightarrow>
                 out_y res ! i ! j = ?tau i * (h1 ! i ! j) + (1 - ?tau i) * (h0 ! i ! j)"
      by (subst r) (simp add: a0 a1)
    have sel: "\<forall>j<action_size.
                 (?tau i = 0 \<and> is_finite (h1 ! i ! j) \<longrightarrow> out_y res ! i ! j = h0 ! i ! j)
               \<and> (?tau i = 1 \<and> is_finite (h0 ! i ! j) \<longrightarrow> out_y res ! i ! j = h1 ! i ! j)"
    proof (intro allI impI conjI)
      fix j assume j: "j < action_size"
      {
        assume "?tau i = 0 \<and> is_finite (h1 ! i ! j)"
        then have z: "?tau i = 0" and f: "is_finite (h1 ! i ! j)" by simp_all
        have "out_y res ! i ! j = 0 * (h1 ! i ! j) + (1 - 0) * (h0 ! i ! j)"
          using ent[OF j] unfolding z .
        then show "out_y res ! i ! j = h0 ! i ! j" by (simp only: blend_zero[OF f])
      }
      {
        assume "?tau i = 1 \<and> is_finite (h0 ! i ! j)"
        then have z: "?tau i = 1" and f: "is_finite (h0 ! i ! j)" by simp_all
        have "out_y res ! i ! j = 1 * (h1 ! i ! j) + (1 - 1) * (h0 ! i ! j)"
          using ent[OF j] unfolding z .
        then show "out_y res ! i ! j = h1 ! i ! j" by (simp only: blend_one[OF f])
      }
    qed
    from a0 a1 ly r sel
    show "length (h0 ! i) = action_size \<and> length (h1 ! i) = action_size
                 \<and> length (out_y res ! i) = action_size
                 \<and> (let \<tau> = ?tau i
                    in out_y res ! i
                         = map (\<lambda>(u, v). \<tau> * u + (1 - \<tau>) * v) (zip (h1 ! i) (h0 ! i))
                       \<and> (\<forall>j<action_size.
                             (\<tau> = 0 \<and> is_finite (h1 ! i ! j)
                                \<longrightarrow> out_y res ! i ! j = h0 ! i ! j)
                           \<and> (\<tau> = 1 \<and> is_finite (h0 ! i ! j)
                                \<longrightarrow> out_y res ! i ! j = h1 ! i ! j)))"
      unfolding Let_def by blast
  qed
  from s e w t(2) blk cat h0 h1 R(1) l0 l1 rows show ?thesis by blast
qed

theorem combination_law_witness:
  "snd (CEQNetwork_2_forward argmax_first
          ((CEQNetwork_2_init 1 2 1 2 2 2 ex_params ex_params ex_params ex_params')
             \<lparr>training := True\<rparr>) ex_batch)
     = Inr \<lparr>out_t = [[0, 3], [0, 4]], out_y = [[42, 79], [24, 41]],
            out_z = [[0, 0, 0, 2], [0, 0, 0, 3]]\<rparr>
   \<and> data_t ex_batch = Some [[[1], [0]]]
   \<and> Sequential_LRL (nn_Linear ((2 + 2) * 2) ((2 + 2) * 2 div 2) (fst ex_params),
                      nn_Linear ((2 + 2) * 2 div 2) 2 (snd ex_params))
         [[0, 0, 0, 2, 0, 0, 0, 1], [0, 0, 0, 3, 0, 0, 1, 0]]
       = Inr [[18, 31], [24, 41]]
   \<and> Sequential_LRL (nn_Linear ((2 + 2) * 2) ((2 + 2) * 2 div 2) (fst ex_params'),
                      nn_Linear ((2 + 2) * 2 div 2) 2 (snd ex_params'))
         [[0, 0, 0, 2, 0, 0, 0, 1], [0, 0, 0, 3, 0, 0, 1, 0]]
       = Inr [[42, 79], [40, 79]]
   \<and> fp_of_int (hd ([[1], [0]] ! 0)) = 1
   \<and> is_finite ([[18, 31], [24, 41]] ! 0 ! 1)
   \<and> [[42, 79], [24, 41]] ! 0 ! 1 = [[42, 79], [40, 79 :: fp]] ! 0 ! 1
   \<and> fp_of_int (hd ([[1], [0]] ! 1)) = 0
   \<and> is_finite ([[42, 79], [40, 79]] ! 1 ! 0)
   \<and> [[42, 79], [24, 41]] ! 1 ! 0 = [[18, 31], [24, 41 :: fp]] ! 1 ! 0"
proof -
  let ?res = "\<lparr>out_t = [[0, 3], [0, 4]], out_y = [[42, 79], [24, 41]],
               out_z = [[0, 0, 0, 2], [0, 0, 0, 3]]\<rparr>"
  let ?enc = "(nn_Linear 1 1 (fst ex_params), nn_Linear 1 2 (snd ex_params))"
  let ?lt = "(nn_Linear 2 (2 div 2) (fst ex_params), nn_Linear (2 div 2) 2 (snd ex_params))"
  let ?f0 = "(nn_Linear ((2 + 2) * 2) ((2 + 2) * 2 div 2) (fst ex_params),
              nn_Linear ((2 + 2) * 2 div 2) 2 (snd ex_params))"
  let ?f1 = "(nn_Linear ((2 + 2) * 2) ((2 + 2) * 2 div 2) (fst ex_params'),
              nn_Linear ((2 + 2) * 2 div 2) 2 (snd ex_params'))"
  let ?x = "[[0, 0, 0, 2, 0, 0, 0, 1], [0, 0, 0, 3, 0, 0, 1, 0 :: fp]]"
  let ?h0 = "[[18, 31], [24, 41 :: fp]]"
  let ?h1 = "[[42, 79], [40, 79 :: fp]]"
  have h1: "snd (CEQNetwork_2_forward argmax_first
          ((CEQNetwork_2_init 1 2 1 2 2 2 ex_params ex_params ex_params ex_params')
             \<lparr>training := True\<rparr>) ex_batch) = Inr ?res"
    by code_simp
  have t: "data_t ex_batch = Some [[[1], [0]]]" by (simp add: ex_batch_def)
  have h2: "True \<longrightarrow> data_t ex_batch = Some [[[1], [0]]]
              \<and> length (last [[[1], [0 :: int]]]) = length (out_z ?res)
              \<and> (\<forall>q\<in>set (last [[[1], [0 :: int]]]). length q = 1)"
    using t by simp
  have s: "data_state ex_batch = Some [[[1], [2]]]" by (simp add: ex_batch_def)
  have c1: "mapE (Sequential_LRLR ?enc) [[[1], [2]]] = Inr [[[0, 2], [0, 3]]]" by code_simp
  have c2: "latent_window 2 2 ?lt [[[0, 2], [0, 3]]]
              = Inr ([[[0, 3], [0, 4]]], [[0, 0, 0, 2], [0, 0, 0, 3]])"
    by code_simp
  have c3: "treatment_block argmax_first True 2 2 (Some [[[1], [0]]]) [[[0, 3], [0, 4]]]
              = Inr [[0, 0, 0, 1], [0, 0, 1, 0]]"
    by code_simp
  have c4: "torch_cat_last [[[0, 0, 0, 2], [0, 0, 0, 3]], [[0, 0, 0, 1], [0, 0, 1, 0 :: fp]]]
              = Inr ?x"
    by code_simp
  have c5: "Sequential_LRL ?f0 ?x = Inr ?h0" by code_simp
  have c6: "Sequential_LRL ?f1 ?x = Inr ?h1" by code_simp
  from combination_law[OF h1 h2] obtain sts zs t' onehot_t x head0 head1 where
    a1: "data_state ex_batch = Some sts"
    and a2: "mapE (Sequential_LRLR ?enc) sts = Inr zs"
    and a3: "latent_window 2 2 ?lt zs = Inr (t', out_z ?res)"
    and a4: "treatment_block argmax_first True 2 2 (data_t ex_batch) t' = Inr onehot_t"
    and a5: "torch_cat_last [out_z ?res, onehot_t] = Inr x"
    and a6: "Sequential_LRL ?f0 x = Inr head0"
    and a7: "Sequential_LRL ?f1 x = Inr head1"
    and r: "\<forall>i<length (out_z ?res).
                 length (head0 ! i) = 2 \<and> length (head1 ! i) = 2
                 \<and> length (out_y ?res ! i) = 2
                 \<and> (let \<tau> = (if True then fp_of_int (hd (last [[[1], [0 :: int]]] ! i))
                              else fp_of_int (int (argmax_first (out_t ?res ! i))))
                    in out_y ?res ! i
                         = map (\<lambda>(u, v). \<tau> * u + (1 - \<tau>) * v) (zip (head1 ! i) (head0 ! i))
                       \<and> (\<forall>j<2.
                             (\<tau> = 0 \<and> is_finite (head1 ! i ! j)
                                \<longrightarrow> out_y ?res ! i ! j = head0 ! i ! j)
                           \<and> (\<tau> = 1 \<and> is_finite (head0 ! i ! j)
                                \<longrightarrow> out_y ?res ! i ! j = head1 ! i ! j)))"
    by blast
  from a1 s have "sts = [[[1], [2]]]" by simp
  with a2 c1 have "zs = [[[0, 2], [0, 3]]]" by simp
  with a3 c2 have "t' = [[[0, 3], [0, 4]]]" by simp
  with a4 c3 t have "onehot_t = [[0, 0, 0, 1], [0, 0, 1, 0]]" by simp
  with a5 c4 have x: "x = ?x" by simp
  from a6 c5 x have e0: "head0 = ?h0" by simp
  from a7 c6 x have e1: "head1 = ?h1" by simp
  have p1: "fp_of_int (hd ([[1], [0]] ! 0)) = 1" by (simp add: fp_of_int_def one_fp_def)
  have p2: "is_finite (?h0 ! 0 ! 1)" by (simp add: is_finite_def numeral_fp)
  have p3: "fp_of_int (hd ([[1], [0]] ! 1)) = 0" by (simp add: fp_of_int_def zero_fp_def)
  have p4: "is_finite (?h1 ! 1 ! 0)" by (simp add: is_finite_def numeral_fp)
  have i0: "0 < length (out_z ?res)" and i1: "1 < length (out_z ?res)" by simp_all
  from r[rule_format, OF i0]
  have "\<forall>j<2. fp_of_int (hd (last [[[1], [0 :: int]]] ! 0)) = 1 \<and> is_finite (head0 ! 0 ! j)
                \<longrightarrow> out_y ?res ! 0 ! j = head1 ! 0 ! j"
    unfolding Let_def if_True by blast
  from this[rule_format, of 1] p1 p2
  have q1: "[[42, 79], [24, 41]] ! 0 ! 1 = ?h1 ! 0 ! 1"
    unfolding e0 e1 by simp
  from r[rule_format, OF i1]
  have "\<forall>j<2. fp_of_int (hd (last [[[1], [0 :: int]]] ! 1)) = 0 \<and> is_finite (head1 ! 1 ! j)
                \<longrightarrow> out_y ?res ! 1 ! j = head0 ! 1 ! j"
    unfolding Let_def if_True by blast
  from this[rule_format, of 0] p3 p4
  have q2: "[[42, 79], [24, 41]] ! 1 ! 0 = ?h0 ! 1 ! 0"
    unfolding e0 e1 by simp
  show ?thesis
    by (intro conjI) (rule h1 t c5 c6 p1 p2 q1 p3 p4 q2)+
qed

subsection \<open>The treatment block\<close>

text \<open>
  C4. Let the forward call of \<^verbatim>\<open>CEQNetwork_1\<close> or of \<^verbatim>\<open>CEQNetwork_2\<close> return, with a
  window length of at least 1 and, in training mode, on a batch whose treatment sequence is
  as long as its state sequence and holds one label per sample and timestep. The latent
  sequence is the encoder applied to the state sequence of the batch, the treatment logits
  are those of its last \<^verbatim>\<open>step\<close> elements, and the treatment block is built from them
  (evaluation) or from the labels (training). The tensor whose rows are the rows of the
  window block followed by the rows of the treatment block is what the action values are
  computed from: by \<^verbatim>\<open>fc\<close> in \<^verbatim>\<open>CEQNetwork_1\<close>, by \<^verbatim>\<open>fc_t0\<close>, \<^verbatim>\<open>fc_t1\<close> and the
  combination of line 161 in \<^verbatim>\<open>CEQNetwork_2\<close>. The treatment block has one row per sample,
  with \<^verbatim>\<open>step\<close> slots of \<^verbatim>\<open>num_treatment\<close> entries. The first \<open>step - L\<close> slots, which
  exist when the sequence has \<open>L < step\<close> elements, are zero. Every other slot is a unit
  vector, with its 1 at the label of its timestep (training) or at the top index of the
  logits of its timestep (evaluation), so its entries sum to 1.
\<close>

theorem treatment_one_hot_law:
  assumes stp: "0 < stp"
    and ret: "snd (CEQNetwork_1_forward tk
                  ((CEQNetwork_1_init state_size action_size fc1 fc2 stp nt pe pt pf)
                     \<lparr>training := m\<rparr>) data) = Inr res
           \<or> snd (CEQNetwork_2_forward tk
                  ((CEQNetwork_2_init state_size action_size fc1 fc2 stp nt pe pt pf0 pf1)
                     \<lparr>training := m\<rparr>) data) = Inr res"
    and st: "data_state data = Some sts"
    and lab: "m \<longrightarrow> data_t data = Some ts \<and> length ts = length sts
                \<and> (\<forall>l\<in>set ts. length l = length (out_z res) \<and> (\<forall>q\<in>set l. length q = 1))"
  shows "\<exists>zs t onehot_t x.
           mapE (Sequential_LRLR (nn_Linear state_size fc1 (fst pe), nn_Linear fc1 fc2 (snd pe)))
               sts = Inr zs
           \<and> latent_window stp fc2
               (nn_Linear fc2 (fc2 div 2) (fst pt), nn_Linear (fc2 div 2) nt (snd pt)) zs
             = Inr (t, out_z res)
           \<and> out_t res = last t
           \<and> length t = min stp (length sts)
           \<and> treatment_block tk m nt stp (data_t data) t = Inr onehot_t
           \<and> torch_cat_last [out_z res, onehot_t] = Inr x
           \<and> (snd (CEQNetwork_1_forward tk
                  ((CEQNetwork_1_init state_size action_size fc1 fc2 stp nt pe pt pf)
                     \<lparr>training := m\<rparr>) data) = Inr res
                \<longrightarrow> Sequential_LRL
                      (nn_Linear ((fc2 + nt) * stp) ((fc2 + nt) * stp div 2) (fst pf),
                       nn_Linear ((fc2 + nt) * stp div 2) action_size (snd pf)) x
                    = Inr (out_y res))
           \<and> (snd (CEQNetwork_2_forward tk
                  ((CEQNetwork_2_init state_size action_size fc1 fc2 stp nt pe pt pf0 pf1)
                     \<lparr>training := m\<rparr>) data) = Inr res
                \<longrightarrow> (\<exists>t_bernoulli y_t0 y_t1 a b.
                       t_bernoulli_of tk m (data_t data) t = Inr t_bernoulli
                       \<and> Sequential_LRL
                           (nn_Linear ((fc2 + nt) * stp) ((fc2 + nt) * stp div 2) (fst pf0),
                            nn_Linear ((fc2 + nt) * stp div 2) action_size (snd pf0)) x
                         = Inr y_t0
                       \<and> Sequential_LRL
                           (nn_Linear ((fc2 + nt) * stp) ((fc2 + nt) * stp div 2) (fst pf1),
                            nn_Linear ((fc2 + nt) * stp div 2) action_size (snd pf1)) x
                         = Inr y_t1
                       \<and> torch_mul t_bernoulli y_t1 = Inr a
                       \<and> torch_mul (one_minus t_bernoulli) y_t0 = Inr b
                       \<and> torch_add a b = Inr (out_y res)))
           \<and> length (out_z res) = length (last sts)
           \<and> length onehot_t = length (out_z res)
           \<and> length x = length (out_z res)
           \<and> (\<forall>i<length (out_z res).
                 x ! i = out_z res ! i @ onehot_t ! i
                 \<and> length (onehot_t ! i) = nt * stp
                 \<and> (\<forall>s<stp.
                 (s < stp - length sts \<longrightarrow>
                    take nt (drop (s * nt) (onehot_t ! i)) = replicate nt 0)
                 \<and> (stp - length sts \<le> s \<longrightarrow>
                      (\<exists>k<nt. take nt (drop (s * nt) (onehot_t ! i)) = (replicate nt 0)[k := 1]
                          \<and> int k = (if m then hd (ts ! (s + length sts - stp) ! i)
                                     else int (tk (t ! (s - (stp - length sts)) ! i))))
                      \<and> sum_list (take nt (drop (s * nt) (onehot_t ! i))) = 1)))"
proof -
  let ?lt = "(nn_Linear fc2 (fc2 div 2) (fst pt), nn_Linear (fc2 div 2) nt (snd pt))"
  let ?N = "length (out_z res)"
  from forward_treatment_block[OF ret] st obtain zs t onehot_t x where
    e: "mapE (Sequential_LRLR (nn_Linear state_size fc1 (fst pe), nn_Linear fc1 fc2 (snd pe)))
                 sts = Inr zs"
    and w: "latent_window stp fc2 ?lt zs = Inr (t, out_z res)"
    and ot: "out_t res = last t"
    and blk: "treatment_block tk m nt stp (data_t data) t = Inr onehot_t"
    and cat: "torch_cat_last [out_z res, onehot_t] = Inr x"
    and hd: "(snd (CEQNetwork_1_forward tk
                  ((CEQNetwork_1_init state_size action_size fc1 fc2 stp nt pe pt pf)
                     \<lparr>training := m\<rparr>) data) = Inr res
                \<longrightarrow> Sequential_LRL
                      (nn_Linear ((fc2 + nt) * stp) ((fc2 + nt) * stp div 2) (fst pf),
                       nn_Linear ((fc2 + nt) * stp div 2) action_size (snd pf)) x
                    = Inr (out_y res))
           \<and> (snd (CEQNetwork_2_forward tk
                  ((CEQNetwork_2_init state_size action_size fc1 fc2 stp nt pe pt pf0 pf1)
                     \<lparr>training := m\<rparr>) data) = Inr res
                \<longrightarrow> (\<exists>t_bernoulli y_t0 y_t1 a b.
                       t_bernoulli_of tk m (data_t data) t = Inr t_bernoulli
                       \<and> Sequential_LRL
                           (nn_Linear ((fc2 + nt) * stp) ((fc2 + nt) * stp div 2) (fst pf0),
                            nn_Linear ((fc2 + nt) * stp div 2) action_size (snd pf0)) x
                         = Inr y_t0
                       \<and> Sequential_LRL
                           (nn_Linear ((fc2 + nt) * stp) ((fc2 + nt) * stp div 2) (fst pf1),
                            nn_Linear ((fc2 + nt) * stp div 2) action_size (snd pf1)) x
                         = Inr y_t1
                       \<and> torch_mul t_bernoulli y_t1 = Inr a
                       \<and> torch_mul (one_minus t_bernoulli) y_t0 = Inr b
                       \<and> torch_add a b = Inr (out_y res)))"
    by auto
  note wl = latent_window_lengths[OF w]
  note cnt = window_sample_count[OF stp e w]
  have lzs: "length zs = length sts" by (rule mapE_Inr_length[OF e])
  have lt: "length t = min stp (length sts)"
    using wl(3) lzs stp by (simp add: length_py_slice_last)
  then have le: "length t \<le> stp" by simp
  have pd: "stp - length t = stp - length sts" using lt by (simp add: min_def)
  have tsh: "\<forall>l\<in>set t. length l = ?N \<and> (\<forall>r\<in>set l. length r = nt)"
    using wl(5,6) by simp
  have lx: "length x = ?N" using torch_cat_last_Inr(2)[OF cat] by simp
  have xr: "\<forall>i<?N. x ! i = out_z res ! i @ onehot_t ! i"
    using torch_cat_last_Inr(3)[OF cat] lx by simp
  let ?sl = "py_slice_last stp ts"
  have lab': "m \<longrightarrow> data_t data = Some ts \<and> length ?sl = length t
                \<and> (\<forall>l\<in>set ?sl. length l = ?N \<and> (\<forall>q\<in>set l. length q = 1))"
  proof
    assume m
    with lab have d: "data_t data = Some ts" and l: "length ts = length sts"
      and sh: "\<forall>l\<in>set ts. length l = ?N \<and> (\<forall>q\<in>set l. length q = 1)"
      by simp_all
    have "set ?sl \<subseteq> set ts" by (auto simp: py_slice_last_def dest: in_set_dropD)
    with sh have "\<forall>l\<in>set ?sl. length l = ?N \<and> (\<forall>q\<in>set l. length q = 1)" by blast
    moreover have "length ?sl = length t" using l lt stp by (simp add: length_py_slice_last)
    ultimately show "data_t data = Some ts \<and> length ?sl = length t
                \<and> (\<forall>l\<in>set ?sl. length l = ?N \<and> (\<forall>q\<in>set l. length q = 1))"
      using d by blast
  qed
  note R = treatment_block_rows[OF wl(2) le tsh blk lab']
  have slots: "\<forall>i<?N. x ! i = out_z res ! i @ onehot_t ! i
                 \<and> length (onehot_t ! i) = nt * stp
                 \<and> (\<forall>s<stp.
                 (s < stp - length sts \<longrightarrow>
                    take nt (drop (s * nt) (onehot_t ! i)) = replicate nt 0)
                 \<and> (stp - length sts \<le> s \<longrightarrow>
                      (\<exists>k<nt. take nt (drop (s * nt) (onehot_t ! i)) = (replicate nt 0)[k := 1]
                          \<and> int k = (if m then hd (ts ! (s + length sts - stp) ! i)
                                     else int (tk (t ! (s - (stp - length sts)) ! i))))
                      \<and> sum_list (take nt (drop (s * nt) (onehot_t ! i))) = 1))"
  proof (intro allI impI)
    fix i assume i: "i < ?N"
    from R(2) i obtain ks where
      lk: "length ks = length t"
      and kj: "\<forall>j<length t. ks ! j < nt
                   \<and> int (ks ! j) = (if m then hd (?sl ! j ! i) else int (tk (t ! j ! i)))"
      and row: "onehot_t ! i = replicate (nt * (stp - length t)) 0
                         @ concat (map (\<lambda>k. (replicate nt 0)[k := 1]) ks)"
      by blast
    let ?vs = "map (\<lambda>k. (replicate nt (0::fp))[k := 1]) ks"
    have vw: "\<forall>v\<in>set ?vs. length v = nt" by auto
    have "length (concat ?vs) = nt * length ks"
      by (rule length_concat_const) simp
    with row lk le have wid: "length (onehot_t ! i) = nt * stp"
      by (simp add: diff_mult_distrib2[symmetric] distrib_left[symmetric])
    have all: "(\<forall>s<stp.
                 (s < stp - length sts \<longrightarrow>
                    take nt (drop (s * nt) (onehot_t ! i)) = replicate nt 0)
                 \<and> (stp - length sts \<le> s \<longrightarrow>
                      (\<exists>k<nt. take nt (drop (s * nt) (onehot_t ! i)) = (replicate nt 0)[k := 1]
                          \<and> int k = (if m then hd (ts ! (s + length sts - stp) ! i)
                                     else int (tk (t ! (s - (stp - length sts)) ! i))))
                      \<and> sum_list (take nt (drop (s * nt) (onehot_t ! i))) = 1))"
    proof (intro allI impI)
      fix s assume s: "s < stp"
      have sp: "s < (stp - length t) + length ?vs" using s le lk by simp
      note sl = slot_of_padded[OF vw sp, folded row]
      have pad: "s < stp - length sts \<longrightarrow>
                    take nt (drop (s * nt) (onehot_t ! i)) = replicate nt 0"
        using sl pd by simp
      have obs: "stp - length sts \<le> s \<longrightarrow>
                      (\<exists>k<nt. take nt (drop (s * nt) (onehot_t ! i)) = (replicate nt 0)[k := 1]
                          \<and> int k = (if m then hd (ts ! (s + length sts - stp) ! i)
                                     else int (tk (t ! (s - (stp - length sts)) ! i))))
                      \<and> sum_list (take nt (drop (s * nt) (onehot_t ! i))) = 1"
      proof
        assume ge: "stp - length sts \<le> s"
        define j where "j = s - (stp - length sts)"
        have jl: "j < length t" using ge s lt j_def by (auto simp: min_def)
        have v: "take nt (drop (s * nt) (onehot_t ! i)) = (replicate nt 0)[ks ! j := 1]"
          using sl ge pd jl lk j_def by simp
        from kj jl have kn: "ks ! j < nt"
          and kv: "int (ks ! j) = (if m then hd (?sl ! j ! i) else int (tk (t ! j ! i)))"
          by simp_all
        have "m \<Longrightarrow> ?sl ! j = ts ! (s + length sts - stp)"
        proof -
          assume m
          with lab have l: "length ts = length sts" by simp
          have "?sl ! j = drop (length ts - stp) ts ! j" using stp by (simp add: py_slice_last_pos)
          also have "\<dots> = ts ! (length ts - stp + j)"
            using jl lt l by (intro nth_drop) (auto simp: min_def)
          also have "length ts - stp + j = s + length sts - stp"
            using l ge s j_def by auto
          finally show ?thesis .
        qed
        with kv have kv': "int (ks ! j) = (if m then hd (ts ! (s + length sts - stp) ! i)
                                       else int (tk (t ! (s - (stp - length sts)) ! i)))"
          by (simp add: j_def)
        from v kn have "sum_list (take nt (drop (s * nt) (onehot_t ! i))) = 1"
          by (simp add: sum_list_unit)
        with v kn kv' show "(\<exists>k<nt. take nt (drop (s * nt) (onehot_t ! i)) = (replicate nt 0)[k := 1]
                            \<and> int k = (if m then hd (ts ! (s + length sts - stp) ! i)
                                       else int (tk (t ! (s - (stp - length sts)) ! i))))
                        \<and> sum_list (take nt (drop (s * nt) (onehot_t ! i))) = 1"
          by blast
      qed
      from pad obs show "(s < stp - length sts \<longrightarrow>
                      take nt (drop (s * nt) (onehot_t ! i)) = replicate nt 0)
                   \<and> (stp - length sts \<le> s \<longrightarrow>
                        (\<exists>k<nt. take nt (drop (s * nt) (onehot_t ! i)) = (replicate nt 0)[k := 1]
                            \<and> int k = (if m then hd (ts ! (s + length sts - stp) ! i)
                                       else int (tk (t ! (s - (stp - length sts)) ! i))))
                        \<and> sum_list (take nt (drop (s * nt) (onehot_t ! i))) = 1)"
        by blast
    qed
    from xr i wid all show "x ! i = out_z res ! i @ onehot_t ! i
                 \<and> length (onehot_t ! i) = nt * stp
                 \<and> (\<forall>s<stp.
                 (s < stp - length sts \<longrightarrow>
                    take nt (drop (s * nt) (onehot_t ! i)) = replicate nt 0)
                 \<and> (stp - length sts \<le> s \<longrightarrow>
                      (\<exists>k<nt. take nt (drop (s * nt) (onehot_t ! i)) = (replicate nt 0)[k := 1]
                          \<and> int k = (if m then hd (ts ! (s + length sts - stp) ! i)
                                     else int (tk (t ! (s - (stp - length sts)) ! i))))
                      \<and> sum_list (take nt (drop (s * nt) (onehot_t ! i))) = 1))"
      by blast
  qed
  from e w ot lt blk cat hd cnt(2)[symmetric] R(1) lx slots show ?thesis by blast
qed

theorem treatment_one_hot_law_witness:
  "(0::nat) < 2
   \<and> snd (CEQNetwork_1_forward argmax_first
            ((CEQNetwork_1_init 1 2 1 2 2 2 ex_params ex_params ex_params')
               \<lparr>training := True\<rparr>) ex_batch)
       = Inr \<lparr>out_t = [[0, 3], [0, 4]], out_y = [[42, 79], [40, 79]],
              out_z = [[0, 0, 0, 2], [0, 0, 0, 3]]\<rparr>
   \<and> data_state ex_batch = Some [[[1], [2]]]
   \<and> data_t ex_batch = Some [[[1], [0]]]
   \<and> mapE (Sequential_LRLR (nn_Linear 1 1 (fst ex_params), nn_Linear 1 2 (snd ex_params)))
         [[[1], [2]]] = Inr [[[0, 2], [0, 3]]]
   \<and> latent_window 2 2
         (nn_Linear 2 (2 div 2) (fst ex_params), nn_Linear (2 div 2) 2 (snd ex_params))
         [[[0, 2], [0, 3]]]
       = Inr ([[[0, 3], [0, 4]]], [[0, 0, 0, 2], [0, 0, 0, 3]])
   \<and> treatment_block argmax_first True 2 2 (data_t ex_batch) [[[0, 3], [0, 4]]]
       = Inr [[0, 0, 0, 1], [0, 0, 1, 0]]
   \<and> torch_cat_last [[[0, 0, 0, 2], [0, 0, 0, 3]], [[0, 0, 0, 1], [0, 0, 1, 0 :: fp]]]
       = Inr [[0, 0, 0, 2, 0, 0, 0, 1], [0, 0, 0, 3, 0, 0, 1, 0]]
   \<and> Sequential_LRL (nn_Linear ((2 + 2) * 2) ((2 + 2) * 2 div 2) (fst ex_params'),
                      nn_Linear ((2 + 2) * 2 div 2) 2 (snd ex_params'))
         [[0, 0, 0, 2, 0, 0, 0, 1], [0, 0, 0, 3, 0, 0, 1, 0]]
       = Inr [[42, 79], [40, 79]]
   \<and> take 2 (drop (0 * 2) [0, 0, 0, 1]) = replicate 2 (0 :: fp)
   \<and> take 2 (drop (1 * 2) [0, 0, 0, 1]) = (replicate 2 (0 :: fp))[1 := 1]
   \<and> sum_list (take 2 (drop (1 * 2) [0, 0, 0, 1 :: fp])) = 1
   \<and> take 2 (drop (1 * 2) [0, 0, 1, 0]) = (replicate 2 (0 :: fp))[0 := 1]
   \<and> snd (CEQNetwork_2_forward argmax_first
            ((CEQNetwork_2_init 1 2 1 2 2 2 ex_params ex_params ex_params ex_params')
               \<lparr>training := False\<rparr>) ex_batch3)
       = Inr \<lparr>out_t = [[0, 4], [0, 4]], out_y = [[33, 83], [54, 109]],
              out_z = [[0, 4, 0, 3], [0, 1, 0, 3]]\<rparr>
   \<and> data_state ex_batch3 = Some [[[1], [2]], [[3], [0]], [[2], [2]]]
   \<and> mapE (Sequential_LRLR (nn_Linear 1 1 (fst ex_params), nn_Linear 1 2 (snd ex_params)))
         [[[1], [2]], [[3], [0]], [[2], [2]]]
       = Inr [[[0, 2], [0, 3]], [[0, 4], [0, 1]], [[0, 3], [0, 3]]]
   \<and> latent_window 2 2
         (nn_Linear 2 (2 div 2) (fst ex_params), nn_Linear (2 div 2) 2 (snd ex_params))
         [[[0, 2], [0, 3]], [[0, 4], [0, 1]], [[0, 3], [0, 3]]]
       = Inr ([[[0, 5], [0, 2]], [[0, 4], [0, 4]]], [[0, 4, 0, 3], [0, 1, 0, 3]])
   \<and> treatment_block argmax_first False 2 2 (data_t ex_batch3)
         [[[0, 5], [0, 2]], [[0, 4], [0, 4]]]
       = Inr [[0, 1, 0, 1], [0, 1, 0, 1]]
   \<and> torch_cat_last [[[0, 4, 0, 3], [0, 1, 0, 3]], [[0, 1, 0, 1], [0, 1, 0, 1 :: fp]]]
       = Inr [[0, 4, 0, 3, 0, 1, 0, 1], [0, 1, 0, 3, 0, 1, 0, 1]]
   \<and> sum_list (take 2 (drop (0 * 2) [0, 1, 0, 1 :: fp])) = 1
   \<and> sum_list (take 2 (drop (1 * 2) [0, 1, 0, 1 :: fp])) = 1
   \<and> (\<exists>t_bernoulli y_t0 y_t1 a b.
         t_bernoulli_of argmax_first False (data_t ex_batch3)
             [[[0, 5], [0, 2]], [[0, 4], [0, 4]]] = Inr t_bernoulli
         \<and> Sequential_LRL (nn_Linear ((2 + 2) * 2) ((2 + 2) * 2 div 2) (fst ex_params),
                            nn_Linear ((2 + 2) * 2 div 2) 2 (snd ex_params))
               [[0, 4, 0, 3, 0, 1, 0, 1], [0, 1, 0, 3, 0, 1, 0, 1]] = Inr y_t0
         \<and> Sequential_LRL (nn_Linear ((2 + 2) * 2) ((2 + 2) * 2 div 2) (fst ex_params'),
                            nn_Linear ((2 + 2) * 2 div 2) 2 (snd ex_params'))
               [[0, 4, 0, 3, 0, 1, 0, 1], [0, 1, 0, 3, 0, 1, 0, 1]] = Inr y_t1
         \<and> torch_mul t_bernoulli y_t1 = Inr a
         \<and> torch_mul (one_minus t_bernoulli) y_t0 = Inr b
         \<and> torch_add a b = Inr [[33, 83], [54, 109]])"
proof -
  let ?enc = "(nn_Linear 1 1 (fst ex_params), nn_Linear 1 2 (snd ex_params))"
  let ?lt = "(nn_Linear 2 (2 div 2) (fst ex_params), nn_Linear (2 div 2) 2 (snd ex_params))"
  let ?hd1 = "(nn_Linear ((2 + 2) * 2) ((2 + 2) * 2 div 2) (fst ex_params'),
             nn_Linear ((2 + 2) * 2 div 2) 2 (snd ex_params'))"
  let ?hd0 = "(nn_Linear ((2 + 2) * 2) ((2 + 2) * 2 div 2) (fst ex_params),
              nn_Linear ((2 + 2) * 2 div 2) 2 (snd ex_params))"
  let ?rB = "\<lparr>out_t = [[0, 3], [0, 4]], out_y = [[42, 79], [40, 79]],
               out_z = [[0, 0, 0, 2], [0, 0, 0, 3]]\<rparr>"
  let ?rC = "\<lparr>out_t = [[0, 4], [0, 4]], out_y = [[33, 83], [54, 109]],
               out_z = [[0, 4, 0, 3], [0, 1, 0, 3]]\<rparr>"
  let ?s1 = "[[[1], [2 :: fp]]]"
  let ?s3 = "[[[1], [2]], [[3], [0]], [[2], [2 :: fp]]]"
  let ?z1 = "[[[0, 2], [0, 3 :: fp]]]"
  let ?z3 = "[[[0, 2], [0, 3]], [[0, 4], [0, 1]], [[0, 3], [0, 3 :: fp]]]"
  let ?t1 = "[[[0, 3], [0, 4 :: fp]]]"
  let ?t3 = "[[[0, 5], [0, 2]], [[0, 4], [0, 4 :: fp]]]"
  let ?o1 = "[[0, 0, 0, 1], [0, 0, 1, 0 :: fp]]"
  let ?o3 = "[[0, 1, 0, 1], [0, 1, 0, 1 :: fp]]"
  let ?x1 = "[[0, 0, 0, 2, 0, 0, 0, 1], [0, 0, 0, 3, 0, 0, 1, 0 :: fp]]"
  let ?x3 = "[[0, 4, 0, 3, 0, 1, 0, 1], [0, 1, 0, 3, 0, 1, 0, 1 :: fp]]"
  have h0: "(0::nat) < 2" by simp
  have hB: "snd (CEQNetwork_1_forward argmax_first
            ((CEQNetwork_1_init 1 2 1 2 2 2 ex_params ex_params ex_params')
               \<lparr>training := True\<rparr>) ex_batch) = Inr ?rB"
    by code_simp
  have hC: "snd (CEQNetwork_2_forward argmax_first
            ((CEQNetwork_2_init 1 2 1 2 2 2 ex_params ex_params ex_params ex_params')
               \<lparr>training := False\<rparr>) ex_batch3) = Inr ?rC"
    by code_simp
  have s1: "data_state ex_batch = Some ?s1" by (simp add: ex_batch_def)
  have s3: "data_state ex_batch3 = Some ?s3" by (simp add: ex_batch3_def)
  have t1: "data_t ex_batch = Some [[[1], [0]]]" by (simp add: ex_batch_def)
  have e1: "mapE (Sequential_LRLR ?enc) ?s1 = Inr ?z1" by code_simp
  have e3: "mapE (Sequential_LRLR ?enc) ?s3 = Inr ?z3" by code_simp
  have w1: "latent_window 2 2 ?lt ?z1 = Inr (?t1, [[0, 0, 0, 2], [0, 0, 0, 3]])" by code_simp
  have w3: "latent_window 2 2 ?lt ?z3 = Inr (?t3, [[0, 4, 0, 3], [0, 1, 0, 3]])" by code_simp
  have b1: "treatment_block argmax_first True 2 2 (data_t ex_batch) ?t1 = Inr ?o1" by code_simp
  have b3: "treatment_block argmax_first False 2 2 (data_t ex_batch3) ?t3 = Inr ?o3"
    by code_simp
  have c1: "torch_cat_last [[[0, 0, 0, 2], [0, 0, 0, 3]], ?o1] = Inr ?x1" by code_simp
  have c3: "torch_cat_last [[[0, 4, 0, 3], [0, 1, 0, 3]], ?o3] = Inr ?x3" by code_simp
  have l1: "True \<longrightarrow> data_t ex_batch = Some [[[1], [0]]]
              \<and> length [[[1], [0 :: int]]] = length ?s1
              \<and> (\<forall>l\<in>set [[[1], [0 :: int]]]. length l = length (out_z ?rB)
                    \<and> (\<forall>q\<in>set l. length q = 1))"
    using t1 by simp
  have l3: "False \<longrightarrow> data_t ex_batch3 = Some []
              \<and> length ([] :: long_tensor list) = length ?s3
              \<and> (\<forall>l\<in>set ([] :: long_tensor list). length l = length (out_z ?rC)
                    \<and> (\<forall>q\<in>set l. length q = 1))"
    by simp
  from treatment_one_hot_law[OF h0 disjI1 s1 l1, OF hB, where ?pf0.0 = ex_params
      and ?pf1.0 = ex_params'] obtain zs t onehot_t x where
    a1: "mapE (Sequential_LRLR ?enc) ?s1 = Inr zs"
    and a2: "latent_window 2 2 ?lt zs = Inr (t, out_z ?rB)"
    and a3: "treatment_block argmax_first True 2 2 (data_t ex_batch) t = Inr onehot_t"
    and a4: "torch_cat_last [out_z ?rB, onehot_t] = Inr x"
    and a5: "snd (CEQNetwork_1_forward argmax_first
            ((CEQNetwork_1_init 1 2 1 2 2 2 ex_params ex_params ex_params')
               \<lparr>training := True\<rparr>) ex_batch) = Inr ?rB
             \<longrightarrow> Sequential_LRL ?hd1 x = Inr (out_y ?rB)"
    and a6: "\<forall>i<length (out_z ?rB).
                 x ! i = out_z ?rB ! i @ onehot_t ! i
                 \<and> length (onehot_t ! i) = 2 * 2
                 \<and> (\<forall>s<2.
                 (s < 2 - length ?s1 \<longrightarrow>
                    take 2 (drop (s * 2) (onehot_t ! i)) = replicate 2 0)
                 \<and> (2 - length ?s1 \<le> s \<longrightarrow>
                      (\<exists>k<2. take 2 (drop (s * 2) (onehot_t ! i)) = (replicate 2 0)[k := 1]
                          \<and> int k = (if True then hd ([[[1], [0]]] ! (s + length ?s1 - 2) ! i)
                                     else int (argmax_first (t ! (s - (2 - length ?s1)) ! i))))
                      \<and> sum_list (take 2 (drop (s * 2) (onehot_t ! i))) = 1))"
    by blast
  from a1 e1 have "zs = ?z1" by simp
  with a2 w1 have "t = ?t1" by simp
  with a3 b1 have o: "onehot_t = ?o1" by simp
  with a4 c1 have x: "x = ?x1" by simp
  from a5 hB x have y1: "Sequential_LRL ?hd1 ?x1 = Inr [[42, 79], [40, 79]]" by simp
  from treatment_one_hot_law[OF h0 disjI2 s3 l3, OF hC, where pf = ex_params'] obtain zs' t' onehot_t' x' where
    d1: "mapE (Sequential_LRLR ?enc) ?s3 = Inr zs'"
    and d2: "latent_window 2 2 ?lt zs' = Inr (t', out_z ?rC)"
    and d3: "treatment_block argmax_first False 2 2 (data_t ex_batch3) t' = Inr onehot_t'"
    and d4: "torch_cat_last [out_z ?rC, onehot_t'] = Inr x'"
    and d5: "snd (CEQNetwork_2_forward argmax_first
            ((CEQNetwork_2_init 1 2 1 2 2 2 ex_params ex_params ex_params ex_params')
               \<lparr>training := False\<rparr>) ex_batch3) = Inr ?rC
             \<longrightarrow> (\<exists>t_bernoulli y_t0 y_t1 a b.
                       t_bernoulli_of argmax_first False (data_t ex_batch3) t' = Inr t_bernoulli
                       \<and> Sequential_LRL ?hd0 x' = Inr y_t0
                       \<and> Sequential_LRL ?hd1 x' = Inr y_t1
                       \<and> torch_mul t_bernoulli y_t1 = Inr a
                       \<and> torch_mul (one_minus t_bernoulli) y_t0 = Inr b
                       \<and> torch_add a b = Inr (out_y ?rC))"
    and d6: "\<forall>i<length (out_z ?rC).
                 x' ! i = out_z ?rC ! i @ onehot_t' ! i
                 \<and> length (onehot_t' ! i) = 2 * 2
                 \<and> (\<forall>s<2.
                 (s < 2 - length ?s3 \<longrightarrow>
                    take 2 (drop (s * 2) (onehot_t' ! i)) = replicate 2 0)
                 \<and> (2 - length ?s3 \<le> s \<longrightarrow>
                      (\<exists>k<2. take 2 (drop (s * 2) (onehot_t' ! i)) = (replicate 2 0)[k := 1]
                          \<and> int k = (if False then hd ([] ! (s + length ?s3 - 2) ! i)
                                     else int (argmax_first (t' ! (s - (2 - length ?s3)) ! i))))
                      \<and> sum_list (take 2 (drop (s * 2) (onehot_t' ! i))) = 1))"
    by blast
  from d1 e3 have "zs' = ?z3" by simp
  with d2 w3 have t': "t' = ?t3" by simp
  with d3 b3 have o': "onehot_t' = ?o3" by simp
  with d4 c3 have x': "x' = ?x3" by simp
  have i0: "0 < length (out_z ?rB)" and i1: "1 < length (out_z ?rB)" by simp_all
  have j0: "0 < length (out_z ?rC)" by simp
  note A0 = a6[rule_format, OF i0, THEN conjunct2, THEN conjunct2, rule_format]
  note A1 = a6[rule_format, OF i1, THEN conjunct2, THEN conjunct2, rule_format]
  note D0 = d6[rule_format, OF j0, THEN conjunct2, THEN conjunct2, rule_format]
  have n0: "(0::nat) < 2" and n1: "(1::nat) < 2" by simp_all
  have pad0: "(0::nat) < 2 - length ?s1" and obs1: "2 - length ?s1 \<le> (1::nat)" by simp_all
  have obs3: "2 - length ?s3 \<le> (0::nat)" "2 - length ?s3 \<le> (1::nat)" by simp_all
  from A0[OF n0, THEN conjunct1, rule_format, OF pad0]
  have p: "take 2 (drop (0 * 2) [0, 0, 0, 1]) = replicate 2 (0 :: fp)"
    unfolding o by simp
  from A0[OF n1, THEN conjunct2, rule_format, OF obs1] obtain k where
    k: "k < 2" "take 2 (drop (1 * 2) (onehot_t ! 0)) = (replicate 2 0)[k := 1]"
      "int k = (if True then hd ([[[1], [0]]] ! (1 + length ?s1 - 2) ! 0)
                else int (argmax_first (t ! (1 - (2 - length ?s1)) ! 0)))"
    and u': "sum_list (take 2 (drop (1 * 2) (onehot_t ! 0))) = 1"
    by blast
  from k(3) have "k = 1" by simp
  with k(2) have q: "take 2 (drop (1 * 2) [0, 0, 0, 1]) = (replicate 2 (0 :: fp))[1 := 1]"
    unfolding o by simp
  from u' have u: "sum_list (take 2 (drop (1 * 2) [0, 0, 0, 1 :: fp])) = 1"
    unfolding o by simp
  from A1[OF n1, THEN conjunct2, rule_format, OF obs1] obtain k' where
    k': "k' < 2" "take 2 (drop (1 * 2) (onehot_t ! 1)) = (replicate 2 0)[k' := 1]"
      "int k' = (if True then hd ([[[1], [0]]] ! (1 + length ?s1 - 2) ! 1)
                else int (argmax_first (t ! (1 - (2 - length ?s1)) ! 1)))"
    by blast
  from k'(3) have "k' = 0" by simp
  with k'(2) have q': "take 2 (drop (1 * 2) [0, 0, 1, 0]) = (replicate 2 (0 :: fp))[0 := 1]"
    unfolding o by simp
  from D0[OF n0, THEN conjunct2, rule_format, OF obs3(1), THEN conjunct2]
  have u0: "sum_list (take 2 (drop (0 * 2) [0, 1, 0, 1 :: fp])) = 1"
    unfolding o' by simp
  from D0[OF n1, THEN conjunct2, rule_format, OF obs3(2), THEN conjunct2]
  have u1: "sum_list (take 2 (drop (1 * 2) [0, 1, 0, 1 :: fp])) = 1"
    unfolding o' by simp
  from d5[rule_format, OF hC] obtain tb y0 y1 a b where
    g: "t_bernoulli_of argmax_first False (data_t ex_batch3) ?t3 = Inr tb"
    "Sequential_LRL ?hd0 ?x3 = Inr y0"
    "Sequential_LRL ?hd1 ?x3 = Inr y1"
    "torch_mul tb y1 = Inr a"
    "torch_mul (one_minus tb) y0 = Inr b"
    "torch_add a b = Inr [[33, 83], [54, 109]]"
    unfolding t' x' out.simps by blast
  show ?thesis
    by (intro conjI exI[of _ tb] exI[of _ y0] exI[of _ y1] exI[of _ a] exI[of _ b])
       (rule h0 hB s1 t1 e1 w1 b1 c1 y1 p q u q' hC s3 e3 w3 b3 c3 u0 u1 g)+
qed

end
